theory Spec2Isabelle
  imports Main
begin

section \<open>JSON values, Python truthiness and dictionary lookup\<close>

text \<open>
  A request body as \<^verbatim>\<open>request.get_json()\<close> returns it. JSON numbers are integers here
  (floating-point numbers are left out); an object is an association list read with
  \<open>map_of\<close>, so a key has the value of its first entry.
\<close>

datatype json =
    JNull
  | JBool bool
  | JNum int
  | JStr string
  | JArr "json list"
  | JObj "(string \<times> json) list"

text \<open>Python's \<^verbatim>\<open>not v\<close> is \<open>\<not> truthy v\<close>.\<close>

fun truthy :: "json \<Rightarrow> bool" where
  "truthy JNull = False"
| "truthy (JBool b) = b"
| "truthy (JNum n) = (n \<noteq> 0)"
| "truthy (JStr s) = (s \<noteq> [])"
| "truthy (JArr xs) = (xs \<noteq> [])"
| "truthy (JObj kv) = (kv \<noteq> [])"

text \<open>\<^verbatim>\<open>d.get(k, default)\<close> on a dict; \<^verbatim>\<open>d.get(k)\<close> is \<open>dict_get d k JNull\<close>.\<close>

definition dict_get :: "(string \<times> json) list \<Rightarrow> string \<Rightarrow> json \<Rightarrow> json" where
  "dict_get d k dflt = (case map_of d k of None \<Rightarrow> dflt | Some v \<Rightarrow> v)"

fun py_type_name :: "json \<Rightarrow> string" where
  "py_type_name JNull = ''NoneType''"
| "py_type_name (JBool b) = ''bool''"
| "py_type_name (JNum n) = ''int''"
| "py_type_name (JStr s) = ''str''"
| "py_type_name (JArr xs) = ''list''"
| "py_type_name (JObj kv) = ''dict''"

section \<open>Exceptions and responses\<close>

text \<open>
  The exceptions a handler's \<^verbatim>\<open>try\<close> block can meet: \<^verbatim>\<open>data.get\<close> on a body that
  is not a dict (\<open>AttributeError\<close>, carrying the Python type name), \<^verbatim>\<open>abort(404)\<close> inside
  Flask-SQLAlchemy's \<^verbatim>\<open>paginate\<close> (\<open>NotFound\<close>), an integer outside 64 bits bound to a
  statement (\<open>OverflowError\<close>, raised by the sqlite3 driver), and the exceptions of
  SQLAlchemy, each carrying the text of its \<^verbatim>\<open>str(e)\<close>: a constraint of the schema
  rejected (\<open>IntegrityError\<close>), a value the driver cannot bind (\<open>InterfaceError\<close>), any
  other failure of the storage engine (\<open>OperationalError\<close>), an UPDATE that matches no row
  (\<open>StaleDataError\<close>) and a reload that finds no row (\<open>ObjectDeletedError\<close>).
\<close>

datatype sa_error =
    IntegrityError
  | InterfaceError
  | OperationalError
  | StaleDataError
  | ObjectDeletedError

datatype exn =
    AttributeError string
  | NotFound
  | OverflowError
  | SQLAlchemyError sa_error string

definition quoted :: "string \<Rightarrow> string" where
  "quoted s = CHR 0x27 # s @ [CHR 0x27]"

fun str_exn :: "exn \<Rightarrow> string" where
  "str_exn (AttributeError ty) = quoted ty @ '' object has no attribute '' @ quoted ''get''"
| "str_exn NotFound =
     ''404 Not Found: The requested URL was not found on the server. If you entered the URL manually please check your spelling and try again.''"
| "str_exn OverflowError = ''Python int too large to convert to SQLite INTEGER''"
| "str_exn (SQLAlchemyError k m) = m"

record response =
  status_code :: nat
  body :: json

text \<open>\<^verbatim>\<open>return jsonify({'error': str(e)}), 500\<close>\<close>

definition error_500 :: "exn \<Rightarrow> response" where
  "error_500 x = \<lparr>status_code = 500, body = JObj [(''error'', JStr (str_exn x))]\<rparr>"

definition missing_required_fields :: response where
  "missing_required_fields =
     \<lparr>status_code = 400, body = JObj [(''error'', JStr ''Missing required fields'')]\<rparr>"

definition student_not_found :: response where
  "student_not_found =
     \<lparr>status_code = 404, body = JObj [(''error'', JStr ''Student not found'')]\<rparr>"

section \<open>The environment of a request\<close>

text \<open>
  What a handler reads from outside the repository:
  \<^item> the clock: \<open>now_timestamp\<close> is the text of \<^verbatim>\<open>datetime.now().timestamp()\<close>, \<open>utcnow\<close> the
    ISO text of \<^verbatim>\<open>datetime.utcnow()\<close>;
  \<^item> failures of the storage engine that neither the schema nor the values decide, each
    with the text of the exception: \<open>query_fault\<close> for the SELECT a handler issues,
    \<open>commit_fault\<close> for a commit, \<open>reload_fault\<close> for the SELECT by which \<^verbatim>\<open>to_dict\<close>
    reloads an object after a commit (a commit expires every loaded attribute);
  \<^item> \<open>error_text\<close>, the text of \<^verbatim>\<open>str(e)\<close> for an exception that SQLAlchemy raises in this
    request: the driver's message wrapped with the statement, its parameters and a link;
  \<^item> \<open>integer_text\<close>, what SQLite stores when text is written to an INTEGER column (text
    that looks like a number is converted, other text is kept);
  \<^item> the installed major version of Flask-SQLAlchemy, whose \<^verbatim>\<open>paginate\<close> rejects
    \<^verbatim>\<open>per_page < 0\<close> in version 2 and \<^verbatim>\<open>per_page < 1\<close> in version 3.
\<close>

datatype fsa_version = FSA2 | FSA3

fun min_per_page :: "fsa_version \<Rightarrow> int" where
  "min_per_page FSA2 = 0"
| "min_per_page FSA3 = 1"

record env =
  now_timestamp :: string
  utcnow :: string
  query_fault :: "string option"
  commit_fault :: "string option"
  reload_fault :: "string option"
  error_text :: "sa_error \<Rightarrow> string"
  integer_text :: "string \<Rightarrow> json"
  fsa :: fsa_version

definition raise_sa :: "env \<Rightarrow> sa_error \<Rightarrow> exn" where
  "raise_sa e k = SQLAlchemyError k (error_text e k)"

section \<open>Values as SQLite stores them\<close>

text \<open>An integer can be bound to a statement when it fits in 64 bits.\<close>

definition sqlite_int :: "int \<Rightarrow> bool" where
  "sqlite_int n = (- 9223372036854775808 \<le> n \<and> n < 9223372036854775808)"

text \<open>The decimal text of an integer.\<close>

fun dec_nat :: "nat \<Rightarrow> string" where
  "dec_nat n =
     (if n < 10 then [''0123456789'' ! n]
      else dec_nat (n div 10) @ [''0123456789'' ! (n mod 10)])"

definition dec_int :: "int \<Rightarrow> string" where
  "dec_int n = (if n < 0 then CHR ''-'' # dec_nat (nat (- n)) else dec_nat (nat n))"

text \<open>
  Binding a value of the payload as a statement parameter: the driver takes null, text,
  booleans and integers of 64 bits, and raises for a larger integer, a list or an object.
  The parameters of a statement are bound in order, so the first that fails decides.
\<close>

fun bind_param :: "env \<Rightarrow> json \<Rightarrow> exn option" where
  "bind_param e JNull = None"
| "bind_param e (JBool b) = None"
| "bind_param e (JNum n) = (if sqlite_int n then None else Some OverflowError)"
| "bind_param e (JStr s) = None"
| "bind_param e (JArr xs) = Some (raise_sa e InterfaceError)"
| "bind_param e (JObj kv) = Some (raise_sa e InterfaceError)"

fun first_bind_error :: "env \<Rightarrow> json list \<Rightarrow> exn option" where
  "first_bind_error e [] = None"
| "first_bind_error e (v # vs) =
     (case bind_param e v of Some x \<Rightarrow> Some x | None \<Rightarrow> first_bind_error e vs)"

text \<open>
  What a \<^verbatim>\<open>db.String\<close> column (TEXT affinity) holds after a bound value is written, and
  what a reload returns: text and null as they are, an integer as its decimal text, a
  boolean (bound as 1 or 0) as the text of that digit.
\<close>

fun text_affinity :: "json \<Rightarrow> json" where
  "text_affinity JNull = JNull"
| "text_affinity (JBool b) = JStr (if b then ''1'' else ''0'')"
| "text_affinity (JNum n) = JStr (dec_int n)"
| "text_affinity (JStr s) = JStr s"
| "text_affinity (JArr xs) = JArr xs"
| "text_affinity (JObj kv) = JObj kv"

text \<open>The same for a \<^verbatim>\<open>db.Integer\<close> column (INTEGER affinity).\<close>

fun integer_affinity :: "env \<Rightarrow> json \<Rightarrow> json" where
  "integer_affinity e JNull = JNull"
| "integer_affinity e (JBool b) = JNum (if b then 1 else 0)"
| "integer_affinity e (JNum n) = JNum n"
| "integer_affinity e (JStr s) = integer_text e s"
| "integer_affinity e (JArr xs) = JArr xs"
| "integer_affinity e (JObj kv) = JObj kv"

section \<open>models.py: the three tables\<close>

text \<open>
  A row holds each column a handler assigns as the JSON value SQLite stores for it
  (\<open>JNull\<close> is SQL NULL); dates and timestamps are held as their ISO text.
  \<open>enrollment_date\<close> and \<open>hire_date\<close> have a column default and no handler assigns them,
  so they are not optional.
\<close>

record Student =
  s_id :: int
  s_student_id :: json
  s_first_name :: json
  s_last_name :: json
  s_email :: json
  s_phone :: json
  s_date_of_birth :: "string option"
  s_enrollment_date :: string
  s_class_id :: "int option"
  s_status :: json
  s_created_at :: string
  s_updated_at :: string

record Teacher =
  t_id :: int
  t_teacher_id :: json
  t_first_name :: json
  t_last_name :: json
  t_email :: json
  t_phone :: json
  t_specialization :: json
  t_hire_date :: string
  t_status :: json
  t_created_at :: string
  t_updated_at :: string

record Class =
  c_id :: int
  c_class_name :: json
  c_grade_level :: json
  c_teacher_id :: json
  c_max_capacity :: json
  c_room_number :: json
  c_status :: json
  c_created_at :: string
  c_updated_at :: string

record db =
  students :: "Student list"
  teachers :: "Teacher list"
  classes :: "Class list"

text \<open>\<^verbatim>\<open>Student.to_dict\<close>, \<^verbatim>\<open>Teacher.to_dict\<close>\<close>

definition opt_str :: "string option \<Rightarrow> json" where
  "opt_str x = (case x of None \<Rightarrow> JNull | Some s \<Rightarrow> JStr s)"

definition opt_int :: "int option \<Rightarrow> json" where
  "opt_int x = (case x of None \<Rightarrow> JNull | Some n \<Rightarrow> JNum n)"

definition student_to_dict :: "Student \<Rightarrow> json" where
  "student_to_dict s = JObj
     [(''id'', JNum (s_id s)),
      (''student_id'', s_student_id s),
      (''first_name'', s_first_name s),
      (''last_name'', s_last_name s),
      (''email'', s_email s),
      (''phone'', s_phone s),
      (''date_of_birth'', opt_str (s_date_of_birth s)),
      (''enrollment_date'', JStr (s_enrollment_date s)),
      (''class_id'', opt_int (s_class_id s)),
      (''status'', s_status s)]"

definition teacher_to_dict :: "Teacher \<Rightarrow> json" where
  "teacher_to_dict t = JObj
     [(''id'', JNum (t_id t)),
      (''teacher_id'', t_teacher_id t),
      (''first_name'', t_first_name t),
      (''last_name'', t_last_name t),
      (''email'', t_email t),
      (''phone'', t_phone t),
      (''specialization'', t_specialization t),
      (''hire_date'', JStr (t_hire_date t)),
      (''status'', t_status t)]"

text \<open>
  \<^verbatim>\<open>Class.to_dict\<close>: \<^verbatim>\<open>self.students\<close> is the relationship through \<^verbatim>\<open>Student.class_id\<close>,
  the stored students whose \<open>class_id\<close> is this class's id.
\<close>

definition class_students :: "db \<Rightarrow> Class \<Rightarrow> Student list" where
  "class_students d c = filter (\<lambda>s. s_class_id s = Some (c_id c)) (students d)"

definition class_to_dict :: "db \<Rightarrow> Class \<Rightarrow> json" where
  "class_to_dict d c = JObj
     [(''id'', JNum (c_id c)),
      (''class_name'', c_class_name c),
      (''grade_level'', c_grade_level c),
      (''teacher_id'', c_teacher_id c),
      (''max_capacity'', c_max_capacity c),
      (''room_number'', c_room_number c),
      (''status'', c_status c),
      (''student_count'', JNum (int (length (class_students d c))))]"

section \<open>The session: pending changes, flush, commit and rollback\<close>

text \<open>
  The keyword arguments the handlers pass to the constructors \<^verbatim>\<open>Student(...)\<close>,
  \<^verbatim>\<open>Teacher(...)\<close> and \<^verbatim>\<open>Class(...)\<close>; every other column is filled at INSERT.
\<close>

record new_student =
  ns_student_id :: json
  ns_first_name :: json
  ns_last_name :: json
  ns_email :: json
  ns_phone :: json
  ns_status :: json

record new_teacher =
  nt_teacher_id :: json
  nt_first_name :: json
  nt_last_name :: json
  nt_email :: json
  nt_phone :: json
  nt_specialization :: json
  nt_status :: json

record new_class =
  nc_class_name :: json
  nc_grade_level :: json
  nc_teacher_id :: json
  nc_max_capacity :: json
  nc_room_number :: json
  nc_status :: json

datatype pending =
    Insert_Student new_student
  | Insert_Teacher new_teacher
  | Insert_Class new_class
  | Update_Student Student
  | Delete_Student int

record state =
  stored :: db
  pending :: "pending list"

text \<open>A request starts with a session that has nothing pending.\<close>

definition session_begin :: "db \<Rightarrow> state" where
  "session_begin d = \<lparr>stored = d, pending = []\<rparr>"

definition session_add :: "pending \<Rightarrow> state \<Rightarrow> state" where
  "session_add p st = st\<lparr>pending := pending st @ [p]\<rparr>"

definition rollback :: "state \<Rightarrow> state" where
  "rollback st = st\<lparr>pending := []\<rparr>"

text \<open>The integer primary key of an inserted row: one more than the largest in the table.\<close>

definition next_id :: "int list \<Rightarrow> int" where
  "next_id ids = fold max ids 0 + 1"

text \<open>
  The row an INSERT writes: the constructor's arguments as the columns store them, the
  key, the column defaults. A \<^verbatim>\<open>max_capacity\<close> of None takes the column default 40.
\<close>

definition student_row :: "env \<Rightarrow> new_student \<Rightarrow> db \<Rightarrow> Student" where
  "student_row e n d =
     \<lparr>s_id = next_id (map s_id (students d)),
      s_student_id = text_affinity (ns_student_id n),
      s_first_name = text_affinity (ns_first_name n),
      s_last_name = text_affinity (ns_last_name n),
      s_email = text_affinity (ns_email n),
      s_phone = text_affinity (ns_phone n),
      s_date_of_birth = None,
      s_enrollment_date = utcnow e,
      s_class_id = None,
      s_status = text_affinity (ns_status n),
      s_created_at = utcnow e,
      s_updated_at = utcnow e\<rparr>"

definition teacher_row :: "env \<Rightarrow> new_teacher \<Rightarrow> db \<Rightarrow> Teacher" where
  "teacher_row e n d =
     \<lparr>t_id = next_id (map t_id (teachers d)),
      t_teacher_id = text_affinity (nt_teacher_id n),
      t_first_name = text_affinity (nt_first_name n),
      t_last_name = text_affinity (nt_last_name n),
      t_email = text_affinity (nt_email n),
      t_phone = text_affinity (nt_phone n),
      t_specialization = text_affinity (nt_specialization n),
      t_hire_date = utcnow e,
      t_status = text_affinity (nt_status n),
      t_created_at = utcnow e,
      t_updated_at = utcnow e\<rparr>"

definition class_row :: "env \<Rightarrow> new_class \<Rightarrow> db \<Rightarrow> Class" where
  "class_row e n d =
     \<lparr>c_id = next_id (map c_id (classes d)),
      c_class_name = text_affinity (nc_class_name n),
      c_grade_level = text_affinity (nc_grade_level n),
      c_teacher_id = integer_affinity e (nc_teacher_id n),
      c_max_capacity =
        (if nc_max_capacity n = JNull then JNum 40
         else integer_affinity e (nc_max_capacity n)),
      c_room_number = text_affinity (nc_room_number n),
      c_status = text_affinity (nc_status n),
      c_created_at = utcnow e,
      c_updated_at = utcnow e\<rparr>"

text \<open>
  The constraints models.py declares, checked for a row against the other rows of its
  table: \<^verbatim>\<open>nullable=False\<close> and \<^verbatim>\<open>unique=True\<close>. Foreign keys are not checked, as in
  SQLite, the configured default database, and column lengths are not enforced.
\<close>

definition student_violates :: "Student \<Rightarrow> Student list \<Rightarrow> bool" where
  "student_violates r others =
     (s_student_id r = JNull \<or> s_first_name r = JNull \<or> s_last_name r = JNull
      \<or> s_email r = JNull
      \<or> s_student_id r \<in> set (map s_student_id others)
      \<or> s_email r \<in> set (map s_email others))"

definition teacher_violates :: "Teacher \<Rightarrow> Teacher list \<Rightarrow> bool" where
  "teacher_violates r others =
     (t_teacher_id r = JNull \<or> t_first_name r = JNull \<or> t_last_name r = JNull
      \<or> t_email r = JNull
      \<or> t_teacher_id r \<in> set (map t_teacher_id others)
      \<or> t_email r \<in> set (map t_email others))"

definition class_violates :: "Class \<Rightarrow> Class list \<Rightarrow> bool" where
  "class_violates r others =
     (c_class_name r = JNull \<or> c_grade_level r = JNull
      \<or> c_class_name r \<in> set (map c_class_name others))"

text \<open>
  The row an UPDATE of a student writes: the five columns the handler assigns as the
  columns store them, and \<open>updated_at\<close> (\<^verbatim>\<open>onupdate=datetime.utcnow\<close>).
\<close>

definition updated_row :: "env \<Rightarrow> Student \<Rightarrow> Student" where
  "updated_row e r =
     r\<lparr>s_first_name := text_affinity (s_first_name r),
       s_last_name := text_affinity (s_last_name r),
       s_email := text_affinity (s_email r),
       s_phone := text_affinity (s_phone r),
       s_status := text_affinity (s_status r),
       s_updated_at := utcnow e\<rparr>"

text \<open>
  One pending change written to the tables: the parameters are bound, then the statement
  runs against the constraints. An UPDATE is emitted only for an object whose attributes
  differ from the loaded row.
\<close>

fun flush_op :: "env \<Rightarrow> pending \<Rightarrow> db \<Rightarrow> exn + db" where
  "flush_op e (Insert_Student n) d =
     (case first_bind_error e
             [ns_student_id n, ns_first_name n, ns_last_name n, ns_email n, ns_phone n,
              ns_status n] of
        Some x \<Rightarrow> Inl x
      | None \<Rightarrow>
          (let r = student_row e n d in
           if student_violates r (students d) then Inl (raise_sa e IntegrityError)
           else Inr (d\<lparr>students := students d @ [r]\<rparr>)))"
| "flush_op e (Insert_Teacher n) d =
     (case first_bind_error e
             [nt_teacher_id n, nt_first_name n, nt_last_name n, nt_email n, nt_phone n,
              nt_specialization n, nt_status n] of
        Some x \<Rightarrow> Inl x
      | None \<Rightarrow>
          (let r = teacher_row e n d in
           if teacher_violates r (teachers d) then Inl (raise_sa e IntegrityError)
           else Inr (d\<lparr>teachers := teachers d @ [r]\<rparr>)))"
| "flush_op e (Insert_Class n) d =
     (case first_bind_error e
             [nc_class_name n, nc_grade_level n, nc_teacher_id n, nc_max_capacity n,
              nc_room_number n, nc_status n] of
        Some x \<Rightarrow> Inl x
      | None \<Rightarrow>
          (let r = class_row e n d in
           if class_violates r (classes d) then Inl (raise_sa e IntegrityError)
           else Inr (d\<lparr>classes := classes d @ [r]\<rparr>)))"
| "flush_op e (Update_Student r) d =
     (case find (\<lambda>x. s_id x = s_id r) (students d) of
        None \<Rightarrow> Inl (raise_sa e StaleDataError)
      | Some old \<Rightarrow>
          if r = old then Inr d
          else
            (case first_bind_error e
                    [s_first_name r, s_last_name r, s_email r, s_phone r, s_status r] of
               Some x \<Rightarrow> Inl x
             | None \<Rightarrow>
                 if student_violates (updated_row e r)
                      (filter (\<lambda>x. s_id x \<noteq> s_id r) (students d))
                 then Inl (raise_sa e IntegrityError)
                 else Inr (d\<lparr>students :=
                             map (\<lambda>x. if s_id x = s_id r then updated_row e r else x)
                               (students d)\<rparr>)))"
| "flush_op e (Delete_Student k) d =
     Inr (d\<lparr>students := filter (\<lambda>x. s_id x \<noteq> k) (students d)\<rparr>)"

fun flush :: "env \<Rightarrow> pending list \<Rightarrow> db \<Rightarrow> exn + db" where
  "flush e [] d = Inr d"
| "flush e (p # ps) d = (case flush_op e p d of Inl x \<Rightarrow> Inl x | Inr d' \<Rightarrow> flush e ps d')"

text \<open>
  \<^verbatim>\<open>db.session.commit()\<close>: either every pending change is written and the session is
  clean, or an exception is raised and the tables are as before (the session keeps its
  pending changes until it is rolled back).
\<close>

definition commit :: "env \<Rightarrow> state \<Rightarrow> exn option \<times> state" where
  "commit e st =
     (case flush e (pending st) (stored st) of
        Inl x \<Rightarrow> (Some x, st)
      | Inr d \<Rightarrow>
          (case commit_fault e of
             Some m \<Rightarrow> (Some (SQLAlchemyError OperationalError m), st)
           | None \<Rightarrow> (None, \<lparr>stored = d, pending = []\<rparr>)))"

section \<open>Queries\<close>

text \<open>
  \<^verbatim>\<open>Student.query.get(student_id)\<close>: the row with that primary key, or None. The key is
  bound to the SELECT, so a key outside 64 bits raises.
\<close>

definition Student_query_get :: "env \<Rightarrow> state \<Rightarrow> int \<Rightarrow> exn + Student option" where
  "Student_query_get e st k =
     (case query_fault e of
        Some m \<Rightarrow> Inl (SQLAlchemyError OperationalError m)
      | None \<Rightarrow>
          if \<not> sqlite_int k then Inl OverflowError
          else Inr (find (\<lambda>x. s_id x = k) (students (stored st))))"

text \<open>
  The reload of an object whose attributes a commit has expired, as the first attribute
  access of \<^verbatim>\<open>to_dict\<close> triggers it: a SELECT of the row by its primary key.
\<close>

definition reload_student :: "env \<Rightarrow> state \<Rightarrow> int \<Rightarrow> exn + Student" where
  "reload_student e st k =
     (case reload_fault e of
        Some m \<Rightarrow> Inl (SQLAlchemyError OperationalError m)
      | None \<Rightarrow>
          (case find (\<lambda>x. s_id x = k) (students (stored st)) of
             None \<Rightarrow> Inl (raise_sa e ObjectDeletedError)
           | Some r \<Rightarrow> Inr r))"

definition reload_teacher :: "env \<Rightarrow> state \<Rightarrow> int \<Rightarrow> exn + Teacher" where
  "reload_teacher e st k =
     (case reload_fault e of
        Some m \<Rightarrow> Inl (SQLAlchemyError OperationalError m)
      | None \<Rightarrow>
          (case find (\<lambda>x. t_id x = k) (teachers (stored st)) of
             None \<Rightarrow> Inl (raise_sa e ObjectDeletedError)
           | Some r \<Rightarrow> Inr r))"

definition reload_class :: "env \<Rightarrow> state \<Rightarrow> int \<Rightarrow> exn + Class" where
  "reload_class e st k =
     (case reload_fault e of
        Some m \<Rightarrow> Inl (SQLAlchemyError OperationalError m)
      | None \<Rightarrow>
          (case find (\<lambda>x. c_id x = k) (classes (stored st)) of
             None \<Rightarrow> Inl (raise_sa e ObjectDeletedError)
           | Some r \<Rightarrow> Inr r))"

text \<open>
  Flask-SQLAlchemy's \<^verbatim>\<open>query.paginate(page=page, per_page=per_page)\<close>, called with its
  default \<^verbatim>\<open>error_out=True\<close> and no \<^verbatim>\<open>max_per_page\<close>: it calls \<^verbatim>\<open>abort(404)\<close> when
  \<open>page < 1\<close> and when \<open>per_page\<close> is below the least accepted value; then it runs
  \<^verbatim>\<open>LIMIT per_page OFFSET (page - 1) * per_page\<close> on the table, which raises when one of
  the two bound integers is outside 64 bits; it calls \<^verbatim>\<open>abort(404)\<close> when the page has no
  items and is not page 1. \<open>total\<close> is the count of the table, \<open>pages\<close> is
  \<open>total / per_page\<close> rounded up (0 when \<open>per_page\<close> is 0).
\<close>

record 'a pagination =
  p_items :: "'a list"
  p_total :: int
  p_pages :: int

definition paginate :: "env \<Rightarrow> 'a list \<Rightarrow> int \<Rightarrow> int \<Rightarrow> exn + 'a pagination" where
  "paginate e rows page per_page =
     (if page < 1 then Inl NotFound
      else if per_page < min_per_page (fsa e) then Inl NotFound
      else
        (case query_fault e of
           Some m \<Rightarrow> Inl (SQLAlchemyError OperationalError m)
         | None \<Rightarrow>
             if \<not> sqlite_int per_page \<or> \<not> sqlite_int ((page - 1) * per_page)
             then Inl OverflowError
             else
               (let its = take (nat per_page) (drop (nat ((page - 1) * per_page)) rows) in
                if its = [] \<and> page \<noteq> 1 then Inl NotFound
                else Inr \<lparr>p_items = its,
                          p_total = int (length rows),
                          p_pages = (if per_page = 0 then 0
                                     else - ((- int (length rows)) div per_page))\<rparr>)))"

text \<open>\<^verbatim>\<open>request.args.get(name, default, type=int)\<close>: the argument is None when the query
  string has no such parameter or one that is not an integer.\<close>

definition args_get :: "int option \<Rightarrow> int \<Rightarrow> int" where
  "args_get a dflt = (case a of None \<Rightarrow> dflt | Some n \<Rightarrow> n)"

section \<open>routes.py: the student handlers\<close>

text \<open>
  A handler's \<^verbatim>\<open>except Exception\<close> clause, without and with \<^verbatim>\<open>db.session.rollback()\<close>.
  In the creating and updating handlers the try block goes on after the commit:
  \<^verbatim>\<open>to_dict()\<close> reloads the committed row, and what it returns is the body.
\<close>

definition except_500 :: "exn + response \<Rightarrow> state \<Rightarrow> response \<times> state" where
  "except_500 r st = (case r of Inl x \<Rightarrow> (error_500 x, st) | Inr resp \<Rightarrow> (resp, st))"

definition except_rollback_500 :: "(exn + response) \<times> state \<Rightarrow> response \<times> state" where
  "except_rollback_500 r =
     (case r of
        (Inl x, st) \<Rightarrow> (error_500 x, rollback st)
      | (Inr resp, st) \<Rightarrow> (resp, st))"

definition get_all_students_try :: "env \<Rightarrow> int option \<Rightarrow> int option \<Rightarrow> state \<Rightarrow> exn + response" where
  "get_all_students_try e page_arg per_page_arg st =
     (let page = args_get page_arg 1;
          per_page = args_get per_page_arg 10
      in case paginate e (students (stored st)) page per_page of
           Inl x \<Rightarrow> Inl x
         | Inr pagination \<Rightarrow>
             Inr \<lparr>status_code = 200,
                  body = JObj
                    [(''students'', JArr (map student_to_dict (p_items pagination))),
                     (''total'', JNum (p_total pagination)),
                     (''pages'', JNum (p_pages pagination)),
                     (''current_page'', JNum page)]\<rparr>)"

definition get_all_students :: "env \<Rightarrow> int option \<Rightarrow> int option \<Rightarrow> state \<Rightarrow> response \<times> state" where
  "get_all_students e page_arg per_page_arg st =
     except_500 (get_all_students_try e page_arg per_page_arg st) st"

definition get_student_try :: "env \<Rightarrow> int \<Rightarrow> state \<Rightarrow> exn + response" where
  "get_student_try e student_id st =
     (case Student_query_get e st student_id of
        Inl x \<Rightarrow> Inl x
      | Inr None \<Rightarrow> Inr student_not_found
      | Inr (Some student) \<Rightarrow> Inr \<lparr>status_code = 200, body = student_to_dict student\<rparr>)"

definition get_student :: "env \<Rightarrow> int \<Rightarrow> state \<Rightarrow> response \<times> state" where
  "get_student e student_id st = except_500 (get_student_try e student_id st) st"

definition create_student_try :: "env \<Rightarrow> json \<Rightarrow> state \<Rightarrow> (exn + response) \<times> state" where
  "create_student_try e data st =
     (case data of
        JObj d \<Rightarrow>
          if \<not> truthy (dict_get d ''first_name'' JNull)
             \<or> \<not> truthy (dict_get d ''last_name'' JNull)
             \<or> \<not> truthy (dict_get d ''email'' JNull)
          then (Inr missing_required_fields, st)
          else
            (let student =
                   \<lparr>ns_student_id = dict_get d ''student_id'' (JStr (''STU-'' @ now_timestamp e)),
                    ns_first_name = dict_get d ''first_name'' JNull,
                    ns_last_name = dict_get d ''last_name'' JNull,
                    ns_email = dict_get d ''email'' JNull,
                    ns_phone = dict_get d ''phone'' JNull,
                    ns_status = JStr ''active''\<rparr>;
                 st1 = session_add (Insert_Student student) st
             in case commit e st1 of
                  (Some x, st2) \<Rightarrow> (Inl x, st2)
                | (None, st2) \<Rightarrow>
                    (case reload_student e st2 (next_id (map s_id (students (stored st1)))) of
                       Inl x \<Rightarrow> (Inl x, st2)
                     | Inr row \<Rightarrow>
                         (Inr \<lparr>status_code = 201, body = student_to_dict row\<rparr>, st2)))
      | _ \<Rightarrow> (Inl (AttributeError (py_type_name data)), st))"

definition create_student :: "env \<Rightarrow> json \<Rightarrow> state \<Rightarrow> response \<times> state" where
  "create_student e data st = except_rollback_500 (create_student_try e data st)"

text \<open>The five assignments of \<^verbatim>\<open>update_student\<close>.\<close>

definition assign_fields :: "(string \<times> json) list \<Rightarrow> Student \<Rightarrow> Student" where
  "assign_fields d student =
     student\<lparr>s_first_name := dict_get d ''first_name'' (s_first_name student),
             s_last_name := dict_get d ''last_name'' (s_last_name student),
             s_email := dict_get d ''email'' (s_email student),
             s_phone := dict_get d ''phone'' (s_phone student),
             s_status := dict_get d ''status'' (s_status student)\<rparr>"

definition update_student_try :: "env \<Rightarrow> int \<Rightarrow> json \<Rightarrow> state \<Rightarrow> (exn + response) \<times> state" where
  "update_student_try e student_id data st =
     (case Student_query_get e st student_id of
        Inl x \<Rightarrow> (Inl x, st)
      | Inr None \<Rightarrow> (Inr student_not_found, st)
      | Inr (Some student) \<Rightarrow>
          (case data of
             JObj d \<Rightarrow>
               (let student' = assign_fields d student;
                    st1 = session_add (Update_Student student') st
                in case commit e st1 of
                     (Some x, st2) \<Rightarrow> (Inl x, st2)
                   | (None, st2) \<Rightarrow>
                       (case reload_student e st2 (s_id student') of
                          Inl x \<Rightarrow> (Inl x, st2)
                        | Inr row \<Rightarrow>
                            (Inr \<lparr>status_code = 200, body = student_to_dict row\<rparr>, st2)))
           | _ \<Rightarrow> (Inl (AttributeError (py_type_name data)), st)))"

definition update_student :: "env \<Rightarrow> int \<Rightarrow> json \<Rightarrow> state \<Rightarrow> response \<times> state" where
  "update_student e student_id data st =
     except_rollback_500 (update_student_try e student_id data st)"

definition delete_student_try :: "env \<Rightarrow> int \<Rightarrow> state \<Rightarrow> (exn + response) \<times> state" where
  "delete_student_try e student_id st =
     (case Student_query_get e st student_id of
        Inl x \<Rightarrow> (Inl x, st)
      | Inr None \<Rightarrow> (Inr student_not_found, st)
      | Inr (Some student) \<Rightarrow>
          (let st1 = session_add (Delete_Student (s_id student)) st
           in case commit e st1 of
                (Some x, st2) \<Rightarrow> (Inl x, st2)
              | (None, st2) \<Rightarrow>
                  (Inr \<lparr>status_code = 200,
                        body = JObj [(''message'', JStr ''Student deleted successfully'')]\<rparr>,
                   st2)))"

definition delete_student :: "env \<Rightarrow> int \<Rightarrow> state \<Rightarrow> response \<times> state" where
  "delete_student e student_id st = except_rollback_500 (delete_student_try e student_id st)"

section \<open>routes.py: the teacher handlers\<close>

definition get_all_teachers_try :: "env \<Rightarrow> int option \<Rightarrow> int option \<Rightarrow> state \<Rightarrow> exn + response" where
  "get_all_teachers_try e page_arg per_page_arg st =
     (let page = args_get page_arg 1;
          per_page = args_get per_page_arg 10
      in case paginate e (teachers (stored st)) page per_page of
           Inl x \<Rightarrow> Inl x
         | Inr pagination \<Rightarrow>
             Inr \<lparr>status_code = 200,
                  body = JObj
                    [(''teachers'', JArr (map teacher_to_dict (p_items pagination))),
                     (''total'', JNum (p_total pagination)),
                     (''pages'', JNum (p_pages pagination)),
                     (''current_page'', JNum page)]\<rparr>)"

definition get_all_teachers :: "env \<Rightarrow> int option \<Rightarrow> int option \<Rightarrow> state \<Rightarrow> response \<times> state" where
  "get_all_teachers e page_arg per_page_arg st =
     except_500 (get_all_teachers_try e page_arg per_page_arg st) st"

definition create_teacher_try :: "env \<Rightarrow> json \<Rightarrow> state \<Rightarrow> (exn + response) \<times> state" where
  "create_teacher_try e data st =
     (case data of
        JObj d \<Rightarrow>
          if \<not> truthy (dict_get d ''first_name'' JNull)
             \<or> \<not> truthy (dict_get d ''last_name'' JNull)
             \<or> \<not> truthy (dict_get d ''email'' JNull)
          then (Inr missing_required_fields, st)
          else
            (let teacher =
                   \<lparr>nt_teacher_id = dict_get d ''teacher_id'' (JStr (''TCH-'' @ now_timestamp e)),
                    nt_first_name = dict_get d ''first_name'' JNull,
                    nt_last_name = dict_get d ''last_name'' JNull,
                    nt_email = dict_get d ''email'' JNull,
                    nt_phone = dict_get d ''phone'' JNull,
                    nt_specialization = dict_get d ''specialization'' JNull,
                    nt_status = JStr ''active''\<rparr>;
                 st1 = session_add (Insert_Teacher teacher) st
             in case commit e st1 of
                  (Some x, st2) \<Rightarrow> (Inl x, st2)
                | (None, st2) \<Rightarrow>
                    (case reload_teacher e st2 (next_id (map t_id (teachers (stored st1)))) of
                       Inl x \<Rightarrow> (Inl x, st2)
                     | Inr row \<Rightarrow>
                         (Inr \<lparr>status_code = 201, body = teacher_to_dict row\<rparr>, st2)))
      | _ \<Rightarrow> (Inl (AttributeError (py_type_name data)), st))"

definition create_teacher :: "env \<Rightarrow> json \<Rightarrow> state \<Rightarrow> response \<times> state" where
  "create_teacher e data st = except_rollback_500 (create_teacher_try e data st)"

section \<open>routes.py: the class handlers\<close>

text \<open>\<^verbatim>\<open>Class.query.all()\<close>\<close>

definition Class_query_all :: "env \<Rightarrow> state \<Rightarrow> exn + Class list" where
  "Class_query_all e st =
     (case query_fault e of
        Some m \<Rightarrow> Inl (SQLAlchemyError OperationalError m)
      | None \<Rightarrow> Inr (classes (stored st)))"

definition get_all_classes_try :: "env \<Rightarrow> state \<Rightarrow> exn + response" where
  "get_all_classes_try e st =
     (case Class_query_all e st of
        Inl x \<Rightarrow> Inl x
      | Inr cs \<Rightarrow>
          Inr \<lparr>status_code = 200,
               body = JObj
                 [(''classes'', JArr (map (class_to_dict (stored st)) cs)),
                  (''total'', JNum (int (length cs)))]\<rparr>)"

definition get_all_classes :: "env \<Rightarrow> state \<Rightarrow> response \<times> state" where
  "get_all_classes e st = except_500 (get_all_classes_try e st) st"

definition create_class_try :: "env \<Rightarrow> json \<Rightarrow> state \<Rightarrow> (exn + response) \<times> state" where
  "create_class_try e data st =
     (case data of
        JObj d \<Rightarrow>
          if \<not> truthy (dict_get d ''class_name'' JNull)
             \<or> \<not> truthy (dict_get d ''grade_level'' JNull)
          then (Inr missing_required_fields, st)
          else
            (let class_obj =
                   \<lparr>nc_class_name = dict_get d ''class_name'' JNull,
                    nc_grade_level = dict_get d ''grade_level'' JNull,
                    nc_teacher_id = dict_get d ''teacher_id'' JNull,
                    nc_max_capacity = dict_get d ''max_capacity'' (JNum 40),
                    nc_room_number = dict_get d ''room_number'' JNull,
                    nc_status = JStr ''active''\<rparr>;
                 st1 = session_add (Insert_Class class_obj) st
             in case commit e st1 of
                  (Some x, st2) \<Rightarrow> (Inl x, st2)
                | (None, st2) \<Rightarrow>
                    (case reload_class e st2 (next_id (map c_id (classes (stored st1)))) of
                       Inl x \<Rightarrow> (Inl x, st2)
                     | Inr row \<Rightarrow>
                         (Inr \<lparr>status_code = 201, body = class_to_dict (stored st2) row\<rparr>,
                          st2)))
      | _ \<Rightarrow> (Inl (AttributeError (py_type_name data)), st))"

definition create_class :: "env \<Rightarrow> json \<Rightarrow> state \<Rightarrow> response \<times> state" where
  "create_class e data st = except_rollback_500 (create_class_try e data st)"

section \<open>Reading a request and a response\<close>

definition is_object :: "json \<Rightarrow> bool" where
  "is_object j = (case j of JObj kv \<Rightarrow> True | _ \<Rightarrow> False)"

text \<open>The value of a key of a JSON object, as a client reads it from a response body.\<close>

definition json_field :: "json \<Rightarrow> string \<Rightarrow> json option" where
  "json_field j k = (case j of JObj kv \<Rightarrow> map_of kv k | _ \<Rightarrow> None)"

section \<open>Names for what the handlers pass and what storage accepts\<close>

text \<open>The constructor calls of \<^verbatim>\<open>create_student\<close>, \<^verbatim>\<open>create_teacher\<close> and \<^verbatim>\<open>create_class\<close>.\<close>

definition student_args :: "env \<Rightarrow> (string \<times> json) list \<Rightarrow> new_student" where
  "student_args e d =
     \<lparr>ns_student_id = dict_get d ''student_id'' (JStr (''STU-'' @ now_timestamp e)),
      ns_first_name = dict_get d ''first_name'' JNull,
      ns_last_name = dict_get d ''last_name'' JNull,
      ns_email = dict_get d ''email'' JNull,
      ns_phone = dict_get d ''phone'' JNull,
      ns_status = JStr ''active''\<rparr>"

definition teacher_args :: "env \<Rightarrow> (string \<times> json) list \<Rightarrow> new_teacher" where
  "teacher_args e d =
     \<lparr>nt_teacher_id = dict_get d ''teacher_id'' (JStr (''TCH-'' @ now_timestamp e)),
      nt_first_name = dict_get d ''first_name'' JNull,
      nt_last_name = dict_get d ''last_name'' JNull,
      nt_email = dict_get d ''email'' JNull,
      nt_phone = dict_get d ''phone'' JNull,
      nt_specialization = dict_get d ''specialization'' JNull,
      nt_status = JStr ''active''\<rparr>"

definition class_args :: "(string \<times> json) list \<Rightarrow> new_class" where
  "class_args d =
     \<lparr>nc_class_name = dict_get d ''class_name'' JNull,
      nc_grade_level = dict_get d ''grade_level'' JNull,
      nc_teacher_id = dict_get d ''teacher_id'' JNull,
      nc_max_capacity = dict_get d ''max_capacity'' (JNum 40),
      nc_room_number = dict_get d ''room_number'' JNull,
      nc_status = JStr ''active''\<rparr>"

text \<open>A value the driver binds: not a list, not an object, not an integer beyond 64 bits.\<close>

fun storable :: "json \<Rightarrow> bool" where
  "storable JNull = True"
| "storable (JBool b) = True"
| "storable (JNum n) = sqlite_int n"
| "storable (JStr s) = True"
| "storable (JArr xs) = False"
| "storable (JObj kv) = False"

section \<open>Example data\<close>

text \<open>
  An environment without failures. Its exception texts and its rule for text in an
  INTEGER column (plain decimal digits become the number) are examples of what the
  storage engine supplies.
\<close>

fun example_text :: "sa_error \<Rightarrow> string" where
  "example_text IntegrityError = ''(sqlite3.IntegrityError) constraint failed''"
| "example_text InterfaceError = ''(sqlite3.InterfaceError) Error binding parameter''"
| "example_text OperationalError = ''(sqlite3.OperationalError) unable to open database file''"
| "example_text StaleDataError = ''UPDATE statement expected to update 1 row(s); 0 were matched.''"
| "example_text ObjectDeletedError = ''Instance has been deleted, or its row is otherwise not present.''"

definition digits_text :: "string \<Rightarrow> json" where
  "digits_text s =
     (if s \<noteq> [] \<and> list_all (\<lambda>c. c \<in> set ''0123456789'') s
      then JNum (fold (\<lambda>c n. 10 * n + (int (of_char c) - 48)) s 0)
      else JStr s)"

definition env0 :: env where
  "env0 = \<lparr>now_timestamp = ''1700000000.5'', utcnow = ''2023-11-14T22:13:20'',
           query_fault = None, commit_fault = None, reload_fault = None,
           error_text = example_text, integer_text = digits_text, fsa = FSA3\<rparr>"

definition env_locked :: env where
  "env_locked = env0\<lparr>commit_fault := Some ''(sqlite3.OperationalError) database is locked''\<rparr>"

definition env_reload_lost :: env where
  "env_reload_lost =
     env0\<lparr>reload_fault := Some ''(sqlite3.OperationalError) disk I/O error''\<rparr>"

definition alice :: Student where
  "alice = \<lparr>s_id = 1, s_student_id = JStr ''STU-1'', s_first_name = JStr ''Alice'',
            s_last_name = JStr ''Smith'', s_email = JStr ''alice@example.org'',
            s_phone = JStr ''555-0101'', s_date_of_birth = None,
            s_enrollment_date = ''2023-09-01T08:00:00'', s_class_id = Some 1,
            s_status = JStr ''active'', s_created_at = ''2023-09-01T08:00:00'',
            s_updated_at = ''2023-09-01T08:00:00''\<rparr>"

definition bob :: Student where
  "bob = \<lparr>s_id = 2, s_student_id = JStr ''STU-2'', s_first_name = JStr ''Bob'',
          s_last_name = JStr ''Jones'', s_email = JStr ''bob@example.org'',
          s_phone = JNull, s_date_of_birth = Some ''2010-05-17'',
          s_enrollment_date = ''2023-09-02T08:00:00'', s_class_id = Some 1,
          s_status = JStr ''active'', s_created_at = ''2023-09-02T08:00:00'',
          s_updated_at = ''2023-09-02T08:00:00''\<rparr>"

definition algebra :: Class where
  "algebra = \<lparr>c_id = 1, c_class_name = JStr ''Algebra'', c_grade_level = JStr ''9'',
              c_teacher_id = JNull, c_max_capacity = JNum 40, c_room_number = JStr ''B12'',
              c_status = JStr ''active'', c_created_at = ''2023-08-30T08:00:00'',
              c_updated_at = ''2023-08-30T08:00:00''\<rparr>"

definition db0 :: db where
  "db0 = \<lparr>students = [], teachers = [], classes = []\<rparr>"

definition db2 :: db where
  "db2 = \<lparr>students = [alice, bob], teachers = [], classes = [algebra]\<rparr>"

definition valid_person :: "(string \<times> json) list" where
  "valid_person =
     [(''first_name'', JStr ''Carol''), (''last_name'', JStr ''Diaz''),
      (''email'', JStr ''carol@example.org''), (''status'', JStr ''graduated''),
      (''class_id'', JNum 7), (''date_of_birth'', JStr ''2011-01-01'')]"

section \<open>Basic facts about the session and the tables\<close>

lemma stored_session_begin: "stored (session_begin d) = d"
  by (simp add: session_begin_def)

lemma pending_session_begin: "pending (session_begin d) = []"
  by (simp add: session_begin_def)

lemma stored_session_add: "stored (session_add p st) = stored st"
  by (simp add: session_add_def)

lemma commit_single:
  "commit e (session_add p (session_begin d)) =
     (case flush_op e p d of
        Inl x \<Rightarrow> (Some x, session_add p (session_begin d))
      | Inr d' \<Rightarrow>
          (case commit_fault e of
             Some m \<Rightarrow> (Some (SQLAlchemyError OperationalError m), session_add p (session_begin d))
           | None \<Rightarrow> (None, session_begin d')))"
  by (simp add: commit_def session_add_def session_begin_def split: sum.splits option.splits)

lemma rollback_single: "rollback (session_add p (session_begin d)) = session_begin d"
  by (simp add: rollback_def session_add_def session_begin_def)

lemma rollback_begin: "rollback (session_begin d) = session_begin d"
  by (simp add: rollback_def session_begin_def)

lemma dict_get_absent: "map_of d k = None \<Longrightarrow> dict_get d k dflt = dflt"
  by (simp add: dict_get_def)

lemma dict_get_present: "map_of d k = Some v \<Longrightarrow> dict_get d k dflt = v"
  by (simp add: dict_get_def)

lemma fold_max_ge: "(a::int) \<le> fold max ids a"
  by (induction ids arbitrary: a) (auto intro: order_trans [OF max.cobounded2])

lemma fold_max_mem: "(x::int) \<in> set ids \<Longrightarrow> x \<le> fold max ids a"
proof (induction ids arbitrary: a)
  case Nil
  then show ?case by simp
next
  case (Cons y ids)
  show ?case
  proof (cases "x = y")
    case True
    have "max y a \<le> fold max ids (max y a)" by (rule fold_max_ge)
    with True show ?thesis by simp
  next
    case False
    with Cons show ?thesis by simp
  qed
qed

lemma next_id_fresh: "x \<in> set ids \<Longrightarrow> x \<noteq> next_id ids"
  using fold_max_mem [of x ids 0] by (simp add: next_id_def)

lemma find_append_last:
  assumes "\<forall>x \<in> set xs. \<not> P x" "P r"
  shows "find P (xs @ [r]) = Some r"
  using assms by (induction xs) auto

lemma find_new_row:
  assumes "f r = next_id (map f xs)"
  shows "find (\<lambda>x. f x = next_id (map f xs)) (xs @ [r]) = Some r"
proof -
  have "\<forall>x \<in> set xs. f x \<noteq> next_id (map f xs)"
    using next_id_fresh [of _ "map f xs"] by auto
  then show ?thesis using assms by (intro find_append_last) simp_all
qed

lemma find_student_id: "find (\<lambda>x. s_id x = k) xs = Some old \<Longrightarrow> s_id old = k"
  by (auto simp: find_Some_iff)

lemma find_absent: "k \<notin> s_id ` set xs \<Longrightarrow> find (\<lambda>x. s_id x = k) xs = None"
  by (induction xs) auto

lemma find_map_replace:
  assumes "find (\<lambda>x. s_id x = k) xs = Some old" "s_id r = k"
  shows "find (\<lambda>x. s_id x = k) (map (\<lambda>x. if s_id x = k then r else x) xs) = Some r"
  using assms by (induction xs) (auto split: if_splits)

lemma filter_map_replace:
  assumes "s_id r = k"
  shows "filter (\<lambda>x. s_id x \<noteq> k) (map (\<lambda>x. if s_id x = k then r else x) xs)
           = filter (\<lambda>x. s_id x \<noteq> k) xs"
  using assms by (induction xs) auto

lemma bind_param_storable: "bind_param e v = None \<longleftrightarrow> storable v"
  by (cases v) simp_all

lemma first_bind_error_storable: "first_bind_error e vs = None \<longleftrightarrow> list_all storable vs"
proof (induction vs)
  case Nil
  then show ?case by simp
next
  case (Cons v vs)
  show ?case
  proof (cases "bind_param e v")
    case None
    with Cons bind_param_storable [of e v] show ?thesis by simp
  next
    case (Some x)
    with bind_param_storable [of e v] show ?thesis by simp
  qed
qed

lemma first_bind_error_raises:
  "first_bind_error e vs = Some x \<Longrightarrow> x = OverflowError \<or> x = raise_sa e InterfaceError"
proof (induction vs)
  case Nil
  then show ?case by simp
next
  case (Cons v vs)
  then show ?case by (cases v) (auto split: option.splits if_splits)
qed

lemma truthy_text_not_null: "truthy v \<Longrightarrow> text_affinity v \<noteq> JNull"
  by (cases v) auto

lemma text_affinity_text: "text_affinity (JStr s) = JStr s" "text_affinity JNull = JNull"
  by simp_all

section \<open>What each creating handler does with a JSON object\<close>

lemma reload_new_student:
  "reload_student e (session_begin (s\<lparr>students := students s @ [student_row e n s]\<rparr>))
     (next_id (map s_id (students s))) =
   (case reload_fault e of
      Some m \<Rightarrow> Inl (SQLAlchemyError OperationalError m)
    | None \<Rightarrow> Inr (student_row e n s))"
proof -
  have "s_id (student_row e n s) = next_id (map s_id (students s))"
    by (simp add: student_row_def)
  from find_new_row [of s_id, OF this]
  show ?thesis
    by (simp add: reload_student_def stored_session_begin split: option.splits)
qed

lemma reload_new_teacher:
  "reload_teacher e (session_begin (s\<lparr>teachers := teachers s @ [teacher_row e n s]\<rparr>))
     (next_id (map t_id (teachers s))) =
   (case reload_fault e of
      Some m \<Rightarrow> Inl (SQLAlchemyError OperationalError m)
    | None \<Rightarrow> Inr (teacher_row e n s))"
proof -
  have "t_id (teacher_row e n s) = next_id (map t_id (teachers s))"
    by (simp add: teacher_row_def)
  from find_new_row [of t_id, OF this]
  show ?thesis
    by (simp add: reload_teacher_def stored_session_begin split: option.splits)
qed

lemma reload_new_class:
  "reload_class e (session_begin (s\<lparr>classes := classes s @ [class_row e n s]\<rparr>))
     (next_id (map c_id (classes s))) =
   (case reload_fault e of
      Some m \<Rightarrow> Inl (SQLAlchemyError OperationalError m)
    | None \<Rightarrow> Inr (class_row e n s))"
proof -
  have "c_id (class_row e n s) = next_id (map c_id (classes s))"
    by (simp add: class_row_def)
  from find_new_row [of c_id, OF this]
  show ?thesis
    by (simp add: reload_class_def stored_session_begin split: option.splits)
qed

lemma create_student_object:
  "create_student_try e (JObj d) (session_begin s) =
     (if \<not> truthy (dict_get d ''first_name'' JNull) \<or> \<not> truthy (dict_get d ''last_name'' JNull)
         \<or> \<not> truthy (dict_get d ''email'' JNull)
      then (Inr missing_required_fields, session_begin s)
      else
        (case first_bind_error e
                [ns_student_id (student_args e d), ns_first_name (student_args e d),
                 ns_last_name (student_args e d), ns_email (student_args e d),
                 ns_phone (student_args e d), ns_status (student_args e d)] of
           Some x \<Rightarrow> (Inl x, session_add (Insert_Student (student_args e d)) (session_begin s))
         | None \<Rightarrow>
             if student_violates (student_row e (student_args e d) s) (students s)
             then (Inl (raise_sa e IntegrityError),
                   session_add (Insert_Student (student_args e d)) (session_begin s))
             else
               (case commit_fault e of
                  Some m \<Rightarrow>
                    (Inl (SQLAlchemyError OperationalError m),
                     session_add (Insert_Student (student_args e d)) (session_begin s))
                | None \<Rightarrow>
                    (case reload_fault e of
                       Some m \<Rightarrow>
                         (Inl (SQLAlchemyError OperationalError m),
                          session_begin
                            (s\<lparr>students := students s @ [student_row e (student_args e d) s]\<rparr>))
                     | None \<Rightarrow>
                         (Inr \<lparr>status_code = 201,
                               body = student_to_dict (student_row e (student_args e d) s)\<rparr>,
                          session_begin
                            (s\<lparr>students := students s @ [student_row e (student_args e d) s]\<rparr>))))))"
  by (simp add: create_student_try_def student_args_def Let_def commit_single stored_session_add
      stored_session_begin reload_new_student [unfolded student_args_def]
      del: first_bind_error.simps split: option.splits)

lemma create_teacher_object:
  "create_teacher_try e (JObj d) (session_begin s) =
     (if \<not> truthy (dict_get d ''first_name'' JNull) \<or> \<not> truthy (dict_get d ''last_name'' JNull)
         \<or> \<not> truthy (dict_get d ''email'' JNull)
      then (Inr missing_required_fields, session_begin s)
      else
        (case first_bind_error e
                [nt_teacher_id (teacher_args e d), nt_first_name (teacher_args e d),
                 nt_last_name (teacher_args e d), nt_email (teacher_args e d),
                 nt_phone (teacher_args e d), nt_specialization (teacher_args e d),
                 nt_status (teacher_args e d)] of
           Some x \<Rightarrow> (Inl x, session_add (Insert_Teacher (teacher_args e d)) (session_begin s))
         | None \<Rightarrow>
             if teacher_violates (teacher_row e (teacher_args e d) s) (teachers s)
             then (Inl (raise_sa e IntegrityError),
                   session_add (Insert_Teacher (teacher_args e d)) (session_begin s))
             else
               (case commit_fault e of
                  Some m \<Rightarrow>
                    (Inl (SQLAlchemyError OperationalError m),
                     session_add (Insert_Teacher (teacher_args e d)) (session_begin s))
                | None \<Rightarrow>
                    (case reload_fault e of
                       Some m \<Rightarrow>
                         (Inl (SQLAlchemyError OperationalError m),
                          session_begin
                            (s\<lparr>teachers := teachers s @ [teacher_row e (teacher_args e d) s]\<rparr>))
                     | None \<Rightarrow>
                         (Inr \<lparr>status_code = 201,
                               body = teacher_to_dict (teacher_row e (teacher_args e d) s)\<rparr>,
                          session_begin
                            (s\<lparr>teachers := teachers s @ [teacher_row e (teacher_args e d) s]\<rparr>))))))"
  by (simp add: create_teacher_try_def teacher_args_def Let_def commit_single stored_session_add
      stored_session_begin reload_new_teacher [unfolded teacher_args_def]
      del: first_bind_error.simps split: option.splits)

lemma create_class_object:
  "create_class_try e (JObj d) (session_begin s) =
     (if \<not> truthy (dict_get d ''class_name'' JNull) \<or> \<not> truthy (dict_get d ''grade_level'' JNull)
      then (Inr missing_required_fields, session_begin s)
      else
        (case first_bind_error e
                [nc_class_name (class_args d), nc_grade_level (class_args d),
                 nc_teacher_id (class_args d), nc_max_capacity (class_args d),
                 nc_room_number (class_args d), nc_status (class_args d)] of
           Some x \<Rightarrow> (Inl x, session_add (Insert_Class (class_args d)) (session_begin s))
         | None \<Rightarrow>
             if class_violates (class_row e (class_args d) s) (classes s)
             then (Inl (raise_sa e IntegrityError),
                   session_add (Insert_Class (class_args d)) (session_begin s))
             else
               (case commit_fault e of
                  Some m \<Rightarrow>
                    (Inl (SQLAlchemyError OperationalError m),
                     session_add (Insert_Class (class_args d)) (session_begin s))
                | None \<Rightarrow>
                    (case reload_fault e of
                       Some m \<Rightarrow>
                         (Inl (SQLAlchemyError OperationalError m),
                          session_begin
                            (s\<lparr>classes := classes s @ [class_row e (class_args d) s]\<rparr>))
                     | None \<Rightarrow>
                         (Inr \<lparr>status_code = 201,
                               body = class_to_dict
                                 (s\<lparr>classes := classes s @ [class_row e (class_args d) s]\<rparr>)
                                 (class_row e (class_args d) s)\<rparr>,
                          session_begin
                            (s\<lparr>classes := classes s @ [class_row e (class_args d) s]\<rparr>))))))"
  by (simp add: create_class_try_def class_args_def Let_def commit_single stored_session_add
      stored_session_begin reload_new_class [unfolded class_args_def]
      del: first_bind_error.simps split: option.splits)

lemma create_not_object:
  assumes "\<not> is_object data"
  shows "create_student_try e data st = (Inl (AttributeError (py_type_name data)), st)"
    and "create_teacher_try e data st = (Inl (AttributeError (py_type_name data)), st)"
    and "create_class_try e data st = (Inl (AttributeError (py_type_name data)), st)"
  using assms
  by (cases data; simp add: is_object_def create_student_try_def create_teacher_try_def
      create_class_try_def)+

section \<open>Validation of creation payloads\<close>

lemma create_student_400:
  assumes "\<not> truthy (dict_get d ''first_name'' JNull) \<or> \<not> truthy (dict_get d ''last_name'' JNull)
           \<or> \<not> truthy (dict_get d ''email'' JNull)"
  shows "create_student e (JObj d) st = (missing_required_fields, st)"
  using assms by (auto simp: create_student_def create_student_try_def except_rollback_500_def)

lemma create_teacher_400:
  assumes "\<not> truthy (dict_get d ''first_name'' JNull) \<or> \<not> truthy (dict_get d ''last_name'' JNull)
           \<or> \<not> truthy (dict_get d ''email'' JNull)"
  shows "create_teacher e (JObj d) st = (missing_required_fields, st)"
  using assms by (auto simp: create_teacher_def create_teacher_try_def except_rollback_500_def)

lemma create_class_400:
  assumes "\<not> truthy (dict_get d ''class_name'' JNull) \<or> \<not> truthy (dict_get d ''grade_level'' JNull)"
  shows "create_class e (JObj d) st = (missing_required_fields, st)"
  using assms by (auto simp: create_class_def create_class_try_def except_rollback_500_def)

text \<open>
  C2, as the claim states it, fails: a POST whose payload is the JSON value null has none of
  the required fields, and the student creation handler answers 500, not 400, because
  \<^verbatim>\<open>data.get\<close> raises on a value that is not an object. Nothing is stored.
\<close>

theorem C2_counterexample:
  "create_student env0 JNull (session_begin db2) =
     (\<lparr>status_code = 500,
       body = JObj [(''error'', JStr (str_exn (AttributeError ''NoneType'')))]\<rparr>,
      session_begin db2)"
  by (simp add: create_student_def create_student_try_def except_rollback_500_def
      rollback_begin error_500_def)

text \<open>
  C2, amended. A POST to the student, teacher or class creation endpoint whose payload
  is a JSON object that lacks a required key (first_name, last_name, email for students
  and teachers; class_name, grade_level for classes) is answered with 400 and the message
  "Missing required fields", and the session and the tables are as before the request,
  so the number of stored records of that entity is unchanged. A payload that is not a
  JSON object (null, a boolean, a number, a string, a list) is answered with 500 and the
  message of the AttributeError that \<^verbatim>\<open>data.get\<close> raises, also with the session and the
  tables as before the request.
\<close>

theorem C2_missing_required_field_amended:
  "(map_of d ''first_name'' = None \<or> map_of d ''last_name'' = None \<or> map_of d ''email'' = None \<longrightarrow>
      create_student e (JObj d) (session_begin s) =
        (\<lparr>status_code = 400, body = JObj [(''error'', JStr ''Missing required fields'')]\<rparr>,
         session_begin s)
    \<and> length (students (stored (snd (create_student e (JObj d) (session_begin s)))))
        = length (students s)
    \<and> create_teacher e (JObj d) (session_begin s) =
        (\<lparr>status_code = 400, body = JObj [(''error'', JStr ''Missing required fields'')]\<rparr>,
         session_begin s)
    \<and> length (teachers (stored (snd (create_teacher e (JObj d) (session_begin s)))))
        = length (teachers s))
 \<and> (map_of d ''class_name'' = None \<or> map_of d ''grade_level'' = None \<longrightarrow>
      create_class e (JObj d) (session_begin s) =
        (\<lparr>status_code = 400, body = JObj [(''error'', JStr ''Missing required fields'')]\<rparr>,
         session_begin s)
    \<and> length (classes (stored (snd (create_class e (JObj d) (session_begin s)))))
        = length (classes s))
 \<and> (\<not> is_object data \<longrightarrow>
      create_student e data (session_begin s) =
        (\<lparr>status_code = 500,
          body = JObj [(''error'', JStr (str_exn (AttributeError (py_type_name data))))]\<rparr>,
         session_begin s)
    \<and> create_teacher e data (session_begin s) =
        (\<lparr>status_code = 500,
          body = JObj [(''error'', JStr (str_exn (AttributeError (py_type_name data))))]\<rparr>,
         session_begin s)
    \<and> create_class e data (session_begin s) =
        (\<lparr>status_code = 500,
          body = JObj [(''error'', JStr (str_exn (AttributeError (py_type_name data))))]\<rparr>,
         session_begin s))"
proof (intro conjI impI)
  assume a: "map_of d ''first_name'' = None \<or> map_of d ''last_name'' = None \<or> map_of d ''email'' = None"
  then have f: "\<not> truthy (dict_get d ''first_name'' JNull) \<or> \<not> truthy (dict_get d ''last_name'' JNull)
           \<or> \<not> truthy (dict_get d ''email'' JNull)"
    by (auto simp: dict_get_def)
  show "create_student e (JObj d) (session_begin s) =
        (\<lparr>status_code = 400, body = JObj [(''error'', JStr ''Missing required fields'')]\<rparr>,
         session_begin s)"
    using create_student_400 [OF f] by (simp add: missing_required_fields_def)
  then show "length (students (stored (snd (create_student e (JObj d) (session_begin s)))))
        = length (students s)"
    by (simp add: stored_session_begin)
  show "create_teacher e (JObj d) (session_begin s) =
        (\<lparr>status_code = 400, body = JObj [(''error'', JStr ''Missing required fields'')]\<rparr>,
         session_begin s)"
    using create_teacher_400 [OF f] by (simp add: missing_required_fields_def)
  then show "length (teachers (stored (snd (create_teacher e (JObj d) (session_begin s)))))
        = length (teachers s)"
    by (simp add: stored_session_begin)
next
  assume a: "map_of d ''class_name'' = None \<or> map_of d ''grade_level'' = None"
  then have f: "\<not> truthy (dict_get d ''class_name'' JNull) \<or> \<not> truthy (dict_get d ''grade_level'' JNull)"
    by (auto simp: dict_get_def)
  show "create_class e (JObj d) (session_begin s) =
        (\<lparr>status_code = 400, body = JObj [(''error'', JStr ''Missing required fields'')]\<rparr>,
         session_begin s)"
    using create_class_400 [OF f] by (simp add: missing_required_fields_def)
  then show "length (classes (stored (snd (create_class e (JObj d) (session_begin s)))))
        = length (classes s)"
    by (simp add: stored_session_begin)
next
  assume n: "\<not> is_object data"
  show "create_student e data (session_begin s) =
        (\<lparr>status_code = 500,
          body = JObj [(''error'', JStr (str_exn (AttributeError (py_type_name data))))]\<rparr>,
         session_begin s)"
    by (simp add: create_student_def create_not_object(1) [OF n] except_rollback_500_def
        rollback_begin error_500_def)
  show "create_teacher e data (session_begin s) =
        (\<lparr>status_code = 500,
          body = JObj [(''error'', JStr (str_exn (AttributeError (py_type_name data))))]\<rparr>,
         session_begin s)"
    by (simp add: create_teacher_def create_not_object(2) [OF n] except_rollback_500_def
        rollback_begin error_500_def)
  show "create_class e data (session_begin s) =
        (\<lparr>status_code = 500,
          body = JObj [(''error'', JStr (str_exn (AttributeError (py_type_name data))))]\<rparr>,
         session_begin s)"
    by (simp add: create_class_def create_not_object(3) [OF n] except_rollback_500_def
        rollback_begin error_500_def)
qed

theorem C2_missing_required_field_amended_witness:
  "map_of [(''first_name'', JStr ''Carol''), (''email'', JStr ''carol@example.org'')] ''last_name'' = None
 \<and> create_student env0 (JObj [(''first_name'', JStr ''Carol''), (''email'', JStr ''carol@example.org'')])
      (session_begin db2) =
     (\<lparr>status_code = 400, body = JObj [(''error'', JStr ''Missing required fields'')]\<rparr>, session_begin db2)
 \<and> create_teacher env0 (JObj [(''first_name'', JStr ''Carol''), (''email'', JStr ''carol@example.org'')])
      (session_begin db2) =
     (\<lparr>status_code = 400, body = JObj [(''error'', JStr ''Missing required fields'')]\<rparr>, session_begin db2)
 \<and> map_of [(''first_name'', JStr ''Carol''), (''email'', JStr ''carol@example.org'')] ''class_name'' = None
 \<and> create_class env0 (JObj [(''first_name'', JStr ''Carol''), (''email'', JStr ''carol@example.org'')])
      (session_begin db2) =
     (\<lparr>status_code = 400, body = JObj [(''error'', JStr ''Missing required fields'')]\<rparr>, session_begin db2)
 \<and> \<not> is_object (JArr [])
 \<and> create_student env0 (JArr []) (session_begin db2) =
     (\<lparr>status_code = 500, body = JObj [(''error'', JStr (str_exn (AttributeError ''list'')))]\<rparr>,
      session_begin db2)
 \<and> create_teacher env0 (JArr []) (session_begin db2) =
     (\<lparr>status_code = 500, body = JObj [(''error'', JStr (str_exn (AttributeError ''list'')))]\<rparr>,
      session_begin db2)
 \<and> create_class env0 (JArr []) (session_begin db2) =
     (\<lparr>status_code = 500, body = JObj [(''error'', JStr (str_exn (AttributeError ''list'')))]\<rparr>,
      session_begin db2)"
  using C2_missing_required_field_amended
    [of "[(''first_name'', JStr ''Carol''), (''email'', JStr ''carol@example.org'')]" env0 db2
        "JArr []"]
  by (simp add: is_object_def)

lemma query_get_absent:
  assumes "query_fault e = None" "sqlite_int k" "k \<notin> s_id ` set (students d)"
  shows "Student_query_get e (session_begin d) k = Inr None"
  using assms by (simp add: Student_query_get_def stored_session_begin find_absent)

lemma query_get_overflow:
  assumes "query_fault e = None" "\<not> sqlite_int k"
  shows "Student_query_get e (session_begin d) k = Inl OverflowError"
  using assms by (simp add: Student_query_get_def)

lemma big_id_not_sqlite_int: "\<not> sqlite_int 99999999999999999999"
  by (simp add: sqlite_int_def)

text \<open>
  C4, as the claim states it, fails: the id 99999999999999999999 names no stored student,
  and GET, PUT and DELETE on it are answered 500, not 404, because the driver cannot bind
  an integer beyond 64 bits to the lookup.
\<close>

theorem C4_counterexample:
  "99999999999999999999 \<notin> s_id ` set (students db2)
 \<and> get_student env0 99999999999999999999 (session_begin db2) =
      (\<lparr>status_code = 500,
        body = JObj [(''error'', JStr ''Python int too large to convert to SQLite INTEGER'')]\<rparr>,
       session_begin db2)
 \<and> update_student env0 99999999999999999999 (JObj []) (session_begin db2) =
      (\<lparr>status_code = 500,
        body = JObj [(''error'', JStr ''Python int too large to convert to SQLite INTEGER'')]\<rparr>,
       session_begin db2)
 \<and> delete_student env0 99999999999999999999 (session_begin db2) =
      (\<lparr>status_code = 500,
        body = JObj [(''error'', JStr ''Python int too large to convert to SQLite INTEGER'')]\<rparr>,
       session_begin db2)"
proof -
  have q: "query_fault env0 = None" by (simp add: env0_def)
  have n: "99999999999999999999 \<notin> s_id ` set (students db2)"
    by (simp add: db2_def alice_def bob_def)
  from query_get_overflow [OF q big_id_not_sqlite_int, of db2] n show ?thesis
    by (simp add: get_student_def get_student_try_def update_student_def
        update_student_try_def delete_student_def delete_student_try_def except_500_def
        except_rollback_500_def rollback_begin error_500_def)
qed

text \<open>
  C4, amended. With the storage engine answering the lookup, for every id within the
  64-bit integer range that names no stored student, GET, PUT and DELETE on
  /api/students/id each answer 404 with the message "Student not found", whatever the PUT
  body is, and leave the session and every table as they were. An id outside that range
  names no stored student either, and the three handlers answer it with 500 and the
  driver's overflow message, also leaving the session and every table as they were.
\<close>

theorem C4_unknown_id_amended:
  assumes "query_fault e = None" and "k \<notin> s_id ` set (students d)"
  shows "(sqlite_int k \<longrightarrow>
           get_student e k (session_begin d) =
             (\<lparr>status_code = 404, body = JObj [(''error'', JStr ''Student not found'')]\<rparr>,
              session_begin d)
         \<and> update_student e k data (session_begin d) =
             (\<lparr>status_code = 404, body = JObj [(''error'', JStr ''Student not found'')]\<rparr>,
              session_begin d)
         \<and> delete_student e k (session_begin d) =
             (\<lparr>status_code = 404, body = JObj [(''error'', JStr ''Student not found'')]\<rparr>,
              session_begin d))
       \<and> (\<not> sqlite_int k \<longrightarrow>
           get_student e k (session_begin d) =
             (\<lparr>status_code = 500, body = JObj [(''error'', JStr (str_exn OverflowError))]\<rparr>,
              session_begin d)
         \<and> update_student e k data (session_begin d) =
             (\<lparr>status_code = 500, body = JObj [(''error'', JStr (str_exn OverflowError))]\<rparr>,
              session_begin d)
         \<and> delete_student e k (session_begin d) =
             (\<lparr>status_code = 500, body = JObj [(''error'', JStr (str_exn OverflowError))]\<rparr>,
              session_begin d))"
proof (intro conjI impI)
  assume i: "sqlite_int k"
  note g = query_get_absent [OF assms(1) i assms(2)]
  show "get_student e k (session_begin d) =
             (\<lparr>status_code = 404, body = JObj [(''error'', JStr ''Student not found'')]\<rparr>,
              session_begin d)"
    by (simp add: get_student_def get_student_try_def g except_500_def student_not_found_def)
  show "update_student e k data (session_begin d) =
             (\<lparr>status_code = 404, body = JObj [(''error'', JStr ''Student not found'')]\<rparr>,
              session_begin d)"
    by (simp add: update_student_def update_student_try_def g except_rollback_500_def
        student_not_found_def)
  show "delete_student e k (session_begin d) =
             (\<lparr>status_code = 404, body = JObj [(''error'', JStr ''Student not found'')]\<rparr>,
              session_begin d)"
    by (simp add: delete_student_def delete_student_try_def g except_rollback_500_def
        student_not_found_def)
next
  assume i: "\<not> sqlite_int k"
  note g = query_get_overflow [OF assms(1) i, of d]
  show "get_student e k (session_begin d) =
             (\<lparr>status_code = 500, body = JObj [(''error'', JStr (str_exn OverflowError))]\<rparr>,
              session_begin d)"
    by (simp add: get_student_def get_student_try_def g except_500_def error_500_def)
  show "update_student e k data (session_begin d) =
             (\<lparr>status_code = 500, body = JObj [(''error'', JStr (str_exn OverflowError))]\<rparr>,
              session_begin d)"
    by (simp add: update_student_def update_student_try_def g except_rollback_500_def
        rollback_begin error_500_def)
  show "delete_student e k (session_begin d) =
             (\<lparr>status_code = 500, body = JObj [(''error'', JStr (str_exn OverflowError))]\<rparr>,
              session_begin d)"
    by (simp add: delete_student_def delete_student_try_def g except_rollback_500_def
        rollback_begin error_500_def)
qed

theorem C4_unknown_id_amended_witness:
  "query_fault env0 = None \<and> 7 \<notin> s_id ` set (students db2) \<and> sqlite_int 7
   \<and> get_student env0 7 (session_begin db2) =
           (\<lparr>status_code = 404, body = JObj [(''error'', JStr ''Student not found'')]\<rparr>,
            session_begin db2)
   \<and> update_student env0 7 (JObj [(''phone'', JStr ''555-0199'')]) (session_begin db2) =
           (\<lparr>status_code = 404, body = JObj [(''error'', JStr ''Student not found'')]\<rparr>,
            session_begin db2)
   \<and> delete_student env0 7 (session_begin db2) =
           (\<lparr>status_code = 404, body = JObj [(''error'', JStr ''Student not found'')]\<rparr>,
            session_begin db2)
   \<and> 9223372036854775808 \<notin> s_id ` set (students db2) \<and> \<not> sqlite_int 9223372036854775808
   \<and> get_student env0 9223372036854775808 (session_begin db2) =
           (\<lparr>status_code = 500, body = JObj [(''error'', JStr (str_exn OverflowError))]\<rparr>,
            session_begin db2)"
proof -
  have q: "query_fault env0 = None" by (simp add: env0_def)
  have n: "7 \<notin> s_id ` set (students db2)" "9223372036854775808 \<notin> s_id ` set (students db2)"
    by (simp_all add: db2_def alice_def bob_def)
  have i: "sqlite_int 7" "\<not> sqlite_int 9223372036854775808" by (simp_all add: sqlite_int_def)
  show ?thesis
    using q n i C4_unknown_id_amended [OF q n(1), of "JObj [(''phone'', JStr ''555-0199'')]"]
      C4_unknown_id_amended [OF q n(2), of JNull]
    by simp
qed

lemma map_of_filter_key: "map_of (filter (\<lambda>p. fst p \<noteq> k) d) k = None"
  by (induction d) auto

text \<open>
  C9. The validation of the creation handlers tests the truthiness of the value, not the
  presence of the key: the empty string, null and false are falsy, and a JSON object in
  which a required key is present with a falsy value is answered with 400 and the message
  "Missing required fields", with nothing stored, which is also the answer to the same
  object without that key.
\<close>

theorem C9_falsy_required_field:
  "\<not> truthy (JStr '''') \<and> \<not> truthy JNull \<and> \<not> truthy (JBool False)
 \<and> (k \<in> {''first_name'', ''last_name'', ''email''} \<and> map_of d k = Some v \<and> \<not> truthy v \<longrightarrow>
      create_student e (JObj d) (session_begin s) =
        (\<lparr>status_code = 400, body = JObj [(''error'', JStr ''Missing required fields'')]\<rparr>,
         session_begin s)
    \<and> create_student e (JObj (filter (\<lambda>p. fst p \<noteq> k) d)) (session_begin s) =
        create_student e (JObj d) (session_begin s)
    \<and> create_teacher e (JObj d) (session_begin s) =
        (\<lparr>status_code = 400, body = JObj [(''error'', JStr ''Missing required fields'')]\<rparr>,
         session_begin s)
    \<and> create_teacher e (JObj (filter (\<lambda>p. fst p \<noteq> k) d)) (session_begin s) =
        create_teacher e (JObj d) (session_begin s))
 \<and> (k \<in> {''class_name'', ''grade_level''} \<and> map_of d k = Some v \<and> \<not> truthy v \<longrightarrow>
      create_class e (JObj d) (session_begin s) =
        (\<lparr>status_code = 400, body = JObj [(''error'', JStr ''Missing required fields'')]\<rparr>,
         session_begin s)
    \<and> create_class e (JObj (filter (\<lambda>p. fst p \<noteq> k) d)) (session_begin s) =
        create_class e (JObj d) (session_begin s))"
proof -
  let ?d' = "filter (\<lambda>p. fst p \<noteq> k) d"
  have absent: "dict_get ?d' k JNull = JNull"
    by (simp add: dict_get_def map_of_filter_key)
  have person: "create_student e (JObj d) (session_begin s) = (missing_required_fields, session_begin s)
      \<and> create_student e (JObj ?d') (session_begin s) = (missing_required_fields, session_begin s)
      \<and> create_teacher e (JObj d) (session_begin s) = (missing_required_fields, session_begin s)
      \<and> create_teacher e (JObj ?d') (session_begin s) = (missing_required_fields, session_begin s)"
    if k: "k \<in> {''first_name'', ''last_name'', ''email''}" and v: "map_of d k = Some v" "\<not> truthy v"
  proof -
    from v have "\<not> truthy (dict_get d k JNull)" by (simp add: dict_get_def)
    with k have f: "\<not> truthy (dict_get d ''first_name'' JNull) \<or> \<not> truthy (dict_get d ''last_name'' JNull)
           \<or> \<not> truthy (dict_get d ''email'' JNull)"
      by auto
    from absent have "\<not> truthy (dict_get ?d' k JNull)" by simp
    with k have f': "\<not> truthy (dict_get ?d' ''first_name'' JNull) \<or> \<not> truthy (dict_get ?d' ''last_name'' JNull)
           \<or> \<not> truthy (dict_get ?d' ''email'' JNull)"
      by auto
    show ?thesis
      using create_student_400 [OF f] create_student_400 [OF f']
        create_teacher_400 [OF f] create_teacher_400 [OF f'] by simp
  qed
  have cls: "create_class e (JObj d) (session_begin s) = (missing_required_fields, session_begin s)
      \<and> create_class e (JObj ?d') (session_begin s) = (missing_required_fields, session_begin s)"
    if k: "k \<in> {''class_name'', ''grade_level''}" and v: "map_of d k = Some v" "\<not> truthy v"
  proof -
    from v have "\<not> truthy (dict_get d k JNull)" by (simp add: dict_get_def)
    with k have f: "\<not> truthy (dict_get d ''class_name'' JNull) \<or> \<not> truthy (dict_get d ''grade_level'' JNull)"
      by auto
    from absent have "\<not> truthy (dict_get ?d' k JNull)" by simp
    with k have f': "\<not> truthy (dict_get ?d' ''class_name'' JNull) \<or> \<not> truthy (dict_get ?d' ''grade_level'' JNull)"
      by auto
    show ?thesis
      using create_class_400 [OF f] create_class_400 [OF f'] by simp
  qed
  show ?thesis
    using person cls by (simp add: missing_required_fields_def)
qed

theorem C9_falsy_required_field_witness:
  "''email'' \<in> {''first_name'', ''last_name'', ''email''}
 \<and> map_of [(''first_name'', JStr ''Carol''), (''last_name'', JStr ''Diaz''), (''email'', JStr '''')]
      ''email'' = Some (JStr '''')
 \<and> \<not> truthy (JStr '''')
 \<and> create_student env0
      (JObj [(''first_name'', JStr ''Carol''), (''last_name'', JStr ''Diaz''), (''email'', JStr '''')])
      (session_begin db2) =
     (\<lparr>status_code = 400, body = JObj [(''error'', JStr ''Missing required fields'')]\<rparr>,
      session_begin db2)
 \<and> create_teacher env0
      (JObj [(''first_name'', JStr ''Carol''), (''last_name'', JStr ''Diaz''), (''email'', JStr '''')])
      (session_begin db2) =
     (\<lparr>status_code = 400, body = JObj [(''error'', JStr ''Missing required fields'')]\<rparr>,
      session_begin db2)
 \<and> ''grade_level'' \<in> {''class_name'', ''grade_level''}
 \<and> map_of [(''class_name'', JStr ''Algebra II''), (''grade_level'', JBool False)] ''grade_level''
      = Some (JBool False)
 \<and> \<not> truthy (JBool False)
 \<and> create_class env0 (JObj [(''class_name'', JStr ''Algebra II''), (''grade_level'', JBool False)])
      (session_begin db2) =
     (\<lparr>status_code = 400, body = JObj [(''error'', JStr ''Missing required fields'')]\<rparr>,
      session_begin db2)"
  using C9_falsy_required_field
     [of "''email''"
         "[(''first_name'', JStr ''Carol''), (''last_name'', JStr ''Diaz''), (''email'', JStr '''')]"
         "JStr ''''" env0 db2]
    C9_falsy_required_field
     [of "''grade_level''" "[(''class_name'', JStr ''Algebra II''), (''grade_level'', JBool False)]"
         "JBool False" env0 db2]
  by simp

section \<open>What the updating handler does with a JSON object\<close>

lemma s_id_assign_fields: "s_id (assign_fields d old) = s_id old"
  by (simp add: assign_fields_def)

lemma s_id_updated_row: "s_id (updated_row e r) = s_id r"
  by (simp add: updated_row_def)

lemma query_get_found:
  assumes "query_fault e = None" "sqlite_int k" "find (\<lambda>x. s_id x = k) (students s) = Some old"
  shows "Student_query_get e (session_begin s) k = Inr (Some old)"
  using assms by (simp add: Student_query_get_def stored_session_begin)

lemma reload_found:
  assumes "find (\<lambda>x. s_id x = k) (students s) = Some row"
  shows "reload_student e (session_begin s) k =
           (case reload_fault e of
              Some m \<Rightarrow> Inl (SQLAlchemyError OperationalError m)
            | None \<Rightarrow> Inr row)"
  using assms by (simp add: reload_student_def stored_session_begin split: option.splits)

lemma flush_update:
  assumes "find (\<lambda>x. s_id x = k) (students s) = Some old" "s_id r = k"
  shows "flush_op e (Update_Student r) s =
     (if r = old then Inr s
      else
        (case first_bind_error e
                [s_first_name r, s_last_name r, s_email r, s_phone r, s_status r] of
           Some x \<Rightarrow> Inl x
         | None \<Rightarrow>
             if student_violates (updated_row e r) (filter (\<lambda>x. s_id x \<noteq> k) (students s))
             then Inl (raise_sa e IntegrityError)
             else Inr (s\<lparr>students :=
                         map (\<lambda>x. if s_id x = k then updated_row e r else x) (students s)\<rparr>)))"
  using assms by (simp del: first_bind_error.simps split: option.splits)

lemma update_student_object:
  assumes "query_fault e = None" "sqlite_int k"
    and "find (\<lambda>x. s_id x = k) (students s) = Some old"
    and "r = assign_fields d old"
    and "s' = s\<lparr>students := map (\<lambda>x. if s_id x = k then updated_row e r else x) (students s)\<rparr>"
  shows "update_student_try e k (JObj d) (session_begin s) =
     (if r = old then
        (case commit_fault e of
           Some m \<Rightarrow>
             (Inl (SQLAlchemyError OperationalError m),
              session_add (Update_Student r) (session_begin s))
         | None \<Rightarrow>
             (case reload_fault e of
                Some m \<Rightarrow> (Inl (SQLAlchemyError OperationalError m), session_begin s)
              | None \<Rightarrow>
                  (Inr \<lparr>status_code = 200, body = student_to_dict old\<rparr>, session_begin s)))
      else
        (case first_bind_error e
                [s_first_name r, s_last_name r, s_email r, s_phone r, s_status r] of
           Some x \<Rightarrow> (Inl x, session_add (Update_Student r) (session_begin s))
         | None \<Rightarrow>
             if student_violates (updated_row e r) (filter (\<lambda>x. s_id x \<noteq> k) (students s))
             then (Inl (raise_sa e IntegrityError),
                   session_add (Update_Student r) (session_begin s))
             else
               (case commit_fault e of
                  Some m \<Rightarrow>
                    (Inl (SQLAlchemyError OperationalError m),
                     session_add (Update_Student r) (session_begin s))
                | None \<Rightarrow>
                    (case reload_fault e of
                       Some m \<Rightarrow> (Inl (SQLAlchemyError OperationalError m), session_begin s')
                     | None \<Rightarrow>
                         (Inr \<lparr>status_code = 200,
                               body = student_to_dict (updated_row e r)\<rparr>,
                          session_begin s')))))"
proof -
  have k: "s_id r = k"
    using find_student_id [OF assms(3)] assms(4) by (simp add: s_id_assign_fields)
  note q = query_get_found [OF assms(1,2,3)]
  note fl = flush_update [OF assms(3) k, of e]
  note r0 = reload_found [OF assms(3), of e]
  have "find (\<lambda>x. s_id x = k) (students s') = Some (updated_row e r)"
    unfolding assms(5) using find_map_replace [OF assms(3), of "updated_row e r"] k
    by (simp add: s_id_updated_row)
  note r1 = reload_found [OF this, of e]
  have body: "update_student_try e k (JObj d) (session_begin s) =
      (case commit e (session_add (Update_Student r) (session_begin s)) of
         (Some x, st2) \<Rightarrow> (Inl x, st2)
       | (None, st2) \<Rightarrow>
           (case reload_student e st2 (s_id r) of
              Inl x \<Rightarrow> (Inl x, st2)
            | Inr row \<Rightarrow> (Inr \<lparr>status_code = 200, body = student_to_dict row\<rparr>, st2)))"
    unfolding update_student_try_def q
    by (simp add: Let_def assms(4) [symmetric])
  show ?thesis
  proof (cases "r = old")
    case True
    with fl have "flush_op e (Update_Student r) s = Inr s" by simp
    with True show ?thesis
      unfolding body commit_single k
      by (simp add: r0 split: option.splits)
  next
    case False
    show ?thesis
    proof (cases "first_bind_error e
                [s_first_name r, s_last_name r, s_email r, s_phone r, s_status r]")
      case (Some x)
      with fl False have "flush_op e (Update_Student r) s = Inl x" by simp
      with False Some show ?thesis
        unfolding body commit_single k by simp
    next
      case None
      show ?thesis
      proof (cases "student_violates (updated_row e r)
                      (filter (\<lambda>x. s_id x \<noteq> k) (students s))")
        case True
        with fl False None
        have "flush_op e (Update_Student r) s = Inl (raise_sa e IntegrityError)" by simp
        with False None True show ?thesis
          unfolding body commit_single k by simp
      next
        case v: False
        with fl False None
        have "flush_op e (Update_Student r) s = Inr s'" by (simp add: assms(5))
        with False None v show ?thesis
          unfolding body commit_single k
          by (simp add: r1 split: option.splits)
      qed
    qed
  qed
qed

lemma update_not_object:
  assumes "query_fault e = None" "sqlite_int k"
    and "find (\<lambda>x. s_id x = k) (students s) = Some old" "\<not> is_object data"
  shows "update_student_try e k data (session_begin s) =
           (Inl (AttributeError (py_type_name data)), session_begin s)"
  using assms(4) query_get_found [OF assms(1,2,3)]
  by (cases data) (simp_all add: is_object_def update_student_try_def)

lemma get_student_found:
  assumes "query_fault e = None" "sqlite_int k"
    and "find (\<lambda>x. s_id x = k) (students s) = Some row"
  shows "get_student e k (session_begin s) =
           (\<lparr>status_code = 200, body = student_to_dict row\<rparr>, session_begin s)"
  using query_get_found [OF assms]
  by (simp add: get_student_def get_student_try_def except_500_def)

lemma assign_fields_no_keys:
  assumes "\<forall>f \<in> {''first_name'', ''last_name'', ''email'', ''phone'', ''status''}. map_of d f = None"
  shows "assign_fields d old = old"
  using assms by (simp add: assign_fields_def dict_get_def)

section \<open>Outcomes of an update\<close>

lemma update_student_ok:
  assumes "query_fault e = None" "sqlite_int k"
    and "find (\<lambda>x. s_id x = k) (students s) = Some old"
    and "r = assign_fields d old"
    and "r = old \<or>
         (list_all storable [s_first_name r, s_last_name r, s_email r, s_phone r, s_status r]
          \<and> \<not> student_violates (updated_row e r) (filter (\<lambda>x. s_id x \<noteq> k) (students s)))"
    and "commit_fault e = None" "reload_fault e = None"
    and "row = (if r = old then old else updated_row e r)"
    and "s' = (if r = old then s
               else s\<lparr>students :=
                      map (\<lambda>x. if s_id x = k then updated_row e r else x) (students s)\<rparr>)"
  shows "update_student e k (JObj d) (session_begin s) =
           (\<lparr>status_code = 200, body = student_to_dict row\<rparr>, session_begin s')"
    and "find (\<lambda>x. s_id x = k) (students s') = Some row"
proof -
  have k: "s_id r = k"
    using find_student_id [OF assms(3)] assms(4) by (simp add: s_id_assign_fields)
  note nf = update_student_object [OF assms(1,2,3,4) refl]
  show "update_student e k (JObj d) (session_begin s) =
           (\<lparr>status_code = 200, body = student_to_dict row\<rparr>, session_begin s')"
  proof (cases "r = old")
    case True
    with nf assms(6,7,8,9) show ?thesis
      by (simp add: update_student_def except_rollback_500_def)
  next
    case False
    with assms(5)
    have b: "first_bind_error e
               [s_first_name r, s_last_name r, s_email r, s_phone r, s_status r] = None"
      and v: "\<not> student_violates (updated_row e r) (filter (\<lambda>x. s_id x \<noteq> k) (students s))"
      by (simp_all only: first_bind_error_storable simp_thms)
    from nf False b v assms(6,7,8,9) show ?thesis
      by (simp add: update_student_def except_rollback_500_def del: first_bind_error.simps)
  qed
  show "find (\<lambda>x. s_id x = k) (students s') = Some row"
  proof (cases "r = old")
    case True
    with assms(3,8,9) show ?thesis by simp
  next
    case False
    have "find (\<lambda>x. s_id x = k)
            (map (\<lambda>x. if s_id x = k then updated_row e r else x) (students s))
          = Some (updated_row e r)"
      by (rule find_map_replace [OF assms(3)]) (simp add: s_id_updated_row k)
    with False assms(8,9) show ?thesis by simp
  qed
qed

lemma update_student_rejected:
  assumes "query_fault e = None" "sqlite_int k"
    and "find (\<lambda>x. s_id x = k) (students s) = Some old"
    and "r = assign_fields d old" "r \<noteq> old"
    and "\<not> list_all storable [s_first_name r, s_last_name r, s_email r, s_phone r, s_status r]
         \<or> student_violates (updated_row e r) (filter (\<lambda>x. s_id x \<noteq> k) (students s))"
  shows "\<exists>x. update_student e k (JObj d) (session_begin s) = (error_500 x, session_begin s)"
proof -
  note nf = update_student_object [OF assms(1,2,3,4) refl]
  show ?thesis
  proof (cases "first_bind_error e
               [s_first_name r, s_last_name r, s_email r, s_phone r, s_status r]")
    case (Some x)
    with nf assms(5)
    have "update_student e k (JObj d) (session_begin s) = (error_500 x, session_begin s)"
      by (simp add: update_student_def except_rollback_500_def rollback_single
          del: first_bind_error.simps)
    then show ?thesis by blast
  next
    case None
    then have "list_all storable [s_first_name r, s_last_name r, s_email r, s_phone r, s_status r]"
      by (simp only: first_bind_error_storable)
    with assms(6)
    have v: "student_violates (updated_row e r) (filter (\<lambda>x. s_id x \<noteq> k) (students s))"
      by blast
    from nf assms(5) None v
    have "update_student e k (JObj d) (session_begin s) =
            (error_500 (raise_sa e IntegrityError), session_begin s)"
      by (simp add: update_student_def except_rollback_500_def rollback_single
          del: first_bind_error.simps)
    then show ?thesis by blast
  qed
qed

lemma update_student_commit_fault:
  assumes "query_fault e = None" "sqlite_int k"
    and "find (\<lambda>x. s_id x = k) (students s) = Some old"
    and "commit_fault e = Some m"
  shows "\<exists>x. update_student e k (JObj d) (session_begin s) = (error_500 x, session_begin s)"
proof -
  define r where "r = assign_fields d old"
  note nf = update_student_object [OF assms(1,2,3) r_def refl]
  have "fst (update_student_try e k (JObj d) (session_begin s)) \<noteq> Inl x \<or>
        snd (update_student_try e k (JObj d) (session_begin s))
          = session_add (Update_Student r) (session_begin s)" for x
    unfolding nf using assms(4)
    by (simp del: first_bind_error.simps split: option.splits)
  moreover have "\<exists>x. fst (update_student_try e k (JObj d) (session_begin s)) = Inl x"
    unfolding nf using assms(4)
    by (simp del: first_bind_error.simps split: option.splits)
  ultimately obtain x where
    "update_student_try e k (JObj d) (session_begin s)
       = (Inl x, session_add (Update_Student r) (session_begin s))"
    by (metis prod.collapse)
  then have "update_student e k (JObj d) (session_begin s) = (error_500 x, session_begin s)"
    by (simp add: update_student_def except_rollback_500_def rollback_single)
  then show ?thesis by blast
qed

lemma to_dict_fields:
  "json_field (student_to_dict row) ''id'' = Some (JNum (s_id row))"
  "json_field (student_to_dict row) ''student_id'' = Some (s_student_id row)"
  "json_field (student_to_dict row) ''first_name'' = Some (s_first_name row)"
  "json_field (student_to_dict row) ''last_name'' = Some (s_last_name row)"
  "json_field (student_to_dict row) ''email'' = Some (s_email row)"
  "json_field (student_to_dict row) ''phone'' = Some (s_phone row)"
  "json_field (student_to_dict row) ''date_of_birth'' = Some (opt_str (s_date_of_birth row))"
  "json_field (student_to_dict row) ''enrollment_date'' = Some (JStr (s_enrollment_date row))"
  "json_field (student_to_dict row) ''class_id'' = Some (opt_int (s_class_id row))"
  "json_field (student_to_dict row) ''status'' = Some (s_status row)"
  by (simp_all add: json_field_def student_to_dict_def)

lemma find_alice: "find (\<lambda>x. s_id x = 1) (students db2) = Some alice"
  by (simp add: db2_def alice_def)

lemma others_alice: "filter (\<lambda>x. s_id x \<noteq> 1) (students db2) = [bob]"
  by (simp add: db2_def alice_def bob_def)

lemma env0_no_fault:
  "query_fault env0 = None" "commit_fault env0 = None" "reload_fault env0 = None"
  by (simp_all add: env0_def)

lemma sqlite_int_1: "sqlite_int 1"
  by (simp add: sqlite_int_def)

section \<open>Updating a student\<close>

text \<open>
  C3, as the claim states it, fails: a PUT that supplies another student's email for an
  existing student is not answered with 200; the UNIQUE constraint on email rejects the
  UPDATE, the handler rolls back and answers 500, and no field is overwritten.
\<close>

theorem C3_counterexample:
  "status_code (fst (update_student env0 1 (JObj [(''email'', JStr ''bob@example.org'')])
                       (session_begin db2))) = 500
 \<and> snd (update_student env0 1 (JObj [(''email'', JStr ''bob@example.org'')])
           (session_begin db2)) = session_begin db2"
proof -
  have r: "alice\<lparr>s_email := JStr ''bob@example.org''\<rparr>
             = assign_fields [(''email'', JStr ''bob@example.org'')] alice"
    by (simp add: assign_fields_def dict_get_def alice_def)
  have n: "alice\<lparr>s_email := JStr ''bob@example.org''\<rparr> \<noteq> alice"
    by (simp add: alice_def)
  have v: "\<not> list_all storable
              [s_first_name (alice\<lparr>s_email := JStr ''bob@example.org''\<rparr>),
               s_last_name (alice\<lparr>s_email := JStr ''bob@example.org''\<rparr>),
               s_email (alice\<lparr>s_email := JStr ''bob@example.org''\<rparr>),
               s_phone (alice\<lparr>s_email := JStr ''bob@example.org''\<rparr>),
               s_status (alice\<lparr>s_email := JStr ''bob@example.org''\<rparr>)]
           \<or> student_violates (updated_row env0 (alice\<lparr>s_email := JStr ''bob@example.org''\<rparr>))
               (filter (\<lambda>x. s_id x \<noteq> 1) (students db2))"
    by (simp add: others_alice student_violates_def updated_row_def alice_def bob_def)
  from update_student_rejected [OF env0_no_fault(1) sqlite_int_1 find_alice r n v]
  show ?thesis by (auto simp: error_500_def)
qed

text \<open>
  C3, amended. For an existing student whose id fits a 64-bit integer, and a PUT payload
  that is a JSON object:

  \<^item> the row the handler assigns takes first_name, last_name, email, phone and status from
    the keys the payload has and keeps the prior value of each of these that is omitted;
    id, student_id, date_of_birth, class_id and enrollment_date are never changed;

  \<^item> when the assigned row equals the loaded one, or its five assigned values can be bound
    (null, boolean, text, or a number within 64 bits) and the row as stored satisfies the
    constraints of the schema against the other rows, and storage accepts the commit and
    the reload that follows it, the response is 200 with the serialization of the stored
    row: the five assigned columns as the TEXT columns hold them (a number or a boolean as
    its text) and the other fields as before; a following GET returns the same
    serialization, and the other students, the teachers and the classes are untouched;

  \<^item> when the assigned row differs from the loaded one and one of its five values cannot
    be bound or the row violates a constraint, or when storage refuses the commit, the
    response is 500 with the text of the exception and nothing is overwritten;

  \<^item> a PUT with none of the five keys, with commit and reload accepted, is answered with
    200 and the serialization of the stored row, and changes nothing.

  A payload that is not a JSON object is answered 500, and nothing is overwritten.
\<close>

theorem C3_update_amended:
  assumes "query_fault e = None" "sqlite_int k"
    and "find (\<lambda>x. s_id x = k) (students s) = Some old"
    and "r = assign_fields d old"
    and "row = (if r = old then old else updated_row e r)"
  shows
  "s_first_name r = (case map_of d ''first_name'' of None \<Rightarrow> s_first_name old | Some v \<Rightarrow> v)
 \<and> s_last_name r = (case map_of d ''last_name'' of None \<Rightarrow> s_last_name old | Some v \<Rightarrow> v)
 \<and> s_email r = (case map_of d ''email'' of None \<Rightarrow> s_email old | Some v \<Rightarrow> v)
 \<and> s_phone r = (case map_of d ''phone'' of None \<Rightarrow> s_phone old | Some v \<Rightarrow> v)
 \<and> s_status r = (case map_of d ''status'' of None \<Rightarrow> s_status old | Some v \<Rightarrow> v)
 \<and> s_id r = s_id old \<and> s_student_id r = s_student_id old
 \<and> s_date_of_birth r = s_date_of_birth old \<and> s_class_id r = s_class_id old
 \<and> s_enrollment_date r = s_enrollment_date old
 \<and> ((r = old \<or>
       (list_all storable [s_first_name r, s_last_name r, s_email r, s_phone r, s_status r]
        \<and> \<not> student_violates (updated_row e r) (filter (\<lambda>x. s_id x \<noteq> k) (students s))))
      \<and> commit_fault e = None \<and> reload_fault e = None \<longrightarrow>
      (\<exists>st'. update_student e k (JObj d) (session_begin s) =
                (\<lparr>status_code = 200, body = student_to_dict row\<rparr>, st')
            \<and> pending st' = []
            \<and> find (\<lambda>x. s_id x = k) (students (stored st')) = Some row
            \<and> get_student e k st' = (\<lparr>status_code = 200, body = student_to_dict row\<rparr>, st')
            \<and> teachers (stored st') = teachers s \<and> classes (stored st') = classes s
            \<and> filter (\<lambda>x. s_id x \<noteq> k) (students (stored st'))
                = filter (\<lambda>x. s_id x \<noteq> k) (students s)))
 \<and> json_field (student_to_dict row) ''id'' = Some (JNum k)
 \<and> json_field (student_to_dict row) ''student_id'' = Some (s_student_id old)
 \<and> json_field (student_to_dict row) ''first_name''
      = Some (if r = old then s_first_name old else text_affinity (s_first_name r))
 \<and> json_field (student_to_dict row) ''last_name''
      = Some (if r = old then s_last_name old else text_affinity (s_last_name r))
 \<and> json_field (student_to_dict row) ''email''
      = Some (if r = old then s_email old else text_affinity (s_email r))
 \<and> json_field (student_to_dict row) ''phone''
      = Some (if r = old then s_phone old else text_affinity (s_phone r))
 \<and> json_field (student_to_dict row) ''status''
      = Some (if r = old then s_status old else text_affinity (s_status r))
 \<and> json_field (student_to_dict row) ''date_of_birth'' = Some (opt_str (s_date_of_birth old))
 \<and> json_field (student_to_dict row) ''enrollment_date'' = Some (JStr (s_enrollment_date old))
 \<and> json_field (student_to_dict row) ''class_id'' = Some (opt_int (s_class_id old))
 \<and> (r \<noteq> old
      \<and> (\<not> list_all storable [s_first_name r, s_last_name r, s_email r, s_phone r, s_status r]
         \<or> student_violates (updated_row e r) (filter (\<lambda>x. s_id x \<noteq> k) (students s))) \<longrightarrow>
      (\<exists>x. update_student e k (JObj d) (session_begin s) = (error_500 x, session_begin s)))
 \<and> (commit_fault e \<noteq> None \<longrightarrow>
      (\<exists>x. update_student e k (JObj d) (session_begin s) = (error_500 x, session_begin s)))
 \<and> ((\<forall>f \<in> {''first_name'', ''last_name'', ''email'', ''phone'', ''status''}. map_of d f = None)
      \<and> commit_fault e = None \<and> reload_fault e = None \<longrightarrow>
      update_student e k (JObj d) (session_begin s) =
        (\<lparr>status_code = 200, body = student_to_dict old\<rparr>, session_begin s))
 \<and> (\<forall>data. \<not> is_object data \<longrightarrow>
      update_student e k data (session_begin s) =
        (error_500 (AttributeError (py_type_name data)), session_begin s))"
proof -
  have k: "s_id r = k" and ko: "s_id old = k"
    using find_student_id [OF assms(3)] assms(4) by (simp_all add: s_id_assign_fields)
  let ?s' = "if r = old then s
             else s\<lparr>students :=
                    map (\<lambda>x. if s_id x = k then updated_row e r else x) (students s)\<rparr>"
  have fields:
    "s_first_name r = (case map_of d ''first_name'' of None \<Rightarrow> s_first_name old | Some v \<Rightarrow> v)"
    "s_last_name r = (case map_of d ''last_name'' of None \<Rightarrow> s_last_name old | Some v \<Rightarrow> v)"
    "s_email r = (case map_of d ''email'' of None \<Rightarrow> s_email old | Some v \<Rightarrow> v)"
    "s_phone r = (case map_of d ''phone'' of None \<Rightarrow> s_phone old | Some v \<Rightarrow> v)"
    "s_status r = (case map_of d ''status'' of None \<Rightarrow> s_status old | Some v \<Rightarrow> v)"
    "s_id r = s_id old" "s_student_id r = s_student_id old"
    "s_date_of_birth r = s_date_of_birth old" "s_class_id r = s_class_id old"
    "s_enrollment_date r = s_enrollment_date old"
    by (simp_all add: assms(4) assign_fields_def dict_get_def)
  have committed: "\<exists>st'. update_student e k (JObj d) (session_begin s) =
                (\<lparr>status_code = 200, body = student_to_dict row\<rparr>, st')
            \<and> pending st' = []
            \<and> find (\<lambda>x. s_id x = k) (students (stored st')) = Some row
            \<and> get_student e k st' = (\<lparr>status_code = 200, body = student_to_dict row\<rparr>, st')
            \<and> teachers (stored st') = teachers s \<and> classes (stored st') = classes s
            \<and> filter (\<lambda>x. s_id x \<noteq> k) (students (stored st'))
                = filter (\<lambda>x. s_id x \<noteq> k) (students s)"
    if ok: "r = old \<or>
       (list_all storable [s_first_name r, s_last_name r, s_email r, s_phone r, s_status r]
        \<and> \<not> student_violates (updated_row e r) (filter (\<lambda>x. s_id x \<noteq> k) (students s)))"
      and c: "commit_fault e = None" and l: "reload_fault e = None"
  proof -
    note u = update_student_ok [OF assms(1,2,3,4) ok c l assms(5) refl]
    have g: "get_student e k (session_begin ?s') =
               (\<lparr>status_code = 200, body = student_to_dict row\<rparr>, session_begin ?s')"
      by (rule get_student_found [OF assms(1,2) u(2)])
    have p: "pending (session_begin ?s') = []"
      by (rule pending_session_begin)
    have f: "find (\<lambda>x. s_id x = k) (students (stored (session_begin ?s'))) = Some row"
      using u(2) by (simp only: stored_session_begin)
    have t: "teachers (stored (session_begin ?s')) = teachers s"
      "classes (stored (session_begin ?s')) = classes s"
      by (simp_all add: stored_session_begin)
    have "s_id (updated_row e r) = k" using k by (simp add: s_id_updated_row)
    from filter_map_replace [OF this, of "students s"]
    have o: "filter (\<lambda>x. s_id x \<noteq> k) (students (stored (session_begin ?s')))
                = filter (\<lambda>x. s_id x \<noteq> k) (students s)"
      by (simp add: stored_session_begin)
    from u(1) g p f t o show ?thesis by blast
  qed
  have shown:
    "json_field (student_to_dict row) ''id'' = Some (JNum k)"
    "json_field (student_to_dict row) ''student_id'' = Some (s_student_id old)"
    "json_field (student_to_dict row) ''first_name''
      = Some (if r = old then s_first_name old else text_affinity (s_first_name r))"
    "json_field (student_to_dict row) ''last_name''
      = Some (if r = old then s_last_name old else text_affinity (s_last_name r))"
    "json_field (student_to_dict row) ''email''
      = Some (if r = old then s_email old else text_affinity (s_email r))"
    "json_field (student_to_dict row) ''phone''
      = Some (if r = old then s_phone old else text_affinity (s_phone r))"
    "json_field (student_to_dict row) ''status''
      = Some (if r = old then s_status old else text_affinity (s_status r))"
    "json_field (student_to_dict row) ''date_of_birth'' = Some (opt_str (s_date_of_birth old))"
    "json_field (student_to_dict row) ''enrollment_date'' = Some (JStr (s_enrollment_date old))"
    "json_field (student_to_dict row) ''class_id'' = Some (opt_int (s_class_id old))"
    using ko fields(6-10)
    by (simp_all add: to_dict_fields assms(5) updated_row_def)
  have rejected: "\<exists>x. update_student e k (JObj d) (session_begin s) = (error_500 x, session_begin s)"
    if "r \<noteq> old
      \<and> (\<not> list_all storable [s_first_name r, s_last_name r, s_email r, s_phone r, s_status r]
         \<or> student_violates (updated_row e r) (filter (\<lambda>x. s_id x \<noteq> k) (students s)))"
    using update_student_rejected [OF assms(1,2,3,4)] that by blast
  have refused: "\<exists>x. update_student e k (JObj d) (session_begin s) = (error_500 x, session_begin s)"
    if "commit_fault e \<noteq> None"
    using update_student_commit_fault [OF assms(1,2,3)] that by blast
  have nokeys: "update_student e k (JObj d) (session_begin s) =
        (\<lparr>status_code = 200, body = student_to_dict old\<rparr>, session_begin s)"
    if a: "\<forall>f \<in> {''first_name'', ''last_name'', ''email'', ''phone'', ''status''}. map_of d f = None"
      and c: "commit_fault e = None" and l: "reload_fault e = None"
  proof -
    have same: "r = old" using assign_fields_no_keys [OF a] assms(4) by simp
    then have ok: "r = old \<or>
       (list_all storable [s_first_name r, s_last_name r, s_email r, s_phone r, s_status r]
        \<and> \<not> student_violates (updated_row e r) (filter (\<lambda>x. s_id x \<noteq> k) (students s)))"
      by simp
    from update_student_ok(1) [OF assms(1,2,3,4) ok c l assms(5) refl] same assms(5)
    show ?thesis by simp
  qed
  have notobj: "update_student e k data (session_begin s) =
        (error_500 (AttributeError (py_type_name data)), session_begin s)"
    if "\<not> is_object data" for data
    using update_not_object [OF assms(1,2,3) that]
    by (simp add: update_student_def except_rollback_500_def rollback_begin)
  show ?thesis
    apply (intro conjI)
    apply (rule fields)+
    apply (intro impI, elim conjE, rule committed, assumption+)
    apply (rule shown)+
    apply (intro impI, rule rejected, assumption)
    apply (intro impI, rule refused, assumption)
    apply (intro impI, elim conjE, rule nokeys, assumption+)
    apply (intro allI impI, rule notobj, assumption)
    done
qed

lemma dec_int_example: "dec_int 5550199 = ''5550199''"
  by (simp add: dec_int_def)

lemma assign_fields_phone_alice:
  "alice\<lparr>s_phone := JNum 5550199\<rparr> = assign_fields [(''phone'', JNum 5550199)] alice"
  by (simp add: assign_fields_def dict_get_def alice_def)

lemma updated_row_phone_alice:
  "updated_row env0 (alice\<lparr>s_phone := JNum 5550199\<rparr>)
     = alice\<lparr>s_phone := JStr ''5550199'', s_updated_at := ''2023-11-14T22:13:20''\<rparr>"
  by (simp add: updated_row_def alice_def env0_def dec_int_example)

theorem C3_update_amended_witness:
  "query_fault env0 = None \<and> sqlite_int 1
 \<and> find (\<lambda>x. s_id x = 1) (students db2) = Some alice
 \<and> (\<exists>st'. update_student env0 1 (JObj [(''phone'', JNum 5550199)]) (session_begin db2) =
            (\<lparr>status_code = 200,
              body = student_to_dict
                (alice\<lparr>s_phone := JStr ''5550199'', s_updated_at := ''2023-11-14T22:13:20''\<rparr>)\<rparr>,
             st')
        \<and> get_student env0 1 st' =
            (\<lparr>status_code = 200,
              body = student_to_dict
                (alice\<lparr>s_phone := JStr ''5550199'', s_updated_at := ''2023-11-14T22:13:20''\<rparr>)\<rparr>,
             st'))
 \<and> json_field (student_to_dict
      (alice\<lparr>s_phone := JStr ''5550199'', s_updated_at := ''2023-11-14T22:13:20''\<rparr>)) ''phone''
      = Some (JStr ''5550199'')
 \<and> update_student env0 1 (JObj []) (session_begin db2) =
      (\<lparr>status_code = 200, body = student_to_dict alice\<rparr>, session_begin db2)
 \<and> update_student env0 1 JNull (session_begin db2) =
      (error_500 (AttributeError ''NoneType''), session_begin db2)"
proof -
  let ?r = "alice\<lparr>s_phone := JNum 5550199\<rparr>"
  let ?row = "alice\<lparr>s_phone := JStr ''5550199'', s_updated_at := ''2023-11-14T22:13:20''\<rparr>"
  have n: "?r \<noteq> alice"
    by (simp add: alice_def)
  have row: "?row = (if ?r = alice then alice else updated_row env0 ?r)"
    using n by (simp add: updated_row_phone_alice)
  have v: "list_all storable
              [s_first_name ?r, s_last_name ?r, s_email ?r, s_phone ?r, s_status ?r]
           \<and> \<not> student_violates (updated_row env0 ?r)
               (filter (\<lambda>x. s_id x \<noteq> 1) (students db2))"
    unfolding updated_row_phone_alice others_alice
    by (simp add: student_violates_def alice_def bob_def sqlite_int_def)
  have e: "alice = assign_fields [] alice"
    by (simp add: assign_fields_def dict_get_def)
  have e': "alice = (if alice = alice then alice else updated_row env0 alice)"
    by simp
  have o: "\<not> is_object JNull"
    by (simp add: is_object_def)
  note a = C3_update_amended [OF env0_no_fault(1) sqlite_int_1 find_alice
      assign_fields_phone_alice row]
  note b = C3_update_amended [OF env0_no_fault(1) sqlite_int_1 find_alice e e']
  from a have
    "(?r = alice \<or>
       (list_all storable [s_first_name ?r, s_last_name ?r, s_email ?r, s_phone ?r, s_status ?r]
        \<and> \<not> student_violates (updated_row env0 ?r)
             (filter (\<lambda>x. s_id x \<noteq> 1) (students db2))))
      \<and> commit_fault env0 = None \<and> reload_fault env0 = None \<longrightarrow>
      (\<exists>st'. update_student env0 1 (JObj [(''phone'', JNum 5550199)]) (session_begin db2) =
                (\<lparr>status_code = 200, body = student_to_dict ?row\<rparr>, st')
            \<and> pending st' = []
            \<and> find (\<lambda>x. s_id x = 1) (students (stored st')) = Some ?row
            \<and> get_student env0 1 st' = (\<lparr>status_code = 200, body = student_to_dict ?row\<rparr>, st')
            \<and> teachers (stored st') = teachers db2 \<and> classes (stored st') = classes db2
            \<and> filter (\<lambda>x. s_id x \<noteq> 1) (students (stored st'))
                = filter (\<lambda>x. s_id x \<noteq> 1) (students db2))"
    by (elim conjE) assumption
  with v env0_no_fault(2,3) have c1:
    "\<exists>st'. update_student env0 1 (JObj [(''phone'', JNum 5550199)]) (session_begin db2) =
              (\<lparr>status_code = 200, body = student_to_dict ?row\<rparr>, st')
          \<and> get_student env0 1 st' = (\<lparr>status_code = 200, body = student_to_dict ?row\<rparr>, st')"
    by blast
  from a have "json_field (student_to_dict ?row) ''phone''
      = Some (if ?r = alice then s_phone alice else text_affinity (s_phone ?r))"
    by (elim conjE) assumption
  with n have c2: "json_field (student_to_dict ?row) ''phone'' = Some (JStr ''5550199'')"
    by (simp add: dec_int_example)
  from b have
    "(\<forall>f \<in> {''first_name'', ''last_name'', ''email'', ''phone'', ''status''}. map_of ([] :: (string \<times> json) list) f = None)
      \<and> commit_fault env0 = None \<and> reload_fault env0 = None \<longrightarrow>
      update_student env0 1 (JObj []) (session_begin db2) =
        (\<lparr>status_code = 200, body = student_to_dict alice\<rparr>, session_begin db2)"
    by (elim conjE) assumption
  with env0_no_fault(2,3) have c3: "update_student env0 1 (JObj []) (session_begin db2) =
        (\<lparr>status_code = 200, body = student_to_dict alice\<rparr>, session_begin db2)"
    by simp
  from b have "\<forall>data. \<not> is_object data \<longrightarrow>
      update_student env0 1 data (session_begin db2) =
        (error_500 (AttributeError (py_type_name data)), session_begin db2)"
    by (elim conjE) assumption
  with o have c4: "update_student env0 1 JNull (session_begin db2) =
      (error_500 (AttributeError ''NoneType''), session_begin db2)"
    by fastforce
  from env0_no_fault(1) sqlite_int_1 find_alice c1 c2 c3 c4 show ?thesis
    by (intro conjI)
qed

section \<open>Explicit null in an update\<close>

text \<open>
  C10, as the claim states it, fails for the columns declared NOT NULL: a PUT with
  first_name null on an existing student does not overwrite the field; the UPDATE is
  rejected, the handler rolls back and answers 500, and a following GET still shows the
  stored first name.
\<close>

theorem C10_counterexample:
  "status_code (fst (update_student env0 1 (JObj [(''first_name'', JNull)])
                       (session_begin db2))) = 500
 \<and> snd (update_student env0 1 (JObj [(''first_name'', JNull)]) (session_begin db2))
      = session_begin db2
 \<and> get_student env0 1 (session_begin db2) =
      (\<lparr>status_code = 200, body = student_to_dict alice\<rparr>, session_begin db2)
 \<and> json_field (student_to_dict alice) ''first_name'' = Some (JStr ''Alice'')"
proof -
  let ?r = "alice\<lparr>s_first_name := JNull\<rparr>"
  have r: "?r = assign_fields [(''first_name'', JNull)] alice"
    by (simp add: assign_fields_def dict_get_def alice_def)
  have n: "?r \<noteq> alice"
    by (simp add: alice_def)
  have v: "\<not> list_all storable
              [s_first_name ?r, s_last_name ?r, s_email ?r, s_phone ?r, s_status ?r]
           \<or> student_violates (updated_row env0 ?r)
               (filter (\<lambda>x. s_id x \<noteq> 1) (students db2))"
    by (simp add: student_violates_def updated_row_def)
  from update_student_rejected [OF env0_no_fault(1) sqlite_int_1 find_alice r n v]
  have "status_code (fst (update_student env0 1 (JObj [(''first_name'', JNull)])
                       (session_begin db2))) = 500
      \<and> snd (update_student env0 1 (JObj [(''first_name'', JNull)]) (session_begin db2))
          = session_begin db2"
    by (auto simp: error_500_def)
  moreover have "json_field (student_to_dict alice) ''first_name'' = Some (JStr ''Alice'')"
    by (simp add: to_dict_fields alice_def)
  ultimately show ?thesis
    using get_student_found [OF env0_no_fault(1) sqlite_int_1 find_alice] by simp
qed

text \<open>
  C10, amended. For an existing student whose id fits a 64-bit integer and whose stored
  first_name, last_name and email are not null (as the schema guarantees), and a PUT
  payload that is a JSON object:

  \<^item> each of the five assignments yields null when the key is present with null, and the
    stored value when the key is absent;

  \<^item> when phone or status (the nullable columns) is present with null, and the assigned
    row equals the loaded one or its five values can be bound and the row as stored
    satisfies the constraints of the schema, and storage accepts the commit and the reload
    that follows it, the response is 200 with the serialization of the stored row, in
    which that field is null, and a following GET returns the same;

  \<^item> when first_name, last_name or email (declared NOT NULL in models.py) is present with
    null, the write is rejected: the response is 500 with the text of the exception,
    nothing is stored, and a following GET returns the stored row as it was.
\<close>

theorem C10_null_amended:
  assumes "query_fault e = None" "sqlite_int k"
    and "find (\<lambda>x. s_id x = k) (students s) = Some old"
    and "s_first_name old \<noteq> JNull" "s_last_name old \<noteq> JNull" "s_email old \<noteq> JNull"
    and "r = assign_fields d old"
    and "row = (if r = old then old else updated_row e r)"
  shows
  "(map_of d ''first_name'' = Some JNull \<longrightarrow> s_first_name r = JNull)
 \<and> (map_of d ''last_name'' = Some JNull \<longrightarrow> s_last_name r = JNull)
 \<and> (map_of d ''email'' = Some JNull \<longrightarrow> s_email r = JNull)
 \<and> (map_of d ''phone'' = Some JNull \<longrightarrow> s_phone r = JNull)
 \<and> (map_of d ''status'' = Some JNull \<longrightarrow> s_status r = JNull)
 \<and> (map_of d ''first_name'' = None \<longrightarrow> s_first_name r = s_first_name old)
 \<and> (map_of d ''last_name'' = None \<longrightarrow> s_last_name r = s_last_name old)
 \<and> (map_of d ''email'' = None \<longrightarrow> s_email r = s_email old)
 \<and> (map_of d ''phone'' = None \<longrightarrow> s_phone r = s_phone old)
 \<and> (map_of d ''status'' = None \<longrightarrow> s_status r = s_status old)
 \<and> ((map_of d ''phone'' = Some JNull \<or> map_of d ''status'' = Some JNull)
      \<and> (r = old \<or>
          (list_all storable [s_first_name r, s_last_name r, s_email r, s_phone r, s_status r]
           \<and> \<not> student_violates (updated_row e r) (filter (\<lambda>x. s_id x \<noteq> k) (students s))))
      \<and> commit_fault e = None \<and> reload_fault e = None \<longrightarrow>
      (\<exists>st'. update_student e k (JObj d) (session_begin s) =
                (\<lparr>status_code = 200, body = student_to_dict row\<rparr>, st')
            \<and> find (\<lambda>x. s_id x = k) (students (stored st')) = Some row
            \<and> get_student e k st' = (\<lparr>status_code = 200, body = student_to_dict row\<rparr>, st')
            \<and> (map_of d ''phone'' = Some JNull \<longrightarrow>
                 json_field (student_to_dict row) ''phone'' = Some JNull)
            \<and> (map_of d ''status'' = Some JNull \<longrightarrow>
                 json_field (student_to_dict row) ''status'' = Some JNull)))
 \<and> (map_of d ''first_name'' = Some JNull \<or> map_of d ''last_name'' = Some JNull
      \<or> map_of d ''email'' = Some JNull \<longrightarrow>
      (\<exists>x. update_student e k (JObj d) (session_begin s) = (error_500 x, session_begin s))
      \<and> get_student e k (session_begin s) =
          (\<lparr>status_code = 200, body = student_to_dict old\<rparr>, session_begin s))"
proof -
  let ?s' = "if r = old then s
             else s\<lparr>students :=
                    map (\<lambda>x. if s_id x = k then updated_row e r else x) (students s)\<rparr>"
  have null:
    "map_of d ''first_name'' = Some JNull \<longrightarrow> s_first_name r = JNull"
    "map_of d ''last_name'' = Some JNull \<longrightarrow> s_last_name r = JNull"
    "map_of d ''email'' = Some JNull \<longrightarrow> s_email r = JNull"
    "map_of d ''phone'' = Some JNull \<longrightarrow> s_phone r = JNull"
    "map_of d ''status'' = Some JNull \<longrightarrow> s_status r = JNull"
    by (simp_all add: assms(7) assign_fields_def dict_get_def)
  have absent:
    "map_of d ''first_name'' = None \<longrightarrow> s_first_name r = s_first_name old"
    "map_of d ''last_name'' = None \<longrightarrow> s_last_name r = s_last_name old"
    "map_of d ''email'' = None \<longrightarrow> s_email r = s_email old"
    "map_of d ''phone'' = None \<longrightarrow> s_phone r = s_phone old"
    "map_of d ''status'' = None \<longrightarrow> s_status r = s_status old"
    by (simp_all add: assms(7) assign_fields_def dict_get_def)
  have nullable: "\<exists>st'. update_student e k (JObj d) (session_begin s) =
                (\<lparr>status_code = 200, body = student_to_dict row\<rparr>, st')
            \<and> find (\<lambda>x. s_id x = k) (students (stored st')) = Some row
            \<and> get_student e k st' = (\<lparr>status_code = 200, body = student_to_dict row\<rparr>, st')
            \<and> (map_of d ''phone'' = Some JNull \<longrightarrow>
                 json_field (student_to_dict row) ''phone'' = Some JNull)
            \<and> (map_of d ''status'' = Some JNull \<longrightarrow>
                 json_field (student_to_dict row) ''status'' = Some JNull)"
    if ok: "r = old \<or>
          (list_all storable [s_first_name r, s_last_name r, s_email r, s_phone r, s_status r]
           \<and> \<not> student_violates (updated_row e r) (filter (\<lambda>x. s_id x \<noteq> k) (students s)))"
      and c: "commit_fault e = None" and l: "reload_fault e = None"
  proof -
    note u = update_student_ok [OF assms(1,2,3,7) ok c l assms(8) refl]
    have g: "get_student e k (session_begin ?s') =
               (\<lparr>status_code = 200, body = student_to_dict row\<rparr>, session_begin ?s')"
      by (rule get_student_found [OF assms(1,2) u(2)])
    have f: "find (\<lambda>x. s_id x = k) (students (stored (session_begin ?s'))) = Some row"
      using u(2) by (simp only: stored_session_begin)
    have p: "map_of d ''phone'' = Some JNull \<longrightarrow>
               json_field (student_to_dict row) ''phone'' = Some JNull"
      using null(4) by (auto simp: to_dict_fields assms(8) updated_row_def)
    have t: "map_of d ''status'' = Some JNull \<longrightarrow>
               json_field (student_to_dict row) ''status'' = Some JNull"
      using null(5) by (auto simp: to_dict_fields assms(8) updated_row_def)
    from u(1) g f p t show ?thesis by blast
  qed
  have required: "(\<exists>x. update_student e k (JObj d) (session_begin s) = (error_500 x, session_begin s))
      \<and> get_student e k (session_begin s) =
          (\<lparr>status_code = 200, body = student_to_dict old\<rparr>, session_begin s)"
    if n: "map_of d ''first_name'' = Some JNull \<or> map_of d ''last_name'' = Some JNull
      \<or> map_of d ''email'' = Some JNull"
  proof -
    from n null(1,2,3)
    have z: "s_first_name r = JNull \<or> s_last_name r = JNull \<or> s_email r = JNull"
      by blast
    with assms(4,5,6) have d: "r \<noteq> old" by auto
    from z have "student_violates (updated_row e r) (filter (\<lambda>x. s_id x \<noteq> k) (students s))"
      by (auto simp: student_violates_def updated_row_def)
    then have v: "\<not> list_all storable
                     [s_first_name r, s_last_name r, s_email r, s_phone r, s_status r]
         \<or> student_violates (updated_row e r) (filter (\<lambda>x. s_id x \<noteq> k) (students s))"
      by (rule disjI2)
    from update_student_rejected [OF assms(1,2,3,7) d v]
      get_student_found [OF assms(1,2,3)]
    show ?thesis by (rule conjI)
  qed
  show ?thesis
    apply (intro conjI)
    apply (rule null absent)+
    apply (intro impI, elim conjE, rule nullable, assumption+)
    apply (intro impI, rule required, assumption)
    done
qed

theorem C10_null_amended_witness:
  "query_fault env0 = None \<and> sqlite_int 1
 \<and> find (\<lambda>x. s_id x = 1) (students db2) = Some alice
 \<and> s_first_name alice \<noteq> JNull \<and> s_last_name alice \<noteq> JNull \<and> s_email alice \<noteq> JNull
 \<and> (\<exists>st'. update_student env0 1 (JObj [(''phone'', JNull)]) (session_begin db2) =
            (\<lparr>status_code = 200,
              body = student_to_dict
                (alice\<lparr>s_phone := JNull, s_updated_at := ''2023-11-14T22:13:20''\<rparr>)\<rparr>, st')
        \<and> get_student env0 1 st' =
            (\<lparr>status_code = 200,
              body = student_to_dict
                (alice\<lparr>s_phone := JNull, s_updated_at := ''2023-11-14T22:13:20''\<rparr>)\<rparr>, st'))
 \<and> json_field (student_to_dict
      (alice\<lparr>s_phone := JNull, s_updated_at := ''2023-11-14T22:13:20''\<rparr>)) ''phone'' = Some JNull
 \<and> (\<exists>x. update_student env0 1 (JObj [(''email'', JNull)]) (session_begin db2)
           = (error_500 x, session_begin db2))"
proof -
  let ?r = "alice\<lparr>s_phone := JNull\<rparr>"
  let ?row = "alice\<lparr>s_phone := JNull, s_updated_at := ''2023-11-14T22:13:20''\<rparr>"
  let ?d = "[(''phone'', JNull)] :: (string \<times> json) list"
  let ?d' = "[(''email'', JNull)] :: (string \<times> json) list"
  have nn: "s_first_name alice \<noteq> JNull" "s_last_name alice \<noteq> JNull" "s_email alice \<noteq> JNull"
    by (simp_all add: alice_def)
  have r: "?r = assign_fields ?d alice"
    by (simp add: assign_fields_def dict_get_def alice_def)
  have n: "?r \<noteq> alice"
    by (simp add: alice_def)
  have u: "updated_row env0 ?r = ?row"
    by (simp add: updated_row_def alice_def env0_def)
  have row: "?row = (if ?r = alice then alice else updated_row env0 ?r)"
    using n by (simp add: u)
  have v: "list_all storable
              [s_first_name ?r, s_last_name ?r, s_email ?r, s_phone ?r, s_status ?r]
           \<and> \<not> student_violates (updated_row env0 ?r)
               (filter (\<lambda>x. s_id x \<noteq> 1) (students db2))"
    unfolding u others_alice
    by (simp add: student_violates_def alice_def bob_def)
  have m: "map_of ?d ''phone'' = Some JNull" "map_of ?d' ''email'' = Some JNull"
    by simp_all
  note a = C10_null_amended [OF env0_no_fault(1) sqlite_int_1 find_alice nn r row]
  note b = C10_null_amended [OF env0_no_fault(1) sqlite_int_1 find_alice nn refl refl,
      of ?d']
  from a have
    "(map_of ?d ''phone'' = Some JNull \<or> map_of ?d ''status'' = Some JNull)
      \<and> (?r = alice \<or>
          (list_all storable [s_first_name ?r, s_last_name ?r, s_email ?r, s_phone ?r, s_status ?r]
           \<and> \<not> student_violates (updated_row env0 ?r)
                (filter (\<lambda>x. s_id x \<noteq> 1) (students db2))))
      \<and> commit_fault env0 = None \<and> reload_fault env0 = None \<longrightarrow>
      (\<exists>st'. update_student env0 1 (JObj ?d) (session_begin db2) =
                (\<lparr>status_code = 200, body = student_to_dict ?row\<rparr>, st')
            \<and> find (\<lambda>x. s_id x = 1) (students (stored st')) = Some ?row
            \<and> get_student env0 1 st' = (\<lparr>status_code = 200, body = student_to_dict ?row\<rparr>, st')
            \<and> (map_of ?d ''phone'' = Some JNull \<longrightarrow>
                 json_field (student_to_dict ?row) ''phone'' = Some JNull)
            \<and> (map_of ?d ''status'' = Some JNull \<longrightarrow>
                 json_field (student_to_dict ?row) ''status'' = Some JNull))"
    by (elim conjE) assumption
  with m(1) v env0_no_fault(2,3) have c1:
    "\<exists>st'. update_student env0 1 (JObj ?d) (session_begin db2) =
                (\<lparr>status_code = 200, body = student_to_dict ?row\<rparr>, st')
            \<and> get_student env0 1 st' = (\<lparr>status_code = 200, body = student_to_dict ?row\<rparr>, st')"
    and c2: "json_field (student_to_dict ?row) ''phone'' = Some JNull"
    by blast+
  from b have
    "map_of ?d' ''first_name'' = Some JNull \<or> map_of ?d' ''last_name'' = Some JNull
      \<or> map_of ?d' ''email'' = Some JNull \<longrightarrow>
      (\<exists>x. update_student env0 1 (JObj ?d') (session_begin db2) = (error_500 x, session_begin db2))
      \<and> get_student env0 1 (session_begin db2) =
          (\<lparr>status_code = 200, body = student_to_dict alice\<rparr>, session_begin db2)"
    by (elim conjE) assumption
  with m(2) have c3:
    "\<exists>x. update_student env0 1 (JObj ?d') (session_begin db2) = (error_500 x, session_begin db2)"
    by blast
  from env0_no_fault(1) sqlite_int_1 find_alice nn c1 c2 c3 show ?thesis
    by (intro conjI)
qed

section \<open>Exceptions in the mutating handlers\<close>

lemma except_rollback_500_raises:
  "fst r = Inl x \<Longrightarrow>
     fst (except_rollback_500 r) = error_500 x \<and> pending (snd (except_rollback_500 r)) = []"
  by (cases r) (simp add: except_rollback_500_def rollback_def)

lemma create_student_500:
  "status_code (fst (create_student e data (session_begin d))) = 500 \<Longrightarrow>
     snd (create_student e data (session_begin d)) = session_begin d
     \<or> (\<exists>m. reload_fault e = Some m
          \<and> fst (create_student e data (session_begin d))
              = error_500 (SQLAlchemyError OperationalError m)
          \<and> pending (snd (create_student e data (session_begin d))) = [])"
proof (cases "is_object data")
  case False
  from create_not_object(1) [OF this] show ?thesis
    by (simp add: create_student_def except_rollback_500_def rollback_begin)
next
  case True
  then obtain kv where data: "data = JObj kv"
    by (cases data) (simp_all add: is_object_def)
  assume "status_code (fst (create_student e data (session_begin d))) = 500"
  then show ?thesis
    unfolding data create_student_def create_student_object
    by (simp add: except_rollback_500_def rollback_single rollback_begin
        pending_session_begin missing_required_fields_def
        del: first_bind_error.simps split: option.splits if_splits)
qed

lemma create_teacher_500:
  "status_code (fst (create_teacher e data (session_begin d))) = 500 \<Longrightarrow>
     snd (create_teacher e data (session_begin d)) = session_begin d
     \<or> (\<exists>m. reload_fault e = Some m
          \<and> fst (create_teacher e data (session_begin d))
              = error_500 (SQLAlchemyError OperationalError m)
          \<and> pending (snd (create_teacher e data (session_begin d))) = [])"
proof (cases "is_object data")
  case False
  from create_not_object(2) [OF this] show ?thesis
    by (simp add: create_teacher_def except_rollback_500_def rollback_begin)
next
  case True
  then obtain kv where data: "data = JObj kv"
    by (cases data) (simp_all add: is_object_def)
  assume "status_code (fst (create_teacher e data (session_begin d))) = 500"
  then show ?thesis
    unfolding data create_teacher_def create_teacher_object
    by (simp add: except_rollback_500_def rollback_single rollback_begin
        pending_session_begin missing_required_fields_def
        del: first_bind_error.simps split: option.splits if_splits)
qed

lemma create_class_500:
  "status_code (fst (create_class e data (session_begin d))) = 500 \<Longrightarrow>
     snd (create_class e data (session_begin d)) = session_begin d
     \<or> (\<exists>m. reload_fault e = Some m
          \<and> fst (create_class e data (session_begin d))
              = error_500 (SQLAlchemyError OperationalError m)
          \<and> pending (snd (create_class e data (session_begin d))) = [])"
proof (cases "is_object data")
  case False
  from create_not_object(3) [OF this] show ?thesis
    by (simp add: create_class_def except_rollback_500_def rollback_begin)
next
  case True
  then obtain kv where data: "data = JObj kv"
    by (cases data) (simp_all add: is_object_def)
  assume "status_code (fst (create_class e data (session_begin d))) = 500"
  then show ?thesis
    unfolding data create_class_def create_class_object
    by (simp add: except_rollback_500_def rollback_single rollback_begin
        pending_session_begin missing_required_fields_def
        del: first_bind_error.simps split: option.splits if_splits)
qed

lemma update_student_500:
  assumes "status_code (fst (update_student e k data (session_begin d))) = 500"
  shows "snd (update_student e k data (session_begin d)) = session_begin d
     \<or> (\<exists>m. reload_fault e = Some m
          \<and> fst (update_student e k data (session_begin d))
              = error_500 (SQLAlchemyError OperationalError m)
          \<and> pending (snd (update_student e k data (session_begin d))) = [])"
proof (cases "query_fault e = None \<and> sqlite_int k
              \<and> find (\<lambda>x. s_id x = k) (students d) \<noteq> None")
  case False
  then show ?thesis
    by (auto simp: update_student_def update_student_try_def Student_query_get_def
        except_rollback_500_def rollback_begin stored_session_begin
        split: option.splits)
next
  case True
  then obtain old where q: "query_fault e = None" and i: "sqlite_int k"
    and f: "find (\<lambda>x. s_id x = k) (students d) = Some old"
    by blast
  show ?thesis
  proof (cases "is_object data")
    case False
    from update_not_object [OF q i f this] show ?thesis
      by (simp add: update_student_def except_rollback_500_def rollback_begin)
  next
    case True
    then obtain kv where data: "data = JObj kv"
      by (cases data) (simp_all add: is_object_def)
    from assms show ?thesis
      unfolding data update_student_def update_student_object [OF q i f refl refl]
      by (simp add: except_rollback_500_def rollback_single rollback_begin
          pending_session_begin
          del: first_bind_error.simps split: option.splits if_splits)
  qed
qed

lemma delete_student_500:
  "status_code (fst (delete_student e k (session_begin d))) = 500 \<Longrightarrow>
     snd (delete_student e k (session_begin d)) = session_begin d"
  by (auto simp: delete_student_def delete_student_try_def Student_query_get_def
      except_rollback_500_def Let_def commit_single rollback_single rollback_begin
      student_not_found_def stored_session_begin
      split: if_splits option.splits)

lemma create_student_reload_lost:
  assumes "truthy (dict_get kv ''first_name'' JNull)" "truthy (dict_get kv ''last_name'' JNull)"
    and "truthy (dict_get kv ''email'' JNull)"
    and "list_all storable
           [ns_student_id (student_args e kv), ns_first_name (student_args e kv),
            ns_last_name (student_args e kv), ns_email (student_args e kv),
            ns_phone (student_args e kv), ns_status (student_args e kv)]"
    and "\<not> student_violates (student_row e (student_args e kv) d) (students d)"
    and "commit_fault e = None" "reload_fault e = Some m"
  shows "create_student e (JObj kv) (session_begin d) =
           (error_500 (SQLAlchemyError OperationalError m),
            session_begin (d\<lparr>students := students d @ [student_row e (student_args e kv) d]\<rparr>))"
proof -
  from assms(4) have "first_bind_error e
           [ns_student_id (student_args e kv), ns_first_name (student_args e kv),
            ns_last_name (student_args e kv), ns_email (student_args e kv),
            ns_phone (student_args e kv), ns_status (student_args e kv)] = None"
    by (simp only: first_bind_error_storable)
  with assms(1,2,3,5,6,7) show ?thesis
    unfolding create_student_def create_student_object
    by (simp add: except_rollback_500_def rollback_begin del: first_bind_error.simps)
qed

lemma create_teacher_reload_lost:
  assumes "truthy (dict_get kv ''first_name'' JNull)" "truthy (dict_get kv ''last_name'' JNull)"
    and "truthy (dict_get kv ''email'' JNull)"
    and "list_all storable
           [nt_teacher_id (teacher_args e kv), nt_first_name (teacher_args e kv),
            nt_last_name (teacher_args e kv), nt_email (teacher_args e kv),
            nt_phone (teacher_args e kv), nt_specialization (teacher_args e kv),
            nt_status (teacher_args e kv)]"
    and "\<not> teacher_violates (teacher_row e (teacher_args e kv) d) (teachers d)"
    and "commit_fault e = None" "reload_fault e = Some m"
  shows "create_teacher e (JObj kv) (session_begin d) =
           (error_500 (SQLAlchemyError OperationalError m),
            session_begin (d\<lparr>teachers := teachers d @ [teacher_row e (teacher_args e kv) d]\<rparr>))"
proof -
  from assms(4) have "first_bind_error e
           [nt_teacher_id (teacher_args e kv), nt_first_name (teacher_args e kv),
            nt_last_name (teacher_args e kv), nt_email (teacher_args e kv),
            nt_phone (teacher_args e kv), nt_specialization (teacher_args e kv),
            nt_status (teacher_args e kv)] = None"
    by (simp only: first_bind_error_storable)
  with assms(1,2,3,5,6,7) show ?thesis
    unfolding create_teacher_def create_teacher_object
    by (simp add: except_rollback_500_def rollback_begin del: first_bind_error.simps)
qed

lemma create_class_reload_lost:
  assumes "truthy (dict_get kv ''class_name'' JNull)" "truthy (dict_get kv ''grade_level'' JNull)"
    and "list_all storable
           [nc_class_name (class_args kv), nc_grade_level (class_args kv),
            nc_teacher_id (class_args kv), nc_max_capacity (class_args kv),
            nc_room_number (class_args kv), nc_status (class_args kv)]"
    and "\<not> class_violates (class_row e (class_args kv) d) (classes d)"
    and "commit_fault e = None" "reload_fault e = Some m"
  shows "create_class e (JObj kv) (session_begin d) =
           (error_500 (SQLAlchemyError OperationalError m),
            session_begin (d\<lparr>classes := classes d @ [class_row e (class_args kv) d]\<rparr>))"
proof -
  from assms(3) have "first_bind_error e
           [nc_class_name (class_args kv), nc_grade_level (class_args kv),
            nc_teacher_id (class_args kv), nc_max_capacity (class_args kv),
            nc_room_number (class_args kv), nc_status (class_args kv)] = None"
    by (simp only: first_bind_error_storable)
  with assms(1,2,4,5,6) show ?thesis
    unfolding create_class_def create_class_object
    by (simp add: except_rollback_500_def rollback_begin del: first_bind_error.simps)
qed

lemma update_student_reload_lost:
  assumes "query_fault e = None" "sqlite_int k"
    and "find (\<lambda>x. s_id x = k) (students d) = Some old"
    and "assign_fields kv old \<noteq> old"
    and "list_all storable
           [s_first_name (assign_fields kv old), s_last_name (assign_fields kv old),
            s_email (assign_fields kv old), s_phone (assign_fields kv old),
            s_status (assign_fields kv old)]"
    and "\<not> student_violates (updated_row e (assign_fields kv old))
           (filter (\<lambda>x. s_id x \<noteq> k) (students d))"
    and "commit_fault e = None" "reload_fault e = Some m"
  shows "update_student e k (JObj kv) (session_begin d) =
           (error_500 (SQLAlchemyError OperationalError m),
            session_begin
              (d\<lparr>students :=
                   map (\<lambda>x. if s_id x = k then updated_row e (assign_fields kv old) else x)
                     (students d)\<rparr>))"
proof -
  from assms(5) have "first_bind_error e
           [s_first_name (assign_fields kv old), s_last_name (assign_fields kv old),
            s_email (assign_fields kv old), s_phone (assign_fields kv old),
            s_status (assign_fields kv old)] = None"
    by (simp only: first_bind_error_storable)
  with assms(4,6,7,8) show ?thesis
    unfolding update_student_def update_student_object [OF assms(1,2,3) refl refl]
    by (simp add: except_rollback_500_def rollback_begin del: first_bind_error.simps)
qed

lemma valid_person_student_row:
  "student_row e (student_args e valid_person) db2 =
     \<lparr>s_id = 3, s_student_id = JStr (''STU-'' @ now_timestamp e),
      s_first_name = JStr ''Carol'', s_last_name = JStr ''Diaz'',
      s_email = JStr ''carol@example.org'', s_phone = JNull, s_date_of_birth = None,
      s_enrollment_date = utcnow e, s_class_id = None, s_status = JStr ''active'',
      s_created_at = utcnow e, s_updated_at = utcnow e\<rparr>"
  by (simp add: student_row_def student_args_def valid_person_def dict_get_def next_id_def
      db2_def alice_def bob_def)

lemma valid_person_truthy:
  "truthy (dict_get valid_person ''first_name'' JNull)"
  "truthy (dict_get valid_person ''last_name'' JNull)"
  "truthy (dict_get valid_person ''email'' JNull)"
  by (simp_all add: valid_person_def dict_get_def)

lemma valid_person_storable:
  "list_all storable
     [ns_student_id (student_args e valid_person), ns_first_name (student_args e valid_person),
      ns_last_name (student_args e valid_person), ns_email (student_args e valid_person),
      ns_phone (student_args e valid_person), ns_status (student_args e valid_person)]"
  by (simp add: student_args_def valid_person_def dict_get_def)

lemma valid_person_fresh:
  "now_timestamp e = ''1700000000.5'' \<Longrightarrow>
     \<not> student_violates (student_row e (student_args e valid_person) db2) (students db2)"
  unfolding valid_person_student_row
  by (simp add: student_violates_def db2_def alice_def bob_def)

lemma env_reload_lost_faults:
  "query_fault env_reload_lost = None" "commit_fault env_reload_lost = None"
  "reload_fault env_reload_lost = Some ''(sqlite3.OperationalError) disk I/O error''"
  "now_timestamp env_reload_lost = ''1700000000.5''"
  by (simp_all add: env_reload_lost_def env0_def)

text \<open>
  C5, as the claim states it, fails: \<^verbatim>\<open>to_dict()\<close> runs inside the try block after
  \<^verbatim>\<open>db.session.commit()\<close> and reloads the committed row. When that reload raises, the
  handler answers 500 and rolls back, but the rollback has nothing to undo: the new
  student is stored, so the storage state is not the state of before the request.
\<close>

theorem C5_counterexample:
  "status_code (fst (create_student env_reload_lost (JObj valid_person) (session_begin db2)))
     = 500
 \<and> map s_email (students db2) = [JStr ''alice@example.org'', JStr ''bob@example.org'']
 \<and> map s_email (students (stored (snd (create_student env_reload_lost (JObj valid_person)
                                          (session_begin db2)))))
     = [JStr ''alice@example.org'', JStr ''bob@example.org'', JStr ''carol@example.org'']"
proof -
  note c = create_student_reload_lost [OF valid_person_truthy valid_person_storable
      valid_person_fresh [OF env_reload_lost_faults(4)] env_reload_lost_faults(2,3)]
  show ?thesis
    unfolding c valid_person_student_row
    by (simp add: error_500_def stored_session_begin db2_def alice_def bob_def)
qed

text \<open>
  C5, amended. In each mutating handler (student create, update and delete, teacher
  create, class create):

  \<^item> an exception raised in the try block gives the response 500 whose error detail is
    the exception's message, and the session is rolled back: nothing is pending after the
    request;

  \<^item> a 500 answer comes with the state of before the request, except when the exception
    is the one raised by the reload of the committed row that \<^verbatim>\<open>to_dict()\<close> performs
    after \<^verbatim>\<open>db.session.commit()\<close>; \<^verbatim>\<open>delete_student\<close> serializes nothing after its
    commit, so each of its 500 answers comes with the state of before the request;

  \<^item> when a creation or an update is accepted by storage and committed, and the reload
    then raises, the answer is 500 with that exception's message and the write stays
    stored.
\<close>

theorem C5_exception_rollback_amended:
  "(fst (create_student_try e data (session_begin d)) = Inl x \<longrightarrow>
      fst (create_student e data (session_begin d)) = error_500 x
      \<and> pending (snd (create_student e data (session_begin d))) = [])
 \<and> (fst (update_student_try e k data (session_begin d)) = Inl x \<longrightarrow>
      fst (update_student e k data (session_begin d)) = error_500 x
      \<and> pending (snd (update_student e k data (session_begin d))) = [])
 \<and> (fst (delete_student_try e k (session_begin d)) = Inl x \<longrightarrow>
      fst (delete_student e k (session_begin d)) = error_500 x
      \<and> pending (snd (delete_student e k (session_begin d))) = [])
 \<and> (fst (create_teacher_try e data (session_begin d)) = Inl x \<longrightarrow>
      fst (create_teacher e data (session_begin d)) = error_500 x
      \<and> pending (snd (create_teacher e data (session_begin d))) = [])
 \<and> (fst (create_class_try e data (session_begin d)) = Inl x \<longrightarrow>
      fst (create_class e data (session_begin d)) = error_500 x
      \<and> pending (snd (create_class e data (session_begin d))) = [])
 \<and> (status_code (fst (create_student e data (session_begin d))) = 500 \<longrightarrow>
      snd (create_student e data (session_begin d)) = session_begin d
      \<or> (\<exists>m. reload_fault e = Some m
           \<and> fst (create_student e data (session_begin d))
               = error_500 (SQLAlchemyError OperationalError m)
           \<and> pending (snd (create_student e data (session_begin d))) = []))
 \<and> (status_code (fst (update_student e k data (session_begin d))) = 500 \<longrightarrow>
      snd (update_student e k data (session_begin d)) = session_begin d
      \<or> (\<exists>m. reload_fault e = Some m
           \<and> fst (update_student e k data (session_begin d))
               = error_500 (SQLAlchemyError OperationalError m)
           \<and> pending (snd (update_student e k data (session_begin d))) = []))
 \<and> (status_code (fst (delete_student e k (session_begin d))) = 500 \<longrightarrow>
      snd (delete_student e k (session_begin d)) = session_begin d)
 \<and> (status_code (fst (create_teacher e data (session_begin d))) = 500 \<longrightarrow>
      snd (create_teacher e data (session_begin d)) = session_begin d
      \<or> (\<exists>m. reload_fault e = Some m
           \<and> fst (create_teacher e data (session_begin d))
               = error_500 (SQLAlchemyError OperationalError m)
           \<and> pending (snd (create_teacher e data (session_begin d))) = []))
 \<and> (status_code (fst (create_class e data (session_begin d))) = 500 \<longrightarrow>
      snd (create_class e data (session_begin d)) = session_begin d
      \<or> (\<exists>m. reload_fault e = Some m
           \<and> fst (create_class e data (session_begin d))
               = error_500 (SQLAlchemyError OperationalError m)
           \<and> pending (snd (create_class e data (session_begin d))) = []))
 \<and> (truthy (dict_get kv ''first_name'' JNull) \<and> truthy (dict_get kv ''last_name'' JNull)
      \<and> truthy (dict_get kv ''email'' JNull)
      \<and> list_all storable
           [ns_student_id (student_args e kv), ns_first_name (student_args e kv),
            ns_last_name (student_args e kv), ns_email (student_args e kv),
            ns_phone (student_args e kv), ns_status (student_args e kv)]
      \<and> \<not> student_violates (student_row e (student_args e kv) d) (students d)
      \<and> commit_fault e = None \<and> reload_fault e = Some m \<longrightarrow>
      create_student e (JObj kv) (session_begin d) =
        (error_500 (SQLAlchemyError OperationalError m),
         session_begin (d\<lparr>students := students d @ [student_row e (student_args e kv) d]\<rparr>)))
 \<and> (truthy (dict_get kv ''first_name'' JNull) \<and> truthy (dict_get kv ''last_name'' JNull)
      \<and> truthy (dict_get kv ''email'' JNull)
      \<and> list_all storable
           [nt_teacher_id (teacher_args e kv), nt_first_name (teacher_args e kv),
            nt_last_name (teacher_args e kv), nt_email (teacher_args e kv),
            nt_phone (teacher_args e kv), nt_specialization (teacher_args e kv),
            nt_status (teacher_args e kv)]
      \<and> \<not> teacher_violates (teacher_row e (teacher_args e kv) d) (teachers d)
      \<and> commit_fault e = None \<and> reload_fault e = Some m \<longrightarrow>
      create_teacher e (JObj kv) (session_begin d) =
        (error_500 (SQLAlchemyError OperationalError m),
         session_begin (d\<lparr>teachers := teachers d @ [teacher_row e (teacher_args e kv) d]\<rparr>)))
 \<and> (truthy (dict_get kv ''class_name'' JNull) \<and> truthy (dict_get kv ''grade_level'' JNull)
      \<and> list_all storable
           [nc_class_name (class_args kv), nc_grade_level (class_args kv),
            nc_teacher_id (class_args kv), nc_max_capacity (class_args kv),
            nc_room_number (class_args kv), nc_status (class_args kv)]
      \<and> \<not> class_violates (class_row e (class_args kv) d) (classes d)
      \<and> commit_fault e = None \<and> reload_fault e = Some m \<longrightarrow>
      create_class e (JObj kv) (session_begin d) =
        (error_500 (SQLAlchemyError OperationalError m),
         session_begin (d\<lparr>classes := classes d @ [class_row e (class_args kv) d]\<rparr>)))
 \<and> (query_fault e = None \<and> sqlite_int k
      \<and> find (\<lambda>x. s_id x = k) (students d) = Some old
      \<and> assign_fields kv old \<noteq> old
      \<and> list_all storable
           [s_first_name (assign_fields kv old), s_last_name (assign_fields kv old),
            s_email (assign_fields kv old), s_phone (assign_fields kv old),
            s_status (assign_fields kv old)]
      \<and> \<not> student_violates (updated_row e (assign_fields kv old))
           (filter (\<lambda>x. s_id x \<noteq> k) (students d))
      \<and> commit_fault e = None \<and> reload_fault e = Some m \<longrightarrow>
      update_student e k (JObj kv) (session_begin d) =
        (error_500 (SQLAlchemyError OperationalError m),
         session_begin
           (d\<lparr>students :=
                map (\<lambda>x. if s_id x = k then updated_row e (assign_fields kv old) else x)
                  (students d)\<rparr>)))"
  apply (intro conjI)
  apply (intro impI, unfold create_student_def, erule except_rollback_500_raises)
  apply (intro impI, unfold update_student_def, erule except_rollback_500_raises)
  apply (intro impI, unfold delete_student_def, erule except_rollback_500_raises)
  apply (intro impI, unfold create_teacher_def, erule except_rollback_500_raises)
  apply (intro impI, unfold create_class_def, erule except_rollback_500_raises)
  apply (fold create_student_def update_student_def delete_student_def create_teacher_def
      create_class_def)
  apply (intro impI, erule create_student_500)
  apply (intro impI, erule update_student_500)
  apply (intro impI, erule delete_student_500)
  apply (intro impI, erule create_teacher_500)
  apply (intro impI, erule create_class_500)
  apply (intro impI, elim conjE, rule create_student_reload_lost, assumption+)
  apply (intro impI, elim conjE, rule create_teacher_reload_lost, assumption+)
  apply (intro impI, elim conjE, rule create_class_reload_lost, assumption+)
  apply (intro impI, elim conjE, rule update_student_reload_lost, assumption+)
  done

lemma create_student_dup_email:
  "fst (create_student_try env0
          (JObj [(''first_name'', JStr ''Al''), (''last_name'', JStr ''Smith''),
                 (''email'', JStr ''alice@example.org'')]) (session_begin db2))
     = Inl (raise_sa env0 IntegrityError)"
  unfolding create_student_object
  by (simp add: student_args_def dict_get_def student_violates_def student_row_def
      db2_def alice_def bob_def)

lemma delete_student_locked:
  "status_code (fst (delete_student env_locked 1 (session_begin db2))) = 500"
  by (simp add: delete_student_def delete_student_try_def Student_query_get_def commit_single
      Let_def except_rollback_500_def error_500_def stored_session_begin sqlite_int_def
      db2_def alice_def bob_def env_locked_def env0_def)

theorem C5_exception_rollback_amended_witness:
  "fst (create_student_try env0
          (JObj [(''first_name'', JStr ''Al''), (''last_name'', JStr ''Smith''),
                 (''email'', JStr ''alice@example.org'')]) (session_begin db2))
     = Inl (raise_sa env0 IntegrityError)
 \<and> fst (create_student env0
          (JObj [(''first_name'', JStr ''Al''), (''last_name'', JStr ''Smith''),
                 (''email'', JStr ''alice@example.org'')]) (session_begin db2))
     = error_500 (raise_sa env0 IntegrityError)
 \<and> status_code (fst (delete_student env_locked 1 (session_begin db2))) = 500
 \<and> snd (delete_student env_locked 1 (session_begin db2)) = session_begin db2
 \<and> create_student env_reload_lost (JObj valid_person) (session_begin db2) =
      (error_500 (SQLAlchemyError OperationalError ''(sqlite3.OperationalError) disk I/O error''),
       session_begin
         (db2\<lparr>students := students db2
                 @ [student_row env_reload_lost (student_args env_reload_lost valid_person) db2]\<rparr>))"
proof -
  let ?dup = "JObj [(''first_name'', JStr ''Al''), (''last_name'', JStr ''Smith''),
                 (''email'', JStr ''alice@example.org'')]"
  let ?m = "''(sqlite3.OperationalError) disk I/O error''"
  note a = C5_exception_rollback_amended
    [where e = env0 and data = ?dup and d = db2 and x = "raise_sa env0 IntegrityError"
      and k = 1 and kv = valid_person and m = ?m and old = alice]
  note b = C5_exception_rollback_amended
    [where e = env_locked and data = ?dup and d = db2 and x = "raise_sa env0 IntegrityError"
      and k = 1 and kv = valid_person and m = ?m and old = alice]
  note c = C5_exception_rollback_amended
    [where e = env_reload_lost and data = ?dup and d = db2
      and x = "raise_sa env0 IntegrityError"
      and k = 1 and kv = valid_person and m = ?m and old = alice]
  from a have "fst (create_student_try env0 ?dup (session_begin db2))
        = Inl (raise_sa env0 IntegrityError) \<longrightarrow>
      fst (create_student env0 ?dup (session_begin db2)) = error_500 (raise_sa env0 IntegrityError)
      \<and> pending (snd (create_student env0 ?dup (session_begin db2))) = []"
    by (elim conjE) assumption
  with create_student_dup_email
  have c1: "fst (create_student env0 ?dup (session_begin db2))
              = error_500 (raise_sa env0 IntegrityError)"
    by blast
  from b have "status_code (fst (delete_student env_locked 1 (session_begin db2))) = 500 \<longrightarrow>
      snd (delete_student env_locked 1 (session_begin db2)) = session_begin db2"
    by (elim conjE) assumption
  with delete_student_locked
  have c2: "snd (delete_student env_locked 1 (session_begin db2)) = session_begin db2"
    by blast
  from c have "truthy (dict_get valid_person ''first_name'' JNull)
      \<and> truthy (dict_get valid_person ''last_name'' JNull)
      \<and> truthy (dict_get valid_person ''email'' JNull)
      \<and> list_all storable
           [ns_student_id (student_args env_reload_lost valid_person),
            ns_first_name (student_args env_reload_lost valid_person),
            ns_last_name (student_args env_reload_lost valid_person),
            ns_email (student_args env_reload_lost valid_person),
            ns_phone (student_args env_reload_lost valid_person),
            ns_status (student_args env_reload_lost valid_person)]
      \<and> \<not> student_violates (student_row env_reload_lost (student_args env_reload_lost valid_person) db2)
            (students db2)
      \<and> commit_fault env_reload_lost = None \<and> reload_fault env_reload_lost = Some ?m \<longrightarrow>
      create_student env_reload_lost (JObj valid_person) (session_begin db2) =
        (error_500 (SQLAlchemyError OperationalError ?m),
         session_begin
           (db2\<lparr>students := students db2
                   @ [student_row env_reload_lost (student_args env_reload_lost valid_person) db2]\<rparr>))"
    by (elim conjE) assumption
  with valid_person_truthy valid_person_storable [of env_reload_lost]
    valid_person_fresh [OF env_reload_lost_faults(4)] env_reload_lost_faults(2,3)
  have c3: "create_student env_reload_lost (JObj valid_person) (session_begin db2) =
        (error_500 (SQLAlchemyError OperationalError ?m),
         session_begin
           (db2\<lparr>students := students db2
                   @ [student_row env_reload_lost (student_args env_reload_lost valid_person) db2]\<rparr>))"
    by blast
  from create_student_dup_email c1 delete_student_locked c2 c3 show ?thesis
    by (intro conjI)
qed

section \<open>Successful creation\<close>

lemma create_student_201:
  assumes "truthy (dict_get d ''first_name'' JNull)" "truthy (dict_get d ''last_name'' JNull)"
    and "truthy (dict_get d ''email'' JNull)"
    and "list_all storable
           [ns_student_id (student_args e d), ns_first_name (student_args e d),
            ns_last_name (student_args e d), ns_email (student_args e d),
            ns_phone (student_args e d), ns_status (student_args e d)]"
    and "\<not> student_violates (student_row e (student_args e d) s) (students s)"
    and "commit_fault e = None" "reload_fault e = None"
  shows "create_student e (JObj d) (session_begin s) =
           (\<lparr>status_code = 201, body = student_to_dict (student_row e (student_args e d) s)\<rparr>,
            session_begin (s\<lparr>students := students s @ [student_row e (student_args e d) s]\<rparr>))"
proof -
  from assms(4) have "first_bind_error e
           [ns_student_id (student_args e d), ns_first_name (student_args e d),
            ns_last_name (student_args e d), ns_email (student_args e d),
            ns_phone (student_args e d), ns_status (student_args e d)] = None"
    by (simp only: first_bind_error_storable)
  with assms(1,2,3,5,6,7) show ?thesis
    unfolding create_student_def create_student_object
    by (simp add: except_rollback_500_def del: first_bind_error.simps)
qed

lemma create_teacher_201:
  assumes "truthy (dict_get d ''first_name'' JNull)" "truthy (dict_get d ''last_name'' JNull)"
    and "truthy (dict_get d ''email'' JNull)"
    and "list_all storable
           [nt_teacher_id (teacher_args e d), nt_first_name (teacher_args e d),
            nt_last_name (teacher_args e d), nt_email (teacher_args e d),
            nt_phone (teacher_args e d), nt_specialization (teacher_args e d),
            nt_status (teacher_args e d)]"
    and "\<not> teacher_violates (teacher_row e (teacher_args e d) s) (teachers s)"
    and "commit_fault e = None" "reload_fault e = None"
  shows "create_teacher e (JObj d) (session_begin s) =
           (\<lparr>status_code = 201, body = teacher_to_dict (teacher_row e (teacher_args e d) s)\<rparr>,
            session_begin (s\<lparr>teachers := teachers s @ [teacher_row e (teacher_args e d) s]\<rparr>))"
proof -
  from assms(4) have "first_bind_error e
           [nt_teacher_id (teacher_args e d), nt_first_name (teacher_args e d),
            nt_last_name (teacher_args e d), nt_email (teacher_args e d),
            nt_phone (teacher_args e d), nt_specialization (teacher_args e d),
            nt_status (teacher_args e d)] = None"
    by (simp only: first_bind_error_storable)
  with assms(1,2,3,5,6,7) show ?thesis
    unfolding create_teacher_def create_teacher_object
    by (simp add: except_rollback_500_def del: first_bind_error.simps)
qed

lemma create_student_rejected:
  assumes "truthy (dict_get d ''first_name'' JNull)" "truthy (dict_get d ''last_name'' JNull)"
    and "truthy (dict_get d ''email'' JNull)"
    and "\<not> list_all storable
           [ns_student_id (student_args e d), ns_first_name (student_args e d),
            ns_last_name (student_args e d), ns_email (student_args e d),
            ns_phone (student_args e d), ns_status (student_args e d)]
         \<or> student_violates (student_row e (student_args e d) s) (students s)"
  shows "\<exists>x. create_student e (JObj d) (session_begin s) = (error_500 x, session_begin s)"
proof (cases "first_bind_error e
           [ns_student_id (student_args e d), ns_first_name (student_args e d),
            ns_last_name (student_args e d), ns_email (student_args e d),
            ns_phone (student_args e d), ns_status (student_args e d)]")
  case (Some x)
  with assms(1,2,3)
  have "create_student e (JObj d) (session_begin s) = (error_500 x, session_begin s)"
    unfolding create_student_def create_student_object
    by (simp add: except_rollback_500_def rollback_single del: first_bind_error.simps)
  then show ?thesis by blast
next
  case None
  then have "list_all storable
           [ns_student_id (student_args e d), ns_first_name (student_args e d),
            ns_last_name (student_args e d), ns_email (student_args e d),
            ns_phone (student_args e d), ns_status (student_args e d)]"
    by (simp only: first_bind_error_storable)
  with assms(4)
  have "student_violates (student_row e (student_args e d) s) (students s)"
    by blast
  with assms(1,2,3) None
  have "create_student e (JObj d) (session_begin s)
          = (error_500 (raise_sa e IntegrityError), session_begin s)"
    unfolding create_student_def create_student_object
    by (simp add: except_rollback_500_def rollback_single del: first_bind_error.simps)
  then show ?thesis by blast
qed

lemma create_teacher_rejected:
  assumes "truthy (dict_get d ''first_name'' JNull)" "truthy (dict_get d ''last_name'' JNull)"
    and "truthy (dict_get d ''email'' JNull)"
    and "\<not> list_all storable
           [nt_teacher_id (teacher_args e d), nt_first_name (teacher_args e d),
            nt_last_name (teacher_args e d), nt_email (teacher_args e d),
            nt_phone (teacher_args e d), nt_specialization (teacher_args e d),
            nt_status (teacher_args e d)]
         \<or> teacher_violates (teacher_row e (teacher_args e d) s) (teachers s)"
  shows "\<exists>x. create_teacher e (JObj d) (session_begin s) = (error_500 x, session_begin s)"
proof (cases "first_bind_error e
           [nt_teacher_id (teacher_args e d), nt_first_name (teacher_args e d),
            nt_last_name (teacher_args e d), nt_email (teacher_args e d),
            nt_phone (teacher_args e d), nt_specialization (teacher_args e d),
            nt_status (teacher_args e d)]")
  case (Some x)
  with assms(1,2,3)
  have "create_teacher e (JObj d) (session_begin s) = (error_500 x, session_begin s)"
    unfolding create_teacher_def create_teacher_object
    by (simp add: except_rollback_500_def rollback_single del: first_bind_error.simps)
  then show ?thesis by blast
next
  case None
  then have "list_all storable
           [nt_teacher_id (teacher_args e d), nt_first_name (teacher_args e d),
            nt_last_name (teacher_args e d), nt_email (teacher_args e d),
            nt_phone (teacher_args e d), nt_specialization (teacher_args e d),
            nt_status (teacher_args e d)]"
    by (simp only: first_bind_error_storable)
  with assms(4)
  have "teacher_violates (teacher_row e (teacher_args e d) s) (teachers s)"
    by blast
  with assms(1,2,3) None
  have "create_teacher e (JObj d) (session_begin s)
          = (error_500 (raise_sa e IntegrityError), session_begin s)"
    unfolding create_teacher_def create_teacher_object
    by (simp add: except_rollback_500_def rollback_single del: first_bind_error.simps)
  then show ?thesis by blast
qed

lemma teacher_to_dict_fields:
  "json_field (teacher_to_dict row) ''id'' = Some (JNum (t_id row))"
  "json_field (teacher_to_dict row) ''teacher_id'' = Some (t_teacher_id row)"
  "json_field (teacher_to_dict row) ''first_name'' = Some (t_first_name row)"
  "json_field (teacher_to_dict row) ''last_name'' = Some (t_last_name row)"
  "json_field (teacher_to_dict row) ''email'' = Some (t_email row)"
  "json_field (teacher_to_dict row) ''phone'' = Some (t_phone row)"
  "json_field (teacher_to_dict row) ''specialization'' = Some (t_specialization row)"
  "json_field (teacher_to_dict row) ''hire_date'' = Some (JStr (t_hire_date row))"
  "json_field (teacher_to_dict row) ''status'' = Some (t_status row)"
  by (simp_all add: json_field_def teacher_to_dict_def)

lemma generated_student_ok:
  assumes "truthy (dict_get d ''first_name'' JNull)" "truthy (dict_get d ''last_name'' JNull)"
    and "truthy (dict_get d ''email'' JNull)" "map_of d ''student_id'' = None"
    and "list_all storable
           [dict_get d ''first_name'' JNull, dict_get d ''last_name'' JNull,
            dict_get d ''email'' JNull, dict_get d ''phone'' JNull]"
    and "JStr (''STU-'' @ now_timestamp e) \<notin> s_student_id ` set (students s)"
    and "text_affinity (dict_get d ''email'' JNull) \<notin> s_email ` set (students s)"
  shows "list_all storable
           [ns_student_id (student_args e d), ns_first_name (student_args e d),
            ns_last_name (student_args e d), ns_email (student_args e d),
            ns_phone (student_args e d), ns_status (student_args e d)]"
    and "\<not> student_violates (student_row e (student_args e d) s) (students s)"
  using assms truthy_text_not_null [OF assms(1)] truthy_text_not_null [OF assms(2)]
    truthy_text_not_null [OF assms(3)]
  by (simp_all add: student_args_def student_row_def student_violates_def dict_get_absent)

lemma generated_teacher_ok:
  assumes "truthy (dict_get d ''first_name'' JNull)" "truthy (dict_get d ''last_name'' JNull)"
    and "truthy (dict_get d ''email'' JNull)" "map_of d ''teacher_id'' = None"
    and "list_all storable
           [dict_get d ''first_name'' JNull, dict_get d ''last_name'' JNull,
            dict_get d ''email'' JNull, dict_get d ''phone'' JNull,
            dict_get d ''specialization'' JNull]"
    and "JStr (''TCH-'' @ now_timestamp e) \<notin> t_teacher_id ` set (teachers s)"
    and "text_affinity (dict_get d ''email'' JNull) \<notin> t_email ` set (teachers s)"
  shows "list_all storable
           [nt_teacher_id (teacher_args e d), nt_first_name (teacher_args e d),
            nt_last_name (teacher_args e d), nt_email (teacher_args e d),
            nt_phone (teacher_args e d), nt_specialization (teacher_args e d),
            nt_status (teacher_args e d)]"
    and "\<not> teacher_violates (teacher_row e (teacher_args e d) s) (teachers s)"
  using assms truthy_text_not_null [OF assms(1)] truthy_text_not_null [OF assms(2)]
    truthy_text_not_null [OF assms(3)]
  by (simp_all add: teacher_args_def teacher_row_def teacher_violates_def dict_get_absent)

text \<open>
  C6, as the claim states it, fails: a payload that passes the handler's validation and
  carries no code is not always answered 201. With \<^verbatim>\<open>student_id\<close> present as null,
  \<^verbatim>\<open>data.get\<close> returns None instead of the fallback and the INSERT violates NOT NULL;
  with a list as first_name the value cannot be bound. Both are answered 500, and nothing
  is stored.
\<close>

theorem C6_counterexample:
  "status_code (fst (create_student env0 (JObj ((''student_id'', JNull) # valid_person))
                       (session_begin db2))) = 500
 \<and> snd (create_student env0 (JObj ((''student_id'', JNull) # valid_person))
           (session_begin db2)) = session_begin db2
 \<and> truthy (JArr [JStr ''Carol''])
 \<and> map_of ((''first_name'', JArr [JStr ''Carol'']) # valid_person) ''student_id'' = None
 \<and> status_code (fst (create_student env0
                       (JObj ((''first_name'', JArr [JStr ''Carol'']) # valid_person))
                       (session_begin db2))) = 500
 \<and> snd (create_student env0 (JObj ((''first_name'', JArr [JStr ''Carol'']) # valid_person))
           (session_begin db2)) = session_begin db2"
proof -
  let ?d1 = "(''student_id'', JNull) # valid_person"
  let ?d2 = "(''first_name'', JArr [JStr ''Carol'']) # valid_person"
  have t1: "truthy (dict_get ?d1 ''first_name'' JNull)" "truthy (dict_get ?d1 ''last_name'' JNull)"
    "truthy (dict_get ?d1 ''email'' JNull)"
    by (simp_all add: valid_person_def dict_get_def)
  have v1: "\<not> list_all storable
           [ns_student_id (student_args env0 ?d1), ns_first_name (student_args env0 ?d1),
            ns_last_name (student_args env0 ?d1), ns_email (student_args env0 ?d1),
            ns_phone (student_args env0 ?d1), ns_status (student_args env0 ?d1)]
         \<or> student_violates (student_row env0 (student_args env0 ?d1) db2) (students db2)"
    by (simp add: student_violates_def student_row_def student_args_def dict_get_def)
  have t2: "truthy (dict_get ?d2 ''first_name'' JNull)" "truthy (dict_get ?d2 ''last_name'' JNull)"
    "truthy (dict_get ?d2 ''email'' JNull)"
    by (simp_all add: valid_person_def dict_get_def)
  have v2: "\<not> list_all storable
           [ns_student_id (student_args env0 ?d2), ns_first_name (student_args env0 ?d2),
            ns_last_name (student_args env0 ?d2), ns_email (student_args env0 ?d2),
            ns_phone (student_args env0 ?d2), ns_status (student_args env0 ?d2)]
         \<or> student_violates (student_row env0 (student_args env0 ?d2) db2) (students db2)"
    by (simp add: student_args_def dict_get_def)
  have m: "map_of ?d2 ''student_id'' = None"
    by (simp add: valid_person_def)
  from create_student_rejected [OF t1 v1] create_student_rejected [OF t2 v2] m
  show ?thesis by (auto simp: error_500_def)
qed

text \<open>
  C6, amended. For a student (teacher) creation payload that is a JSON object with truthy
  first_name, last_name and email and without the key student_id (teacher_id):

  \<^item> when the values of first_name, last_name, email and phone (and specialization) can
    be bound (null, boolean, text, or a number within 64 bits), no stored row has the
    generated code or the email as the column stores it, and storage accepts the commit
    and the reload that follows it, the response is 201 with the serialization of the new
    record, which is appended to its table: its code is "STU-" ("TCH-") followed by the
    text of the current epoch timestamp, its id is the next key, its first_name,
    last_name, email and phone (and specialization) are the payload's values as the TEXT
    columns store them, its status is "active", and for a student date_of_birth and
    class_id are null;

  \<^item> when one of these values cannot be bound, the response is 500 and nothing is stored.

  A payload with truthy first_name, last_name and email whose student_id (teacher_id) is
  present with null is answered 500, and nothing is stored.
\<close>

theorem C6_generated_code_amended:
  "(truthy (dict_get d ''first_name'' JNull) \<and> truthy (dict_get d ''last_name'' JNull)
      \<and> truthy (dict_get d ''email'' JNull) \<and> map_of d ''student_id'' = None
      \<and> list_all storable
           [dict_get d ''first_name'' JNull, dict_get d ''last_name'' JNull,
            dict_get d ''email'' JNull, dict_get d ''phone'' JNull]
      \<and> JStr (''STU-'' @ now_timestamp e) \<notin> s_student_id ` set (students s)
      \<and> text_affinity (dict_get d ''email'' JNull) \<notin> s_email ` set (students s)
      \<and> commit_fault e = None \<and> reload_fault e = None \<longrightarrow>
    (\<exists>r. create_student e (JObj d) (session_begin s) =
            (\<lparr>status_code = 201, body = student_to_dict r\<rparr>,
             session_begin (s\<lparr>students := students s @ [r]\<rparr>))
        \<and> s_student_id r = JStr (''STU-'' @ now_timestamp e)
        \<and> json_field (student_to_dict r) ''student_id'' = Some (JStr (''STU-'' @ now_timestamp e))
        \<and> json_field (student_to_dict r) ''id'' = Some (JNum (next_id (map s_id (students s))))
        \<and> json_field (student_to_dict r) ''first_name''
            = Some (text_affinity (dict_get d ''first_name'' JNull))
        \<and> json_field (student_to_dict r) ''last_name''
            = Some (text_affinity (dict_get d ''last_name'' JNull))
        \<and> json_field (student_to_dict r) ''email''
            = Some (text_affinity (dict_get d ''email'' JNull))
        \<and> json_field (student_to_dict r) ''phone''
            = Some (text_affinity (dict_get d ''phone'' JNull))
        \<and> json_field (student_to_dict r) ''status'' = Some (JStr ''active'')
        \<and> json_field (student_to_dict r) ''date_of_birth'' = Some JNull
        \<and> json_field (student_to_dict r) ''class_id'' = Some JNull
        \<and> json_field (student_to_dict r) ''enrollment_date'' = Some (JStr (utcnow e))))
 \<and> (truthy (dict_get d ''first_name'' JNull) \<and> truthy (dict_get d ''last_name'' JNull)
      \<and> truthy (dict_get d ''email'' JNull) \<and> map_of d ''teacher_id'' = None
      \<and> list_all storable
           [dict_get d ''first_name'' JNull, dict_get d ''last_name'' JNull,
            dict_get d ''email'' JNull, dict_get d ''phone'' JNull,
            dict_get d ''specialization'' JNull]
      \<and> JStr (''TCH-'' @ now_timestamp e) \<notin> t_teacher_id ` set (teachers s)
      \<and> text_affinity (dict_get d ''email'' JNull) \<notin> t_email ` set (teachers s)
      \<and> commit_fault e = None \<and> reload_fault e = None \<longrightarrow>
    (\<exists>r. create_teacher e (JObj d) (session_begin s) =
            (\<lparr>status_code = 201, body = teacher_to_dict r\<rparr>,
             session_begin (s\<lparr>teachers := teachers s @ [r]\<rparr>))
        \<and> t_teacher_id r = JStr (''TCH-'' @ now_timestamp e)
        \<and> json_field (teacher_to_dict r) ''teacher_id'' = Some (JStr (''TCH-'' @ now_timestamp e))
        \<and> json_field (teacher_to_dict r) ''id'' = Some (JNum (next_id (map t_id (teachers s))))
        \<and> json_field (teacher_to_dict r) ''first_name''
            = Some (text_affinity (dict_get d ''first_name'' JNull))
        \<and> json_field (teacher_to_dict r) ''last_name''
            = Some (text_affinity (dict_get d ''last_name'' JNull))
        \<and> json_field (teacher_to_dict r) ''email''
            = Some (text_affinity (dict_get d ''email'' JNull))
        \<and> json_field (teacher_to_dict r) ''phone''
            = Some (text_affinity (dict_get d ''phone'' JNull))
        \<and> json_field (teacher_to_dict r) ''specialization''
            = Some (text_affinity (dict_get d ''specialization'' JNull))
        \<and> json_field (teacher_to_dict r) ''status'' = Some (JStr ''active'')
        \<and> json_field (teacher_to_dict r) ''hire_date'' = Some (JStr (utcnow e))))
 \<and> (truthy (dict_get d ''first_name'' JNull) \<and> truthy (dict_get d ''last_name'' JNull)
      \<and> truthy (dict_get d ''email'' JNull)
      \<and> (map_of d ''student_id'' = Some JNull
          \<or> \<not> list_all storable
                [dict_get d ''first_name'' JNull, dict_get d ''last_name'' JNull,
                 dict_get d ''email'' JNull, dict_get d ''phone'' JNull]) \<longrightarrow>
    (\<exists>x. create_student e (JObj d) (session_begin s) = (error_500 x, session_begin s)))
 \<and> (truthy (dict_get d ''first_name'' JNull) \<and> truthy (dict_get d ''last_name'' JNull)
      \<and> truthy (dict_get d ''email'' JNull)
      \<and> (map_of d ''teacher_id'' = Some JNull
          \<or> \<not> list_all storable
                [dict_get d ''first_name'' JNull, dict_get d ''last_name'' JNull,
                 dict_get d ''email'' JNull, dict_get d ''phone'' JNull,
                 dict_get d ''specialization'' JNull]) \<longrightarrow>
    (\<exists>x. create_teacher e (JObj d) (session_begin s) = (error_500 x, session_begin s)))"
proof (intro conjI impI)
  assume a: "truthy (dict_get d ''first_name'' JNull) \<and> truthy (dict_get d ''last_name'' JNull)
      \<and> truthy (dict_get d ''email'' JNull) \<and> map_of d ''student_id'' = None
      \<and> list_all storable
           [dict_get d ''first_name'' JNull, dict_get d ''last_name'' JNull,
            dict_get d ''email'' JNull, dict_get d ''phone'' JNull]
      \<and> JStr (''STU-'' @ now_timestamp e) \<notin> s_student_id ` set (students s)
      \<and> text_affinity (dict_get d ''email'' JNull) \<notin> s_email ` set (students s)
      \<and> commit_fault e = None \<and> reload_fault e = None"
  then have t: "truthy (dict_get d ''first_name'' JNull)" "truthy (dict_get d ''last_name'' JNull)"
    "truthy (dict_get d ''email'' JNull)"
    and k: "map_of d ''student_id'' = None"
    and b: "list_all storable
           [dict_get d ''first_name'' JNull, dict_get d ''last_name'' JNull,
            dict_get d ''email'' JNull, dict_get d ''phone'' JNull]"
    and f: "JStr (''STU-'' @ now_timestamp e) \<notin> s_student_id ` set (students s)"
      "text_affinity (dict_get d ''email'' JNull) \<notin> s_email ` set (students s)"
    and c: "commit_fault e = None" "reload_fault e = None"
    by blast+
  let ?r = "student_row e (student_args e d) s"
  note ok = generated_student_ok [OF t k b f]
  have "create_student e (JObj d) (session_begin s) =
           (\<lparr>status_code = 201, body = student_to_dict ?r\<rparr>,
            session_begin (s\<lparr>students := students s @ [?r]\<rparr>))"
    by (rule create_student_201 [OF t ok c])
  moreover have "s_student_id ?r = JStr (''STU-'' @ now_timestamp e)"
    "json_field (student_to_dict ?r) ''student_id'' = Some (JStr (''STU-'' @ now_timestamp e))"
    "json_field (student_to_dict ?r) ''id'' = Some (JNum (next_id (map s_id (students s))))"
    "json_field (student_to_dict ?r) ''first_name''
       = Some (text_affinity (dict_get d ''first_name'' JNull))"
    "json_field (student_to_dict ?r) ''last_name''
       = Some (text_affinity (dict_get d ''last_name'' JNull))"
    "json_field (student_to_dict ?r) ''email''
       = Some (text_affinity (dict_get d ''email'' JNull))"
    "json_field (student_to_dict ?r) ''phone''
       = Some (text_affinity (dict_get d ''phone'' JNull))"
    "json_field (student_to_dict ?r) ''status'' = Some (JStr ''active'')"
    "json_field (student_to_dict ?r) ''date_of_birth'' = Some JNull"
    "json_field (student_to_dict ?r) ''class_id'' = Some JNull"
    "json_field (student_to_dict ?r) ''enrollment_date'' = Some (JStr (utcnow e))"
    using k
    by (simp_all add: to_dict_fields student_row_def student_args_def dict_get_absent
        opt_str_def opt_int_def)
  ultimately show "\<exists>r. create_student e (JObj d) (session_begin s) =
            (\<lparr>status_code = 201, body = student_to_dict r\<rparr>,
             session_begin (s\<lparr>students := students s @ [r]\<rparr>))
        \<and> s_student_id r = JStr (''STU-'' @ now_timestamp e)
        \<and> json_field (student_to_dict r) ''student_id'' = Some (JStr (''STU-'' @ now_timestamp e))
        \<and> json_field (student_to_dict r) ''id'' = Some (JNum (next_id (map s_id (students s))))
        \<and> json_field (student_to_dict r) ''first_name''
            = Some (text_affinity (dict_get d ''first_name'' JNull))
        \<and> json_field (student_to_dict r) ''last_name''
            = Some (text_affinity (dict_get d ''last_name'' JNull))
        \<and> json_field (student_to_dict r) ''email''
            = Some (text_affinity (dict_get d ''email'' JNull))
        \<and> json_field (student_to_dict r) ''phone''
            = Some (text_affinity (dict_get d ''phone'' JNull))
        \<and> json_field (student_to_dict r) ''status'' = Some (JStr ''active'')
        \<and> json_field (student_to_dict r) ''date_of_birth'' = Some JNull
        \<and> json_field (student_to_dict r) ''class_id'' = Some JNull
        \<and> json_field (student_to_dict r) ''enrollment_date'' = Some (JStr (utcnow e))"
    by (intro exI [of _ ?r] conjI)
next
  assume a: "truthy (dict_get d ''first_name'' JNull) \<and> truthy (dict_get d ''last_name'' JNull)
      \<and> truthy (dict_get d ''email'' JNull) \<and> map_of d ''teacher_id'' = None
      \<and> list_all storable
           [dict_get d ''first_name'' JNull, dict_get d ''last_name'' JNull,
            dict_get d ''email'' JNull, dict_get d ''phone'' JNull,
            dict_get d ''specialization'' JNull]
      \<and> JStr (''TCH-'' @ now_timestamp e) \<notin> t_teacher_id ` set (teachers s)
      \<and> text_affinity (dict_get d ''email'' JNull) \<notin> t_email ` set (teachers s)
      \<and> commit_fault e = None \<and> reload_fault e = None"
  then have t: "truthy (dict_get d ''first_name'' JNull)" "truthy (dict_get d ''last_name'' JNull)"
    "truthy (dict_get d ''email'' JNull)"
    and k: "map_of d ''teacher_id'' = None"
    and b: "list_all storable
           [dict_get d ''first_name'' JNull, dict_get d ''last_name'' JNull,
            dict_get d ''email'' JNull, dict_get d ''phone'' JNull,
            dict_get d ''specialization'' JNull]"
    and f: "JStr (''TCH-'' @ now_timestamp e) \<notin> t_teacher_id ` set (teachers s)"
      "text_affinity (dict_get d ''email'' JNull) \<notin> t_email ` set (teachers s)"
    and c: "commit_fault e = None" "reload_fault e = None"
    by blast+
  let ?r = "teacher_row e (teacher_args e d) s"
  note ok = generated_teacher_ok [OF t k b f]
  have "create_teacher e (JObj d) (session_begin s) =
           (\<lparr>status_code = 201, body = teacher_to_dict ?r\<rparr>,
            session_begin (s\<lparr>teachers := teachers s @ [?r]\<rparr>))"
    by (rule create_teacher_201 [OF t ok c])
  moreover have "t_teacher_id ?r = JStr (''TCH-'' @ now_timestamp e)"
    "json_field (teacher_to_dict ?r) ''teacher_id'' = Some (JStr (''TCH-'' @ now_timestamp e))"
    "json_field (teacher_to_dict ?r) ''id'' = Some (JNum (next_id (map t_id (teachers s))))"
    "json_field (teacher_to_dict ?r) ''first_name''
       = Some (text_affinity (dict_get d ''first_name'' JNull))"
    "json_field (teacher_to_dict ?r) ''last_name''
       = Some (text_affinity (dict_get d ''last_name'' JNull))"
    "json_field (teacher_to_dict ?r) ''email''
       = Some (text_affinity (dict_get d ''email'' JNull))"
    "json_field (teacher_to_dict ?r) ''phone''
       = Some (text_affinity (dict_get d ''phone'' JNull))"
    "json_field (teacher_to_dict ?r) ''specialization''
       = Some (text_affinity (dict_get d ''specialization'' JNull))"
    "json_field (teacher_to_dict ?r) ''status'' = Some (JStr ''active'')"
    "json_field (teacher_to_dict ?r) ''hire_date'' = Some (JStr (utcnow e))"
    using k
    by (simp_all add: teacher_to_dict_fields teacher_row_def teacher_args_def dict_get_absent)
  ultimately show "\<exists>r. create_teacher e (JObj d) (session_begin s) =
            (\<lparr>status_code = 201, body = teacher_to_dict r\<rparr>,
             session_begin (s\<lparr>teachers := teachers s @ [r]\<rparr>))
        \<and> t_teacher_id r = JStr (''TCH-'' @ now_timestamp e)
        \<and> json_field (teacher_to_dict r) ''teacher_id'' = Some (JStr (''TCH-'' @ now_timestamp e))
        \<and> json_field (teacher_to_dict r) ''id'' = Some (JNum (next_id (map t_id (teachers s))))
        \<and> json_field (teacher_to_dict r) ''first_name''
            = Some (text_affinity (dict_get d ''first_name'' JNull))
        \<and> json_field (teacher_to_dict r) ''last_name''
            = Some (text_affinity (dict_get d ''last_name'' JNull))
        \<and> json_field (teacher_to_dict r) ''email''
            = Some (text_affinity (dict_get d ''email'' JNull))
        \<and> json_field (teacher_to_dict r) ''phone''
            = Some (text_affinity (dict_get d ''phone'' JNull))
        \<and> json_field (teacher_to_dict r) ''specialization''
            = Some (text_affinity (dict_get d ''specialization'' JNull))
        \<and> json_field (teacher_to_dict r) ''status'' = Some (JStr ''active'')
        \<and> json_field (teacher_to_dict r) ''hire_date'' = Some (JStr (utcnow e))"
    by (intro exI [of _ ?r] conjI)
next
  assume a: "truthy (dict_get d ''first_name'' JNull) \<and> truthy (dict_get d ''last_name'' JNull)
      \<and> truthy (dict_get d ''email'' JNull)
      \<and> (map_of d ''student_id'' = Some JNull
          \<or> \<not> list_all storable
                [dict_get d ''first_name'' JNull, dict_get d ''last_name'' JNull,
                 dict_get d ''email'' JNull, dict_get d ''phone'' JNull])"
  then have t: "truthy (dict_get d ''first_name'' JNull)" "truthy (dict_get d ''last_name'' JNull)"
    "truthy (dict_get d ''email'' JNull)"
    by blast+
  from a have "\<not> list_all storable
           [ns_student_id (student_args e d), ns_first_name (student_args e d),
            ns_last_name (student_args e d), ns_email (student_args e d),
            ns_phone (student_args e d), ns_status (student_args e d)]
         \<or> student_violates (student_row e (student_args e d) s) (students s)"
    by (auto simp: student_args_def student_row_def student_violates_def dict_get_present)
  from create_student_rejected [OF t this]
  show "\<exists>x. create_student e (JObj d) (session_begin s) = (error_500 x, session_begin s)" .
next
  assume a: "truthy (dict_get d ''first_name'' JNull) \<and> truthy (dict_get d ''last_name'' JNull)
      \<and> truthy (dict_get d ''email'' JNull)
      \<and> (map_of d ''teacher_id'' = Some JNull
          \<or> \<not> list_all storable
                [dict_get d ''first_name'' JNull, dict_get d ''last_name'' JNull,
                 dict_get d ''email'' JNull, dict_get d ''phone'' JNull,
                 dict_get d ''specialization'' JNull])"
  then have t: "truthy (dict_get d ''first_name'' JNull)" "truthy (dict_get d ''last_name'' JNull)"
    "truthy (dict_get d ''email'' JNull)"
    by blast+
  from a have "\<not> list_all storable
           [nt_teacher_id (teacher_args e d), nt_first_name (teacher_args e d),
            nt_last_name (teacher_args e d), nt_email (teacher_args e d),
            nt_phone (teacher_args e d), nt_specialization (teacher_args e d),
            nt_status (teacher_args e d)]
         \<or> teacher_violates (teacher_row e (teacher_args e d) s) (teachers s)"
    by (auto simp: teacher_args_def teacher_row_def teacher_violates_def dict_get_present)
  from create_teacher_rejected [OF t this]
  show "\<exists>x. create_teacher e (JObj d) (session_begin s) = (error_500 x, session_begin s)" .
qed

lemma valid_person_codes:
  "map_of valid_person ''student_id'' = None" "map_of valid_person ''teacher_id'' = None"
  by (simp_all add: valid_person_def)

lemma valid_person_values:
  "list_all storable
     [dict_get valid_person ''first_name'' JNull, dict_get valid_person ''last_name'' JNull,
      dict_get valid_person ''email'' JNull, dict_get valid_person ''phone'' JNull]"
  "list_all storable
     [dict_get valid_person ''first_name'' JNull, dict_get valid_person ''last_name'' JNull,
      dict_get valid_person ''email'' JNull, dict_get valid_person ''phone'' JNull,
      dict_get valid_person ''specialization'' JNull]"
  by (simp_all add: valid_person_def dict_get_def)

lemma valid_person_new:
  "JStr (''STU-'' @ now_timestamp env0) \<notin> s_student_id ` set (students db2)"
  "text_affinity (dict_get valid_person ''email'' JNull) \<notin> s_email ` set (students db2)"
  "JStr (''TCH-'' @ now_timestamp env0) \<notin> t_teacher_id ` set (teachers db2)"
  "text_affinity (dict_get valid_person ''email'' JNull) \<notin> t_email ` set (teachers db2)"
  by (simp_all add: valid_person_def dict_get_def db2_def alice_def bob_def env0_def)

theorem C6_generated_code_amended_witness:
  "(\<exists>r. create_student env0 (JObj valid_person) (session_begin db2) =
            (\<lparr>status_code = 201, body = student_to_dict r\<rparr>,
             session_begin (db2\<lparr>students := students db2 @ [r]\<rparr>))
        \<and> s_student_id r = JStr ''STU-1700000000.5''
        \<and> json_field (student_to_dict r) ''student_id'' = Some (JStr ''STU-1700000000.5'')
        \<and> json_field (student_to_dict r) ''first_name'' = Some (JStr ''Carol''))
 \<and> (\<exists>r. create_teacher env0 (JObj valid_person) (session_begin db2) =
            (\<lparr>status_code = 201, body = teacher_to_dict r\<rparr>,
             session_begin (db2\<lparr>teachers := teachers db2 @ [r]\<rparr>))
        \<and> t_teacher_id r = JStr ''TCH-1700000000.5''
        \<and> json_field (teacher_to_dict r) ''teacher_id'' = Some (JStr ''TCH-1700000000.5'')
        \<and> json_field (teacher_to_dict r) ''email'' = Some (JStr ''carol@example.org''))
 \<and> (\<exists>x. create_student env0 (JObj ((''student_id'', JNull) # valid_person)) (session_begin db2)
           = (error_500 x, session_begin db2))"
proof -
  let ?d1 = "(''student_id'', JNull) # valid_person"
  note a = C6_generated_code_amended [where e = env0 and d = valid_person and s = db2]
  note b = C6_generated_code_amended [where e = env0 and d = ?d1 and s = db2]
  have t: "now_timestamp env0 = ''1700000000.5''"
    by (simp add: env0_def)
  have v: "text_affinity (dict_get valid_person ''first_name'' JNull) = JStr ''Carol''"
    "text_affinity (dict_get valid_person ''email'' JNull) = JStr ''carol@example.org''"
    by (simp_all add: valid_person_def dict_get_def)
  have h1: "truthy (dict_get valid_person ''first_name'' JNull)
      \<and> truthy (dict_get valid_person ''last_name'' JNull)
      \<and> truthy (dict_get valid_person ''email'' JNull)
      \<and> map_of valid_person ''student_id'' = None
      \<and> list_all storable
           [dict_get valid_person ''first_name'' JNull, dict_get valid_person ''last_name'' JNull,
            dict_get valid_person ''email'' JNull, dict_get valid_person ''phone'' JNull]
      \<and> JStr (''STU-'' @ now_timestamp env0) \<notin> s_student_id ` set (students db2)
      \<and> text_affinity (dict_get valid_person ''email'' JNull) \<notin> s_email ` set (students db2)
      \<and> commit_fault env0 = None \<and> reload_fault env0 = None"
    by (intro conjI valid_person_truthy valid_person_codes valid_person_values
        valid_person_new env0_no_fault)
  have h2: "truthy (dict_get valid_person ''first_name'' JNull)
      \<and> truthy (dict_get valid_person ''last_name'' JNull)
      \<and> truthy (dict_get valid_person ''email'' JNull)
      \<and> map_of valid_person ''teacher_id'' = None
      \<and> list_all storable
           [dict_get valid_person ''first_name'' JNull, dict_get valid_person ''last_name'' JNull,
            dict_get valid_person ''email'' JNull, dict_get valid_person ''phone'' JNull,
            dict_get valid_person ''specialization'' JNull]
      \<and> JStr (''TCH-'' @ now_timestamp env0) \<notin> t_teacher_id ` set (teachers db2)
      \<and> text_affinity (dict_get valid_person ''email'' JNull) \<notin> t_email ` set (teachers db2)
      \<and> commit_fault env0 = None \<and> reload_fault env0 = None"
    by (intro conjI valid_person_truthy valid_person_codes valid_person_values
        valid_person_new env0_no_fault)
  have h3: "truthy (dict_get ?d1 ''first_name'' JNull) \<and> truthy (dict_get ?d1 ''last_name'' JNull)
      \<and> truthy (dict_get ?d1 ''email'' JNull)
      \<and> (map_of ?d1 ''student_id'' = Some JNull
          \<or> \<not> list_all storable
                [dict_get ?d1 ''first_name'' JNull, dict_get ?d1 ''last_name'' JNull,
                 dict_get ?d1 ''email'' JNull, dict_get ?d1 ''phone'' JNull])"
    by (simp add: valid_person_def dict_get_def)
  from a [THEN conjunct1, THEN mp, OF h1] obtain r where
    "create_student env0 (JObj valid_person) (session_begin db2) =
            (\<lparr>status_code = 201, body = student_to_dict r\<rparr>,
             session_begin (db2\<lparr>students := students db2 @ [r]\<rparr>))"
    "s_student_id r = JStr (''STU-'' @ now_timestamp env0)"
    "json_field (student_to_dict r) ''student_id'' = Some (JStr (''STU-'' @ now_timestamp env0))"
    "json_field (student_to_dict r) ''first_name''
       = Some (text_affinity (dict_get valid_person ''first_name'' JNull))"
    by blast
  then have c1: "\<exists>r. create_student env0 (JObj valid_person) (session_begin db2) =
            (\<lparr>status_code = 201, body = student_to_dict r\<rparr>,
             session_begin (db2\<lparr>students := students db2 @ [r]\<rparr>))
        \<and> s_student_id r = JStr ''STU-1700000000.5''
        \<and> json_field (student_to_dict r) ''student_id'' = Some (JStr ''STU-1700000000.5'')
        \<and> json_field (student_to_dict r) ''first_name'' = Some (JStr ''Carol'')"
    unfolding t v by (intro exI [of _ r] conjI) simp_all
  from a [THEN conjunct2, THEN conjunct1, THEN mp, OF h2] obtain r where
    "create_teacher env0 (JObj valid_person) (session_begin db2) =
            (\<lparr>status_code = 201, body = teacher_to_dict r\<rparr>,
             session_begin (db2\<lparr>teachers := teachers db2 @ [r]\<rparr>))"
    "t_teacher_id r = JStr (''TCH-'' @ now_timestamp env0)"
    "json_field (teacher_to_dict r) ''teacher_id'' = Some (JStr (''TCH-'' @ now_timestamp env0))"
    "json_field (teacher_to_dict r) ''email''
       = Some (text_affinity (dict_get valid_person ''email'' JNull))"
    by blast
  then have c2: "\<exists>r. create_teacher env0 (JObj valid_person) (session_begin db2) =
            (\<lparr>status_code = 201, body = teacher_to_dict r\<rparr>,
             session_begin (db2\<lparr>teachers := teachers db2 @ [r]\<rparr>))
        \<and> t_teacher_id r = JStr ''TCH-1700000000.5''
        \<and> json_field (teacher_to_dict r) ''teacher_id'' = Some (JStr ''TCH-1700000000.5'')
        \<and> json_field (teacher_to_dict r) ''email'' = Some (JStr ''carol@example.org'')"
    unfolding t v by (intro exI [of _ r] conjI) simp_all
  note c3 = b [THEN conjunct2, THEN conjunct2, THEN conjunct1, THEN mp, OF h3]
  from c1 c2 c3 show ?thesis
    by (intro conjI)
qed

section \<open>What the creating handlers read\<close>

lemma dict_get_cong: "map_of d k = map_of d' k \<Longrightarrow> dict_get d k dflt = dict_get d' k dflt"
  by (simp add: dict_get_def)

lemma create_student_reads:
  assumes "\<forall>k \<in> {''student_id'', ''first_name'', ''last_name'', ''email'', ''phone''}.
             map_of d k = map_of d' k"
  shows "create_student e (JObj d) st = create_student e (JObj d') st"
proof -
  have "dict_get d ''student_id'' x = dict_get d' ''student_id'' x" for x
    using assms by (intro dict_get_cong) simp
  moreover have "dict_get d ''first_name'' JNull = dict_get d' ''first_name'' JNull"
    "dict_get d ''last_name'' JNull = dict_get d' ''last_name'' JNull"
    "dict_get d ''email'' JNull = dict_get d' ''email'' JNull"
    "dict_get d ''phone'' JNull = dict_get d' ''phone'' JNull"
    using assms by (auto intro: dict_get_cong)
  ultimately show ?thesis
    by (simp add: create_student_def create_student_try_def)
qed

lemma create_teacher_reads:
  assumes "\<forall>k \<in> {''teacher_id'', ''first_name'', ''last_name'', ''email'', ''phone'',
                   ''specialization''}. map_of d k = map_of d' k"
  shows "create_teacher e (JObj d) st = create_teacher e (JObj d') st"
proof -
  have "dict_get d ''teacher_id'' x = dict_get d' ''teacher_id'' x" for x
    using assms by (intro dict_get_cong) simp
  moreover have "dict_get d ''first_name'' JNull = dict_get d' ''first_name'' JNull"
    "dict_get d ''last_name'' JNull = dict_get d' ''last_name'' JNull"
    "dict_get d ''email'' JNull = dict_get d' ''email'' JNull"
    "dict_get d ''phone'' JNull = dict_get d' ''phone'' JNull"
    "dict_get d ''specialization'' JNull = dict_get d' ''specialization'' JNull"
    using assms by (auto intro: dict_get_cong)
  ultimately show ?thesis
    by (simp add: create_teacher_def create_teacher_try_def)
qed

lemma create_student_201_row:
  assumes "status_code (fst (create_student e (JObj d) (session_begin s))) = 201"
  shows "\<exists>r. create_student e (JObj d) (session_begin s) =
            (\<lparr>status_code = 201, body = student_to_dict r\<rparr>,
             session_begin (s\<lparr>students := students s @ [r]\<rparr>))
          \<and> s_status r = JStr ''active'' \<and> s_date_of_birth r = None \<and> s_class_id r = None
          \<and> s_enrollment_date r = utcnow e"
proof -
  have row: "s_status (student_row e (student_args e d) s) = JStr ''active''"
    "s_date_of_birth (student_row e (student_args e d) s) = None"
    "s_class_id (student_row e (student_args e d) s) = None"
    "s_enrollment_date (student_row e (student_args e d) s) = utcnow e"
    by (simp_all add: student_row_def student_args_def)
  from assms
  have "create_student e (JObj d) (session_begin s) =
            (\<lparr>status_code = 201, body = student_to_dict (student_row e (student_args e d) s)\<rparr>,
             session_begin (s\<lparr>students := students s @ [student_row e (student_args e d) s]\<rparr>))"
    unfolding create_student_def create_student_object
    by (simp add: except_rollback_500_def missing_required_fields_def error_500_def
        del: first_bind_error.simps split: option.splits if_splits)
  with row show ?thesis by blast
qed

lemma create_teacher_201_row:
  assumes "status_code (fst (create_teacher e (JObj d) (session_begin s))) = 201"
  shows "\<exists>r. create_teacher e (JObj d) (session_begin s) =
            (\<lparr>status_code = 201, body = teacher_to_dict r\<rparr>,
             session_begin (s\<lparr>teachers := teachers s @ [r]\<rparr>))
          \<and> t_status r = JStr ''active'' \<and> t_hire_date r = utcnow e"
proof -
  have row: "t_status (teacher_row e (teacher_args e d) s) = JStr ''active''"
    "t_hire_date (teacher_row e (teacher_args e d) s) = utcnow e"
    by (simp_all add: teacher_row_def teacher_args_def)
  from assms
  have "create_teacher e (JObj d) (session_begin s) =
            (\<lparr>status_code = 201, body = teacher_to_dict (teacher_row e (teacher_args e d) s)\<rparr>,
             session_begin (s\<lparr>teachers := teachers s @ [teacher_row e (teacher_args e d) s]\<rparr>))"
    unfolding create_teacher_def create_teacher_object
    by (simp add: except_rollback_500_def missing_required_fields_def error_500_def
        del: first_bind_error.simps split: option.splits if_splits)
  with row show ?thesis by blast
qed

text \<open>
  C8. Whenever the student (teacher) creation handler answers 201, the record it appended
  has status "active", whatever status the payload supplied; for a student, date_of_birth
  and class_id are null and enrollment_date is the column default (the time of the
  insert). The handlers read only the keys student_id (teacher_id), first_name, last_name,
  email, phone (and specialization for teachers): two payloads that agree on these keys
  get the same response and the same resulting state, so a supplied status, date_of_birth,
  class_id or enrollment_date has no effect.
\<close>

theorem C8_fixed_status_ignored_keys:
  "(status_code (fst (create_student e (JObj d) (session_begin s))) = 201 \<longrightarrow>
      (\<exists>r. create_student e (JObj d) (session_begin s) =
            (\<lparr>status_code = 201, body = student_to_dict r\<rparr>,
             session_begin (s\<lparr>students := students s @ [r]\<rparr>))
          \<and> s_status r = JStr ''active'' \<and> s_date_of_birth r = None \<and> s_class_id r = None
          \<and> s_enrollment_date r = utcnow e))
 \<and> (status_code (fst (create_teacher e (JObj d) (session_begin s))) = 201 \<longrightarrow>
      (\<exists>r. create_teacher e (JObj d) (session_begin s) =
            (\<lparr>status_code = 201, body = teacher_to_dict r\<rparr>,
             session_begin (s\<lparr>teachers := teachers s @ [r]\<rparr>))
          \<and> t_status r = JStr ''active''))
 \<and> ((\<forall>k \<in> {''student_id'', ''first_name'', ''last_name'', ''email'', ''phone''}.
        map_of d k = map_of d' k) \<longrightarrow>
      create_student e (JObj d) st = create_student e (JObj d') st)
 \<and> ((\<forall>k \<in> {''teacher_id'', ''first_name'', ''last_name'', ''email'', ''phone'',
               ''specialization''}. map_of d k = map_of d' k) \<longrightarrow>
      create_teacher e (JObj d) st = create_teacher e (JObj d') st)"
proof (intro conjI impI)
  assume "status_code (fst (create_student e (JObj d) (session_begin s))) = 201"
  then show "\<exists>r. create_student e (JObj d) (session_begin s) =
            (\<lparr>status_code = 201, body = student_to_dict r\<rparr>,
             session_begin (s\<lparr>students := students s @ [r]\<rparr>))
          \<and> s_status r = JStr ''active'' \<and> s_date_of_birth r = None \<and> s_class_id r = None
          \<and> s_enrollment_date r = utcnow e"
    by (rule create_student_201_row)
next
  assume "status_code (fst (create_teacher e (JObj d) (session_begin s))) = 201"
  from create_teacher_201_row [OF this]
  show "\<exists>r. create_teacher e (JObj d) (session_begin s) =
            (\<lparr>status_code = 201, body = teacher_to_dict r\<rparr>,
             session_begin (s\<lparr>teachers := teachers s @ [r]\<rparr>))
          \<and> t_status r = JStr ''active''"
    by blast
next
  assume "\<forall>k \<in> {''student_id'', ''first_name'', ''last_name'', ''email'', ''phone''}.
        map_of d k = map_of d' k"
  then show "create_student e (JObj d) st = create_student e (JObj d') st"
    by (rule create_student_reads)
next
  assume "\<forall>k \<in> {''teacher_id'', ''first_name'', ''last_name'', ''email'', ''phone'',
               ''specialization''}. map_of d k = map_of d' k"
  then show "create_teacher e (JObj d) st = create_teacher e (JObj d') st"
    by (rule create_teacher_reads)
qed

lemma valid_person_student_201:
  "status_code (fst (create_student env0 (JObj valid_person) (session_begin db2))) = 201"
  unfolding create_student_201 [OF valid_person_truthy
      generated_student_ok [OF valid_person_truthy valid_person_codes(1) valid_person_values(1)
        valid_person_new(1,2)] env0_no_fault(2,3)]
  by simp

lemma valid_person_teacher_201:
  "status_code (fst (create_teacher env0 (JObj valid_person) (session_begin db2))) = 201"
  unfolding create_teacher_201 [OF valid_person_truthy
      generated_teacher_ok [OF valid_person_truthy valid_person_codes(2) valid_person_values(2)
        valid_person_new(3,4)] env0_no_fault(2,3)]
  by simp

theorem C8_fixed_status_ignored_keys_witness:
  "map_of valid_person ''status'' = Some (JStr ''graduated'')
 \<and> map_of valid_person ''class_id'' = Some (JNum 7)
 \<and> map_of valid_person ''date_of_birth'' = Some (JStr ''2011-01-01'')
 \<and> (\<exists>r. create_student env0 (JObj valid_person) (session_begin db2) =
            (\<lparr>status_code = 201, body = student_to_dict r\<rparr>,
             session_begin (db2\<lparr>students := students db2 @ [r]\<rparr>))
          \<and> s_status r = JStr ''active'' \<and> s_date_of_birth r = None \<and> s_class_id r = None
          \<and> s_enrollment_date r = utcnow env0)
 \<and> (\<exists>r. create_teacher env0 (JObj valid_person) (session_begin db2) =
            (\<lparr>status_code = 201, body = teacher_to_dict r\<rparr>,
             session_begin (db2\<lparr>teachers := teachers db2 @ [r]\<rparr>))
          \<and> t_status r = JStr ''active'')
 \<and> create_student env0 (JObj valid_person) (session_begin db2) =
     create_student env0 (JObj (take 3 valid_person)) (session_begin db2)
 \<and> create_teacher env0 (JObj valid_person) (session_begin db2) =
     create_teacher env0 (JObj (take 3 valid_person)) (session_begin db2)"
proof -
  have keys: "map_of valid_person ''status'' = Some (JStr ''graduated'')
     \<and> map_of valid_person ''class_id'' = Some (JNum 7)
     \<and> map_of valid_person ''date_of_birth'' = Some (JStr ''2011-01-01'')"
    by (simp add: valid_person_def)
  have s: "\<forall>k \<in> {''student_id'', ''first_name'', ''last_name'', ''email'', ''phone''}.
        map_of valid_person k = map_of (take 3 valid_person) k"
    by (simp add: valid_person_def)
  have t: "\<forall>k \<in> {''teacher_id'', ''first_name'', ''last_name'', ''email'', ''phone'',
               ''specialization''}. map_of valid_person k = map_of (take 3 valid_person) k"
    by (simp add: valid_person_def)
  show ?thesis
    using C8_fixed_status_ignored_keys
        [of env0 valid_person db2 "take 3 valid_person" "session_begin db2"]
      valid_person_student_201 valid_person_teacher_201 keys s t
    by blast
qed

section \<open>Listing classes\<close>

text \<open>
  C7. With the storage engine answering the query, GET /api/classes/ answers 200 with one
  serialized entry for every stored class, in table order and without pagination; "total"
  is the number of entries; and the entry of each class carries its id and a
  student_count equal to the number of stored students whose class_id is that id.
\<close>

theorem C7_all_classes_with_counts:
  assumes "query_fault e = None"
  shows "\<exists>cs. get_all_classes e (session_begin d) =
           (\<lparr>status_code = 200,
             body = JObj [(''classes'', JArr cs), (''total'', JNum (int (length cs)))]\<rparr>,
            session_begin d)
        \<and> length cs = length (classes d)
        \<and> (\<forall>i < length (classes d).
             json_field (cs ! i) ''id'' = Some (JNum (c_id (classes d ! i)))
           \<and> json_field (cs ! i) ''student_count'' =
               Some (JNum (int (length (filter (\<lambda>s. s_class_id s = Some (c_id (classes d ! i)))
                                          (students d))))))"
proof -
  let ?cs = "map (class_to_dict d) (classes d)"
  have "get_all_classes e (session_begin d) =
           (\<lparr>status_code = 200,
             body = JObj [(''classes'', JArr ?cs), (''total'', JNum (int (length ?cs)))]\<rparr>,
            session_begin d)"
    using assms
    by (simp add: get_all_classes_def get_all_classes_try_def Class_query_all_def except_500_def
        stored_session_begin)
  moreover have "length ?cs = length (classes d)" by simp
  moreover have "\<forall>i < length (classes d).
             json_field (?cs ! i) ''id'' = Some (JNum (c_id (classes d ! i)))
           \<and> json_field (?cs ! i) ''student_count'' =
               Some (JNum (int (length (filter (\<lambda>s. s_class_id s = Some (c_id (classes d ! i)))
                                          (students d)))))"
    by (simp add: json_field_def class_to_dict_def class_students_def)
  ultimately show ?thesis by blast
qed

theorem C7_all_classes_with_counts_witness:
  "query_fault env0 = None
 \<and> (\<exists>cs. get_all_classes env0 (session_begin db2) =
           (\<lparr>status_code = 200,
             body = JObj [(''classes'', JArr cs), (''total'', JNum 1)]\<rparr>,
            session_begin db2)
        \<and> length cs = 1
        \<and> json_field (cs ! 0) ''id'' = Some (JNum 1)
        \<and> json_field (cs ! 0) ''student_count'' = Some (JNum 2))"
proof -
  have q: "query_fault env0 = None" by (simp add: env0_def)
  have c: "classes db2 = [algebra]" "students db2 = [alice, bob]" by (simp_all add: db2_def)
  have k: "c_id algebra = 1" "s_class_id alice = Some 1" "s_class_id bob = Some 1"
    by (simp_all add: algebra_def alice_def bob_def)
  from C7_all_classes_with_counts [OF q, of db2]
  obtain cs where cs: "get_all_classes env0 (session_begin db2) =
           (\<lparr>status_code = 200,
             body = JObj [(''classes'', JArr cs), (''total'', JNum (int (length cs)))]\<rparr>,
            session_begin db2)"
     "length cs = length (classes db2)"
     "\<forall>i < length (classes db2).
             json_field (cs ! i) ''id'' = Some (JNum (c_id (classes db2 ! i)))
           \<and> json_field (cs ! i) ''student_count'' =
               Some (JNum (int (length (filter (\<lambda>s. s_class_id s = Some (c_id (classes db2 ! i)))
                                          (students db2)))))"
    by blast
  from cs(2) have l: "length cs = 1" by (simp add: c)
  from cs(3) have "json_field (cs ! 0) ''id'' = Some (JNum 1)
        \<and> json_field (cs ! 0) ''student_count'' = Some (JNum 2)"
    by (simp add: c k)
  with cs(1) l q show ?thesis by auto
qed

section \<open>Pagination\<close>

lemma min_per_page_le_1: "min_per_page v \<le> 1"
  by (cases v) simp_all

lemma min_per_page_ge_0: "0 \<le> min_per_page v"
  by (cases v) simp_all

lemma paginate_in_range:
  assumes "query_fault e = None" "1 \<le> p" "1 \<le> s"
    and "sqlite_int s" "sqlite_int ((p - 1) * s)"
    and "p = 1 \<or> (p - 1) * s < int (length rows)"
  shows "paginate e rows p s =
           Inr \<lparr>p_items = take (nat s) (drop (nat ((p - 1) * s)) rows),
                p_total = int (length rows),
                p_pages = - ((- int (length rows)) div s)\<rparr>"
proof -
  have m: "\<not> s < min_per_page (fsa e)"
    using min_per_page_le_1 [of "fsa e"] assms(3) by linarith
  have nonempty: "take (nat s) (drop (nat ((p - 1) * s)) rows) \<noteq> []" if "p \<noteq> 1"
  proof -
    from that assms(6) have lt: "(p - 1) * s < int (length rows)" by simp
    have "0 \<le> (p - 1) * s" using assms(2,3) by simp
    with lt have "nat ((p - 1) * s) < length rows" by linarith
    moreover have "0 < nat s" using assms(3) by simp
    ultimately show ?thesis by simp
  qed
  show ?thesis
    using assms(1,2,3,4,5) m nonempty by (auto simp: paginate_def Let_def)
qed

lemma paginate_past_last:
  assumes "query_fault e = None" "1 < p"
    and "sqlite_int s" "sqlite_int ((p - 1) * s)"
    and "int (length rows) \<le> (p - 1) * s"
  shows "paginate e rows p s = Inl NotFound"
proof (cases "s < min_per_page (fsa e)")
  case True
  then show ?thesis using assms by (simp add: paginate_def)
next
  case False
  have "length rows \<le> nat ((p - 1) * s)" using assms(5) by linarith
  then have "take (nat s) (drop (nat ((p - 1) * s)) rows) = []" by simp
  then show ?thesis using assms False by (simp add: paginate_def Let_def)
qed

lemma paginate_page_below_1:
  assumes "p < 1"
  shows "paginate e rows p s = Inl NotFound"
  using assms by (simp add: paginate_def)

lemma paginate_overflow:
  assumes "query_fault e = None" "1 \<le> p" "1 \<le> s"
    and "\<not> sqlite_int s \<or> \<not> sqlite_int ((p - 1) * s)"
  shows "paginate e rows p s = Inl OverflowError"
proof -
  have m: "\<not> s < min_per_page (fsa e)"
    using min_per_page_le_1 [of "fsa e"] assms(3) by linarith
  show ?thesis
    using assms m by (auto simp: paginate_def)
qed

lemma page_length_aux:
  fixes off s :: int
  assumes "0 \<le> off" "off \<le> int n" "0 \<le> s"
  shows "int (min (nat s) (n - nat off)) = min s (int n - off)"
  using assms by (simp add: min_def) linarith

lemma page_length:
  assumes "1 \<le> p" "1 \<le> s" "p = 1 \<or> (p - 1) * s < int (length rows)"
  shows "int (length (take (nat s) (drop (nat ((p - 1) * s)) rows)))
           = min s (int (length rows) - (p - 1) * s)"
proof -
  have "0 \<le> (p - 1) * s" using assms by simp
  moreover have "(p - 1) * s \<le> int (length rows)" using assms by auto
  moreover have "0 \<le> s" using assms by simp
  ultimately have "int (min (nat s) (length rows - nat ((p - 1) * s)))
      = min s (int (length rows) - (p - 1) * s)"
    by (rule page_length_aux)
  then show ?thesis by (simp add: min.commute)
qed

lemma get_all_students_in_range:
  assumes "query_fault e = None" "1 \<le> p" "1 \<le> s"
    and "sqlite_int s" "sqlite_int ((p - 1) * s)"
    and "p = 1 \<or> (p - 1) * s < int (length (students d))"
  shows "get_all_students e (Some p) (Some s) (session_begin d) =
           (\<lparr>status_code = 200,
             body = JObj
               [(''students'', JArr (map student_to_dict
                                  (take (nat s) (drop (nat ((p - 1) * s)) (students d))))),
                (''total'', JNum (int (length (students d)))),
                (''pages'', JNum (- ((- int (length (students d))) div s))),
                (''current_page'', JNum p)]\<rparr>,
            session_begin d)"
  using paginate_in_range [OF assms]
  by (simp add: get_all_students_def get_all_students_try_def except_500_def args_get_def
      stored_session_begin)

lemma get_all_teachers_in_range:
  assumes "query_fault e = None" "1 \<le> p" "1 \<le> s"
    and "sqlite_int s" "sqlite_int ((p - 1) * s)"
    and "p = 1 \<or> (p - 1) * s < int (length (teachers d))"
  shows "get_all_teachers e (Some p) (Some s) (session_begin d) =
           (\<lparr>status_code = 200,
             body = JObj
               [(''teachers'', JArr (map teacher_to_dict
                                  (take (nat s) (drop (nat ((p - 1) * s)) (teachers d))))),
                (''total'', JNum (int (length (teachers d)))),
                (''pages'', JNum (- ((- int (length (teachers d))) div s))),
                (''current_page'', JNum p)]\<rparr>,
            session_begin d)"
  using paginate_in_range [OF assms]
  by (simp add: get_all_teachers_def get_all_teachers_try_def except_500_def args_get_def
      stored_session_begin)

lemma get_all_students_raises:
  assumes "paginate e (students d) p s = Inl x"
  shows "get_all_students e (Some p) (Some s) (session_begin d) =
           (\<lparr>status_code = 500, body = JObj [(''error'', JStr (str_exn x))]\<rparr>,
            session_begin d)"
  using assms
  by (simp add: get_all_students_def get_all_students_try_def except_500_def args_get_def
      stored_session_begin error_500_def)

lemma get_all_teachers_raises:
  assumes "paginate e (teachers d) p s = Inl x"
  shows "get_all_teachers e (Some p) (Some s) (session_begin d) =
           (\<lparr>status_code = 500, body = JObj [(''error'', JStr (str_exn x))]\<rparr>,
            session_begin d)"
  using assms
  by (simp add: get_all_teachers_def get_all_teachers_try_def except_500_def args_get_def
      stored_session_begin error_500_def)

lemma sqlite_int_small:
  "sqlite_int 0" "sqlite_int 2" "sqlite_int 10"
  by (simp_all add: sqlite_int_def)

text \<open>
  C1, as the claim states it, fails: with two stored students, page 2 of size 10 is past
  the last page, and the response is not 200 with an empty list but 500, carrying the
  message of the 404 that paginate raised.
\<close>

theorem C1_counterexample:
  "get_all_students env0 (Some 2) (Some 10) (session_begin db2) =
     (\<lparr>status_code = 500,
       body = JObj [(''error'', JStr
         ''404 Not Found: The requested URL was not found on the server. If you entered the URL manually please check your spelling and try again.'')]\<rparr>,
      session_begin db2)"
proof -
  have "paginate env0 (students db2) 2 10 = Inl NotFound"
    by (rule paginate_past_last [OF env0_no_fault(1)])
      (simp_all add: db2_def sqlite_int_def)
  from get_all_students_raises [OF this] show ?thesis by simp
qed

text \<open>
  C1, amended. With the storage engine answering the query, for a page number p \<ge> 1 and
  a page size s \<ge> 1:

  \<^item> when s and the offset (p - 1) * s fit a 64-bit integer and p is 1 or the page starts
    inside the table ((p - 1) * s < count), GET /api/students/ answers 200; the items are
    the s rows from offset (p - 1) * s, so there are min s (count - (p - 1) * s) of them,
    at most s and fewer on a short last page; "total" is the count of all stored students
    and "current_page" is p;

  \<^item> when s or the offset does not fit a 64-bit integer, binding LIMIT and OFFSET raises
    and the answer is 500 with the message of the OverflowError.

  A page number past the last page (p > 1 with count \<le> (p - 1) * s, both in 64 bits) and
  a page number below 1 make paginate abort with 404, which the handler's catch-all turns
  into a 500 response with that message and no items list. Page 1 and size 10 are the
  defaults. GET /api/teachers/ behaves the same way over the stored teachers.
\<close>

theorem C1_pagination_amended:
  assumes "query_fault e = None"
  shows
  "(1 \<le> p \<and> 1 \<le> s \<and> sqlite_int s \<and> sqlite_int ((p - 1) * s)
      \<and> (p = 1 \<or> (p - 1) * s < int (length (students d))) \<longrightarrow>
      (\<exists>its. get_all_students e (Some p) (Some s) (session_begin d) =
           (\<lparr>status_code = 200,
             body = JObj
               [(''students'', JArr (map student_to_dict its)),
                (''total'', JNum (int (length (students d)))),
                (''pages'', JNum (- ((- int (length (students d))) div s))),
                (''current_page'', JNum p)]\<rparr>,
            session_begin d)
         \<and> its = take (nat s) (drop (nat ((p - 1) * s)) (students d))
         \<and> int (length its) \<le> s
         \<and> int (length its) = min s (int (length (students d)) - (p - 1) * s)))
 \<and> (1 \<le> p \<and> 1 \<le> s \<and> (\<not> sqlite_int s \<or> \<not> sqlite_int ((p - 1) * s)) \<longrightarrow>
      get_all_students e (Some p) (Some s) (session_begin d) =
        (\<lparr>status_code = 500, body = JObj [(''error'', JStr (str_exn OverflowError))]\<rparr>,
         session_begin d))
 \<and> ((1 < p \<and> sqlite_int s \<and> sqlite_int ((p - 1) * s)
        \<and> int (length (students d)) \<le> (p - 1) * s) \<or> p < 1 \<longrightarrow>
      get_all_students e (Some p) (Some s) (session_begin d) =
        (\<lparr>status_code = 500, body = JObj [(''error'', JStr (str_exn NotFound))]\<rparr>,
         session_begin d))
 \<and> get_all_students e None None (session_begin d) =
      get_all_students e (Some 1) (Some 10) (session_begin d)
 \<and> (1 \<le> p \<and> 1 \<le> s \<and> sqlite_int s \<and> sqlite_int ((p - 1) * s)
      \<and> (p = 1 \<or> (p - 1) * s < int (length (teachers d))) \<longrightarrow>
      (\<exists>its. get_all_teachers e (Some p) (Some s) (session_begin d) =
           (\<lparr>status_code = 200,
             body = JObj
               [(''teachers'', JArr (map teacher_to_dict its)),
                (''total'', JNum (int (length (teachers d)))),
                (''pages'', JNum (- ((- int (length (teachers d))) div s))),
                (''current_page'', JNum p)]\<rparr>,
            session_begin d)
         \<and> its = take (nat s) (drop (nat ((p - 1) * s)) (teachers d))
         \<and> int (length its) \<le> s
         \<and> int (length its) = min s (int (length (teachers d)) - (p - 1) * s)))
 \<and> (1 \<le> p \<and> 1 \<le> s \<and> (\<not> sqlite_int s \<or> \<not> sqlite_int ((p - 1) * s)) \<longrightarrow>
      get_all_teachers e (Some p) (Some s) (session_begin d) =
        (\<lparr>status_code = 500, body = JObj [(''error'', JStr (str_exn OverflowError))]\<rparr>,
         session_begin d))
 \<and> ((1 < p \<and> sqlite_int s \<and> sqlite_int ((p - 1) * s)
        \<and> int (length (teachers d)) \<le> (p - 1) * s) \<or> p < 1 \<longrightarrow>
      get_all_teachers e (Some p) (Some s) (session_begin d) =
        (\<lparr>status_code = 500, body = JObj [(''error'', JStr (str_exn NotFound))]\<rparr>,
         session_begin d))"
proof (intro conjI impI)
  {
    assume a: "1 \<le> p \<and> 1 \<le> s \<and> sqlite_int s \<and> sqlite_int ((p - 1) * s)
      \<and> (p = 1 \<or> (p - 1) * s < int (length (students d)))"
    let ?its = "take (nat s) (drop (nat ((p - 1) * s)) (students d))"
    have len: "int (length ?its) = min s (int (length (students d)) - (p - 1) * s)"
      using a by (intro page_length) simp_all
    then have "int (length ?its) \<le> s" by linarith
    with len get_all_students_in_range [of e p s d] assms a
    show "\<exists>its. get_all_students e (Some p) (Some s) (session_begin d) =
           (\<lparr>status_code = 200,
             body = JObj
               [(''students'', JArr (map student_to_dict its)),
                (''total'', JNum (int (length (students d)))),
                (''pages'', JNum (- ((- int (length (students d))) div s))),
                (''current_page'', JNum p)]\<rparr>,
            session_begin d)
         \<and> its = take (nat s) (drop (nat ((p - 1) * s)) (students d))
         \<and> int (length its) \<le> s
         \<and> int (length its) = min s (int (length (students d)) - (p - 1) * s)"
      by blast
  }
  {
    assume "1 \<le> p \<and> 1 \<le> s \<and> (\<not> sqlite_int s \<or> \<not> sqlite_int ((p - 1) * s))"
    then have "paginate e (students d) p s = Inl OverflowError"
      using paginate_overflow [OF assms, of p s "students d"] by blast
    then show "get_all_students e (Some p) (Some s) (session_begin d) =
        (\<lparr>status_code = 500, body = JObj [(''error'', JStr (str_exn OverflowError))]\<rparr>,
         session_begin d)"
      by (rule get_all_students_raises)
  }
  {
    assume "(1 < p \<and> sqlite_int s \<and> sqlite_int ((p - 1) * s)
        \<and> int (length (students d)) \<le> (p - 1) * s) \<or> p < 1"
    then have "paginate e (students d) p s = Inl NotFound"
      using paginate_past_last [OF assms, of p s "students d"]
        paginate_page_below_1 [of p e "students d" s] by blast
    then show "get_all_students e (Some p) (Some s) (session_begin d) =
        (\<lparr>status_code = 500, body = JObj [(''error'', JStr (str_exn NotFound))]\<rparr>,
         session_begin d)"
      by (rule get_all_students_raises)
  }
  show "get_all_students e None None (session_begin d) =
      get_all_students e (Some 1) (Some 10) (session_begin d)"
    by (simp add: get_all_students_def get_all_students_try_def args_get_def)
  {
    assume a: "1 \<le> p \<and> 1 \<le> s \<and> sqlite_int s \<and> sqlite_int ((p - 1) * s)
      \<and> (p = 1 \<or> (p - 1) * s < int (length (teachers d)))"
    let ?its = "take (nat s) (drop (nat ((p - 1) * s)) (teachers d))"
    have len: "int (length ?its) = min s (int (length (teachers d)) - (p - 1) * s)"
      using a by (intro page_length) simp_all
    then have "int (length ?its) \<le> s" by linarith
    with len get_all_teachers_in_range [of e p s d] assms a
    show "\<exists>its. get_all_teachers e (Some p) (Some s) (session_begin d) =
           (\<lparr>status_code = 200,
             body = JObj
               [(''teachers'', JArr (map teacher_to_dict its)),
                (''total'', JNum (int (length (teachers d)))),
                (''pages'', JNum (- ((- int (length (teachers d))) div s))),
                (''current_page'', JNum p)]\<rparr>,
            session_begin d)
         \<and> its = take (nat s) (drop (nat ((p - 1) * s)) (teachers d))
         \<and> int (length its) \<le> s
         \<and> int (length its) = min s (int (length (teachers d)) - (p - 1) * s)"
      by blast
  }
  {
    assume "1 \<le> p \<and> 1 \<le> s \<and> (\<not> sqlite_int s \<or> \<not> sqlite_int ((p - 1) * s))"
    then have "paginate e (teachers d) p s = Inl OverflowError"
      using paginate_overflow [OF assms, of p s "teachers d"] by blast
    then show "get_all_teachers e (Some p) (Some s) (session_begin d) =
        (\<lparr>status_code = 500, body = JObj [(''error'', JStr (str_exn OverflowError))]\<rparr>,
         session_begin d)"
      by (rule get_all_teachers_raises)
  }
  {
    assume "(1 < p \<and> sqlite_int s \<and> sqlite_int ((p - 1) * s)
        \<and> int (length (teachers d)) \<le> (p - 1) * s) \<or> p < 1"
    then have "paginate e (teachers d) p s = Inl NotFound"
      using paginate_past_last [OF assms, of p s "teachers d"]
        paginate_page_below_1 [of p e "teachers d" s] by blast
    then show "get_all_teachers e (Some p) (Some s) (session_begin d) =
        (\<lparr>status_code = 500, body = JObj [(''error'', JStr (str_exn NotFound))]\<rparr>,
         session_begin d)"
      by (rule get_all_teachers_raises)
  }
qed

theorem C1_pagination_amended_witness:
  "query_fault env0 = None
 \<and> (\<exists>its. get_all_students env0 (Some 1) (Some 10) (session_begin db2) =
           (\<lparr>status_code = 200,
             body = JObj
               [(''students'', JArr (map student_to_dict its)),
                (''total'', JNum 2), (''pages'', JNum 1), (''current_page'', JNum 1)]\<rparr>,
            session_begin db2)
         \<and> its = [alice, bob] \<and> int (length its) \<le> 10)
 \<and> (\<exists>its. get_all_students env0 (Some 2) (Some 1) (session_begin db2) =
           (\<lparr>status_code = 200,
             body = JObj
               [(''students'', JArr (map student_to_dict its)),
                (''total'', JNum 2), (''pages'', JNum 2), (''current_page'', JNum 2)]\<rparr>,
            session_begin db2)
         \<and> its = [bob])
 \<and> get_all_students env0 (Some 3) (Some 1) (session_begin db2) =
        (\<lparr>status_code = 500, body = JObj [(''error'', JStr (str_exn NotFound))]\<rparr>,
         session_begin db2)
 \<and> get_all_students env0 (Some 0) (Some 1) (session_begin db2) =
        (\<lparr>status_code = 500, body = JObj [(''error'', JStr (str_exn NotFound))]\<rparr>,
         session_begin db2)
 \<and> get_all_students env0 (Some 99999999999999999999) (Some 1) (session_begin db2) =
        (\<lparr>status_code = 500,
          body = JObj [(''error'', JStr ''Python int too large to convert to SQLite INTEGER'')]\<rparr>,
         session_begin db2)
 \<and> (\<exists>its. get_all_teachers env0 (Some 1) (Some 10) (session_begin db2) =
           (\<lparr>status_code = 200,
             body = JObj
               [(''teachers'', JArr (map teacher_to_dict its)),
                (''total'', JNum 0), (''pages'', JNum 0), (''current_page'', JNum 1)]\<rparr>,
            session_begin db2)
         \<and> its = [])
 \<and> get_all_teachers env0 (Some 2) (Some 10) (session_begin db2) =
        (\<lparr>status_code = 500, body = JObj [(''error'', JStr (str_exn NotFound))]\<rparr>,
         session_begin db2)"
proof -
  note q = env0_no_fault(1)
  have s: "students db2 = [alice, bob]" "teachers db2 = []" by (simp_all add: db2_def)
  show ?thesis
    using q C1_pagination_amended [OF q, of 1 10 db2]
      C1_pagination_amended [OF q, of 2 1 db2]
      C1_pagination_amended [OF q, of 3 1 db2] C1_pagination_amended [OF q, of 0 1 db2]
      C1_pagination_amended [OF q, of 99999999999999999999 1 db2]
      C1_pagination_amended [OF q, of 2 10 db2]
    by (simp add: s sqlite_int_def)
qed

end
